theory Spec2Isabelle
  imports Main "HOL-Library.Sublist"
begin

section \<open>Python strings\<close>

text \<open>
  A Python \<^verbatim>\<open>str\<close> is modelled as a HOL \<^typ>\<open>string\<close>; a character stands for a code
  point below 256. \<open>isspace\<close> lists the code points below 256 for which Python's
  \<^verbatim>\<open>str.isspace\<close> holds; they are the characters \<^verbatim>\<open>str.strip()\<close> removes.
\<close>

definition isspace :: "char \<Rightarrow> bool" where
  "isspace c = (c \<in> set [CHR 0x09, CHR 0x0A, CHR 0x0B, CHR 0x0C, CHR 0x0D,
                         CHR 0x1C, CHR 0x1D, CHR 0x1E, CHR 0x1F, CHR 0x20,
                         CHR 0x85, CHR 0xA0])"

definition strip :: "string \<Rightarrow> string" where
  "strip s = rev (dropWhile isspace (rev (dropWhile isspace s)))"

text \<open>\<^verbatim>\<open>s.split(sep)\<close> for a separator of one character: never the empty list.\<close>

fun py_split :: "string \<Rightarrow> char \<Rightarrow> string list" where
  "py_split [] sep = [[]]"
| "py_split (c # cs) sep =
     (if c = sep then [] # py_split cs sep
      else (case py_split cs sep of
              [] \<Rightarrow> [[c]]
            | x # xs \<Rightarrow> (c # x) # xs))"

text \<open>
  \<^verbatim>\<open>s.replace(old, new)\<close>: the occurrences of \<open>old\<close> are found from the left and do
  not overlap. \<open>repl\<close> is the scan for a non-empty \<open>old\<close>; for the empty \<open>old\<close> Python
  puts \<open>new\<close> before every character and at the end.
\<close>

function repl :: "string \<Rightarrow> string \<Rightarrow> string \<Rightarrow> string" where
  "repl old new [] = []"
| "repl old new (c # cs) =
     (if old \<noteq> [] \<and> prefix old (c # cs)
      then new @ repl old new (drop (length old) (c # cs))
      else c # repl old new cs)"
  by pat_completeness auto
termination
  by (relation "measure (\<lambda>(old, new, s). length s)") auto

definition replace :: "string \<Rightarrow> string \<Rightarrow> string \<Rightarrow> string" where
  "replace s old new =
     (if old = [] then new @ concat (map (\<lambda>c. c # new) s) else repl old new s)"

section \<open>The world outside the tool\<close>

text \<open>
  The tool works through child processes, the file system of the current directory, the
  hosting API and two helpers of its own package. Every effect is recorded, in order, as
  an event of the world's \<open>trace\<close>; a child process is recorded with its exit code and
  a request with the response it got (\<open>None\<close> when the request itself fails).
\<close>

record pull =
  state :: string
  number :: int

record response =
  status_code :: nat
  json :: "pull list"

datatype event =
    Clone string string string string  \<comment> \<open>organisation, repository, branch, protocol\<close>
  | Cleanup
  | Print string
  | Exec "string list" int
  | WriteText string string
  | HttpGet string "response option"

datatype error =
    BranchNotFoundError
  | CloneError
  | CalledProcessError "string list" int
  | ConnectionError
  | FileNotFoundError string
  | HTTPError nat
  | RegistryError

record world =
  files :: "string \<rightharpoonup> string"
  trace :: "event list"

datatype clone_result = Cloned "string \<rightharpoonup> string" | BranchMissing | CloneFailed

text \<open>
  What the collaborators answer is a parameter: each answer may depend on the whole world,
  its trace included. A child process returns its exit code and the files it leaves.
\<close>

record env =
  run :: "string list \<Rightarrow> world \<Rightarrow> int \<times> (string \<rightharpoonup> string)"
  http_get :: "string \<Rightarrow> world \<Rightarrow> response option"
  clone :: "string \<Rightarrow> string \<Rightarrow> string \<Rightarrow> string \<Rightarrow> world \<Rightarrow> clone_result"
  staged_changes :: "string list \<Rightarrow> world \<Rightarrow> bool"
  get_repositories :: "world \<Rightarrow> string list option"

type_synonym 'a prog = "world \<Rightarrow> (error + 'a) \<times> world"

definition return :: "'a \<Rightarrow> 'a prog" where
  "return x w = (Inr x, w)"

definition throw :: "error \<Rightarrow> 'a prog" where
  "throw e w = (Inl e, w)"

definition bind :: "'a prog \<Rightarrow> ('a \<Rightarrow> 'b prog) \<Rightarrow> 'b prog" where
  "bind m k w = (case m w of (Inl e, w') \<Rightarrow> (Inl e, w') | (Inr x, w') \<Rightarrow> k x w')"

definition emit :: "event \<Rightarrow> world \<Rightarrow> world" where
  "emit e w = w\<lparr>trace := trace w @ [e]\<rparr>"

definition print :: "string \<Rightarrow> unit prog" where
  "print s w = (Inr (), emit (Print s) w)"

text \<open>\<^verbatim>\<open>subprocess.call\<close> returns the exit code; \<^verbatim>\<open>subprocess.check_call\<close> raises on a
  non-zero one.\<close>

definition call :: "env \<Rightarrow> string list \<Rightarrow> int prog" where
  "call env argv w =
     (case run env argv w of (rc, fs) \<Rightarrow> (Inr rc, emit (Exec argv rc) (w\<lparr>files := fs\<rparr>)))"

definition check_call :: "env \<Rightarrow> string list \<Rightarrow> unit prog" where
  "check_call env argv =
     bind (call env argv) (\<lambda>rc. if rc = 0 then return () else throw (CalledProcessError argv rc))"

text \<open>\<^verbatim>\<open>Path.exists\<close>, \<^verbatim>\<open>Path.read_text\<close> and \<^verbatim>\<open>Path.write_text\<close> on the current directory.\<close>

definition path_exists :: "string \<Rightarrow> bool prog" where
  "path_exists path w = (Inr (files w path \<noteq> None), w)"

definition read_text :: "string \<Rightarrow> string prog" where
  "read_text path w =
     (case files w path of
        None \<Rightarrow> (Inl (FileNotFoundError path), w)
      | Some s \<Rightarrow> (Inr s, w))"

definition write_text :: "string \<Rightarrow> string \<Rightarrow> unit prog" where
  "write_text path s w = (Inr (), emit (WriteText path s) (w\<lparr>files := (files w)(path \<mapsto> s)\<rparr>))"

definition requests_get :: "env \<Rightarrow> string \<Rightarrow> response prog" where
  "requests_get env url w =
     (case http_get env url w of
        None \<Rightarrow> (Inl ConnectionError, emit (HttpGet url None) w)
      | Some r \<Rightarrow> (Inr r, emit (HttpGet url (Some r)) w))"

definition raise_for_status :: "response \<Rightarrow> unit prog" where
  "raise_for_status r =
     (if 400 \<le> status_code r \<and> status_code r < 600 then throw (HTTPError (status_code r))
      else return ())"

text \<open>Python's truth value of an \<^verbatim>\<open>Optional\<close> number: \<^verbatim>\<open>None\<close> and \<^verbatim>\<open>0\<close> are false.\<close>

definition truthy :: "int option \<Rightarrow> bool" where
  "truthy x = (case x of None \<Rightarrow> False | Some n \<Rightarrow> n \<noteq> 0)"

section \<open>tools/copier\_update.py\<close>

definition IGNORED_REJ_FILES :: "string list" where
  "IGNORED_REJ_FILES = [''oca_dependencies.txt.rej'']"

definition make_update_dotfiles_branch :: "string \<Rightarrow> string" where
  "make_update_dotfiles_branch branch = branch @ ''-ocabot-update-dotfiles''"

definition make_commit_msg :: "bool \<Rightarrow> string" where
  "make_commit_msg ci_skip =
     (let msg = ''[IMP] update dotfiles'' in
      if ci_skip then msg @ '' [ci skip]'' else msg)"

definition pulls_url :: "string \<Rightarrow> string \<Rightarrow> string \<Rightarrow> string" where
  "pulls_url org repo branch =
     ''https://api.github.com/repos'' @ ''/'' @ org @ ''/'' @ repo @ ''/pulls'' @
     ''?base='' @ branch @ ''&head='' @ org @ '':'' @ make_update_dotfiles_branch branch"

definition get_update_dotfiles_open_pr ::
    "env \<Rightarrow> string \<Rightarrow> string \<Rightarrow> string \<Rightarrow> int option prog" where
  "get_update_dotfiles_open_pr env org repo branch =
     bind (requests_get env (pulls_url org repo branch)) (\<lambda>r.
     bind (raise_for_status r) (\<lambda>_.
       case json r of
         [] \<Rightarrow> return None
       | pr # _ \<Rightarrow> if state pr = ''open'' then return (Some (number pr)) else return None))"

text \<open>The body of the pull request, as \<^verbatim>\<open>textwrap.dedent\<close> leaves it.\<close>

definition pr_body :: string where
  "pr_body =
     ''Dear maintainer,'' @ [CHR 0x0A, CHR 0x0A] @
     ''After updating the dotfiles, '' @ [CHR 0x60] @ ''pre-commit run -a'' @ [CHR 0x60, CHR 0x0A] @
     ''fails in a manner that cannot be resolved automatically.'' @ [CHR 0x0A, CHR 0x0A] @
     ''Can you please have a look, fix and merge?'' @ [CHR 0x0A, CHR 0x0A] @
     ''Thanks,'' @ [CHR 0x0A]"

definition gh_pr_create :: "string \<Rightarrow> string \<Rightarrow> string \<Rightarrow> string list" where
  "gh_pr_create org repo branch =
     [''gh'', ''pr'', ''create'',
      ''--repo'', org @ ''/'' @ repo,
      ''--base'', branch,
      ''--title'', ''['' @ branch @ ''] dotfiles update needs manual intervention'',
      ''--body'', pr_body,
      ''--label'', ''help wanted'']"

definition make_update_dotfiles_pr :: "env \<Rightarrow> string \<Rightarrow> string \<Rightarrow> string \<Rightarrow> unit prog" where
  "make_update_dotfiles_pr env org repo branch =
     (let pr_branch = make_update_dotfiles_branch branch in
      bind (check_call env [''git'', ''checkout'', ''-B'', pr_branch]) (\<lambda>_.
      bind (check_call env [''git'', ''add'', ''.'']) (\<lambda>_.
      bind (check_call env [''git'', ''commit'', ''-m'', make_commit_msg False]) (\<lambda>_.
      bind (check_call env [''git'', ''push'', ''-f'', ''origin'', pr_branch]) (\<lambda>_.
      bind (get_update_dotfiles_open_pr env org repo branch) (\<lambda>pr.
      if \<not> truthy pr then check_call env (gh_pr_create org repo branch)
      else return ()))))))"

text \<open>The generator's two nested loops; the pairs come out in the order it yields them.\<close>

fun branch_loop :: "string \<Rightarrow> string list \<Rightarrow> (string \<times> string) list" where
  "branch_loop repo [] = []"
| "branch_loop repo (branch # rest) =
     (let branch = strip branch in
      if branch = [] then branch_loop repo rest
      else (repo, branch) # branch_loop repo rest)"

fun repo_loop :: "string list \<Rightarrow> string \<Rightarrow> (string \<times> string) list" where
  "repo_loop [] branches = []"
| "repo_loop (repo # rest) branches =
     (let repo = strip repo in
      if repo = [] then repo_loop rest branches
      else branch_loop repo (py_split branches (CHR '','')) @ repo_loop rest branches)"

definition iterate_repos_and_branches ::
    "env \<Rightarrow> string \<Rightarrow> string \<Rightarrow> (string \<times> string) list prog" where
  "iterate_repos_and_branches env repos branches w =
     (if repos = '':all:'' then
        (case get_repositories env w of
           None \<Rightarrow> (Inl RegistryError, w)
         | Some all_repos \<Rightarrow> (Inr (repo_loop all_repos branches), w))
      else (Inr (repo_loop (py_split repos (CHR '','')) branches), w))"

text \<open>The two literals of the replacement; \<open>CHR 0x22\<close> is the double quote.\<close>

definition null_description :: string where
  "null_description = ''repo_description: null''"

definition empty_description :: string where
  "empty_description = ''repo_description: '' @ [CHR 0x22, CHR 0x22]"

definition fix_copier_answers :: "env \<Rightarrow> unit prog" where
  "fix_copier_answers env =
     bind (path_exists ''.copier-answers.yml'') (\<lambda>present.
     if \<not> present then return ()
     else
       bind (read_text ''.copier-answers.yml'') (\<lambda>copier_answers.
       let modified_copier_answers = replace copier_answers null_description empty_description in
       if modified_copier_answers \<noteq> copier_answers then
         bind (write_text ''.copier-answers.yml'' modified_copier_answers) (\<lambda>_.
         bind (check_call env [''git'', ''add'', ''.copier-answers.yml'']) (\<lambda>_.
         check_call env [''git'', ''commit'', ''-m'', ''[FIX] .copier-answers.yml'']))
       else return ()))"

text \<open>Whether the paths have staged changes relative to HEAD: an answer of the environment.\<close>

definition has_staged_changes :: "env \<Rightarrow> string list \<Rightarrow> bool prog" where
  "has_staged_changes env paths w = (Inr (staged_changes env paths w), w)"

text \<open>
  Modelled from the spec: \<^verbatim>\<open>commit_if_needed\<close> of \<^verbatim>\<open>tools/gitutils.py\<close>, which is not
  among the sources. The spec: if there are staged changes relative to HEAD, create a commit
  with the given message; if there are none, do nothing (no empty commit). It reports whether
  a commit was made. The commit is a child process, as the commits of this file are.
\<close>

definition commit_if_needed :: "env \<Rightarrow> string list \<Rightarrow> string \<Rightarrow> bool prog" where
  "commit_if_needed env paths message =
     bind (has_staged_changes env paths) (\<lambda>changed.
     if changed
     then bind (check_call env [''git'', ''commit'', ''-m'', message]) (\<lambda>_. return True)
     else return False)"

text \<open>
  Modelled from the spec: the context manager \<^verbatim>\<open>temporary_clone\<close> of
  \<^verbatim>\<open>tools/oca_projects.py\<close>, which is not among the sources. The spec: on entry it clones the
  branch into a fresh temporary directory and makes that the working directory; a remote
  branch that does not exist is the distinguished branch-not-found failure; on every exit of
  the enclosed block it removes the directory and restores the working directory.
\<close>

definition temporary_clone ::
    "env \<Rightarrow> string \<Rightarrow> string \<Rightarrow> string \<Rightarrow> string \<Rightarrow> unit prog \<Rightarrow> unit prog" where
  "temporary_clone env org_name project_name branch protocol block w =
     (let w1 = emit (Clone org_name project_name branch protocol) w in
      case clone env org_name project_name branch protocol w of
        BranchMissing \<Rightarrow> (Inl BranchNotFoundError, w1)
      | CloneFailed \<Rightarrow> (Inl CloneError, w1)
      | Cloned fs \<Rightarrow>
          (case block (w1\<lparr>files := fs\<rparr>) of
             (r, w2) \<Rightarrow> (r, emit Cleanup (w2\<lparr>files := files w\<rparr>))))"

text \<open>The command-line options of \<^verbatim>\<open>main\<close>.\<close>

record params =
  org :: string
  repos :: string
  branches :: string
  git_user_name :: string
  git_user_email :: string
  skip_ci :: bool
  git_protocol :: string

text \<open>Lines 173 to 178: \<^verbatim>\<open>for _ in range(3)\<close>, with the passes left and the variable \<open>r\<close>.\<close>

fun precommit_loop :: "env \<Rightarrow> nat \<Rightarrow> int \<Rightarrow> int prog" where
  "precommit_loop env 0 r = return r"
| "precommit_loop env (Suc n) r =
     bind (call env [''pre-commit'', ''run'', ''-a'']) (\<lambda>r.
     bind (check_call env [''git'', ''add'', ''.'']) (\<lambda>_.
     if r = 0 then return r else precommit_loop env n r))"

text \<open>Lines 180 to 182.\<close>

definition needs_manual_intervention :: "env \<Rightarrow> params \<Rightarrow> string \<Rightarrow> string \<Rightarrow> unit prog" where
  "needs_manual_intervention env p repo branch =
     bind (print (replicate 10 (CHR ''$'') @ '' '' @ ''need manual intervention in '' @ repo)) (\<lambda>_.
     make_update_dotfiles_pr env (org p) repo branch)"

text \<open>Lines 183 and 184.\<close>

definition ready_to_publish :: "env \<Rightarrow> params \<Rightarrow> unit prog" where
  "ready_to_publish env p =
     bind (commit_if_needed env [''.''] (make_commit_msg (skip_ci p))) (\<lambda>committed.
     if committed then check_call env [''git'', ''push''] else return ())"

text \<open>Lines 166 to 184: after a successful update, whose exit code is \<open>r\<close>.\<close>

definition formatting :: "env \<Rightarrow> params \<Rightarrow> string \<Rightarrow> string \<Rightarrow> int \<Rightarrow> unit prog" where
  "formatting env p repo branch r =
     bind (check_call env ([''rm'', ''-f''] @ IGNORED_REJ_FILES)) (\<lambda>_.
     bind (check_call env [''git'', ''add'', ''.'']) (\<lambda>_.
     bind (precommit_loop env 3 r) (\<lambda>r.
     if r \<noteq> 0 then needs_manual_intervention env p repo branch
     else ready_to_publish env p)))"

text \<open>Lines 162 to 184.\<close>

definition updating :: "env \<Rightarrow> params \<Rightarrow> string \<Rightarrow> string \<Rightarrow> unit prog" where
  "updating env p repo branch =
     bind (call env [''copier'', ''update'', ''-f'', ''--trust'']) (\<lambda>r.
     if r \<noteq> 0
     then print (replicate 10 (CHR ''$'') @ '' '' @ ''copier update failed on '' @ repo)
     else formatting env p repo branch r)"

text \<open>Lines 149 to 184: the block inside \<^verbatim>\<open>with temporary_clone(...)\<close>.\<close>

definition clone_block :: "env \<Rightarrow> params \<Rightarrow> string \<Rightarrow> string \<Rightarrow> unit prog" where
  "clone_block env p repo branch =
     bind (print (replicate 10 (CHR ''='') @ '' '' @ repo @ '' '' @ branch @ '' '' @
                  replicate 10 (CHR ''=''))) (\<lambda>_.
     bind (if git_user_name p \<noteq> []
           then check_call env [''git'', ''config'', ''user.name'', git_user_name p]
           else return ()) (\<lambda>_.
     bind (if git_user_email p \<noteq> []
           then check_call env [''git'', ''config'', ''user.email'', git_user_email p]
           else return ()) (\<lambda>_.
     bind (path_exists ''.copier-answers.yml'') (\<lambda>present.
     if \<not> present
     then print (''Skipping '' @ repo @ '' because it has no .copier-answers.yml'')
     else bind (fix_copier_answers env) (\<lambda>_. updating env p repo branch)))))"

text \<open>Lines 145 to 186: one pass of the \<^verbatim>\<open>for\<close> body, before the \<^verbatim>\<open>except\<close> clause.\<close>

definition iteration :: "env \<Rightarrow> params \<Rightarrow> string \<Rightarrow> string \<Rightarrow> unit prog" where
  "iteration env p repo branch =
     temporary_clone env (org p) repo branch (git_protocol p) (clone_block env p repo branch)"

text \<open>The \<^verbatim>\<open>for\<close> loop with its \<^verbatim>\<open>try\<close>: only \<open>BranchNotFoundError\<close> is caught.\<close>

fun main_loop :: "env \<Rightarrow> params \<Rightarrow> (string \<times> string) list \<Rightarrow> unit prog" where
  "main_loop env p [] w = (Inr (), w)"
| "main_loop env p ((repo, branch) # rest) w =
     (case iteration env p repo branch w of
        (Inl e, w') \<Rightarrow>
          if e = BranchNotFoundError then main_loop env p rest w' else (Inl e, w')
      | (Inr _, w') \<Rightarrow> main_loop env p rest w')"

definition main :: "env \<Rightarrow> params \<Rightarrow> unit prog" where
  "main env p =
     bind (iterate_repos_and_branches env (repos p) (branches p)) (\<lambda>pairs.
     main_loop env p pairs)"

section \<open>Observations on traces\<close>

text \<open>The exit codes of the runs of one command line, in the order of the trace.\<close>

fun exit_codes :: "string list \<Rightarrow> event list \<Rightarrow> int list" where
  "exit_codes argv [] = []"
| "exit_codes argv (Exec a rc # es) =
     (if a = argv then rc # exit_codes argv es else exit_codes argv es)"
| "exit_codes argv (e # es) = exit_codes argv es"

text \<open>The events are formatting passes and nothing else: each a run of the formatting tool
  with the staging of all changes right after it.\<close>

fun staged_after_each :: "event list \<Rightarrow> bool" where
  "staged_after_each [] = True"
| "staged_after_each (Exec a rc # Exec b rc' # es) =
     (a = [''pre-commit'', ''run'', ''-a''] \<and> b = [''git'', ''add'', ''.''] \<and> staged_after_each es)"
| "staged_after_each es = False"

text \<open>A program only appends to the trace, and every event it appends satisfies \<open>P\<close>.\<close>

definition emits_only :: "(event \<Rightarrow> bool) \<Rightarrow> 'a prog \<Rightarrow> bool" where
  "emits_only P m = (\<forall>w. \<exists>es. trace (snd (m w)) = trace w @ es \<and> list_all P es)"

text \<open>The pairs whose clone was attempted, in the order of the trace.\<close>

fun clone_attempts :: "event list \<Rightarrow> (string \<times> string) list" where
  "clone_attempts [] = []"
| "clone_attempts (Clone og repo branch protocol # es) = (repo, branch) # clone_attempts es"
| "clone_attempts (e # es) = clone_attempts es"

text \<open>
  The events of the three parts of an iteration inside its clone. \<open>setup_event\<close>: what
  lines 149 to 161 can do (banner or skip notice, git identity, the fix of the answers file).
  \<open>pr_event\<close>: what \<^verbatim>\<open>_make_update_dotfiles_pr\<close> can do. \<open>publish_event\<close>: what lines 166 to
  184 can do after a successful update.
\<close>

definition setup_event :: "params \<Rightarrow> event \<Rightarrow> bool" where
  "setup_event p e =
     (case e of
        Print s \<Rightarrow> True
      | WriteText path s \<Rightarrow> path = ''.copier-answers.yml''
      | Exec argv rc \<Rightarrow>
          argv \<in> set [[''git'', ''config'', ''user.name'', git_user_name p],
                      [''git'', ''config'', ''user.email'', git_user_email p],
                      [''git'', ''add'', ''.copier-answers.yml''],
                      [''git'', ''commit'', ''-m'', ''[FIX] .copier-answers.yml'']]
      | _ \<Rightarrow> False)"

definition pr_event :: "string \<Rightarrow> string \<Rightarrow> string \<Rightarrow> event \<Rightarrow> bool" where
  "pr_event og repo branch e =
     (case e of
        Exec argv rc \<Rightarrow>
          argv \<in> set [[''git'', ''checkout'', ''-B'', make_update_dotfiles_branch branch],
                      [''git'', ''add'', ''.''],
                      [''git'', ''commit'', ''-m'', ''[IMP] update dotfiles''],
                      [''git'', ''push'', ''-f'', ''origin'', make_update_dotfiles_branch branch],
                      gh_pr_create og repo branch]
      | HttpGet url r \<Rightarrow> url = pulls_url og repo branch
      | _ \<Rightarrow> False)"

definition publish_event :: "params \<Rightarrow> string \<Rightarrow> string \<Rightarrow> event \<Rightarrow> bool" where
  "publish_event p repo branch e =
     (pr_event (org p) repo branch e \<or>
      (case e of
         Print s \<Rightarrow> True
       | Exec argv rc \<Rightarrow>
           argv \<in> set [[''rm'', ''-f'', ''oca_dependencies.txt.rej''],
                       [''git'', ''add'', ''.''],
                       [''pre-commit'', ''run'', ''-a''],
                       [''git'', ''commit'', ''-m'', make_commit_msg (skip_ci p)],
                       [''git'', ''push'']]
       | _ \<Rightarrow> False))"

text \<open>Every event of an iteration inside its clone: the three parts and the update itself.\<close>

definition block_event :: "params \<Rightarrow> string \<Rightarrow> string \<Rightarrow> event \<Rightarrow> bool" where
  "block_event p repo branch e =
     (setup_event p e \<or> publish_event p repo branch e \<or>
      (case e of Exec argv rc \<Rightarrow> argv = [''copier'', ''update'', ''-f'', ''--trust''] | _ \<Rightarrow> False))"

text \<open>Not a commit whose message carries the CI-skip marker.\<close>

definition unmarked :: "event \<Rightarrow> bool" where
  "unmarked e =
     (case e of
        Exec argv rc \<Rightarrow> argv \<noteq> [''git'', ''commit'', ''-m'', ''[IMP] update dotfiles [ci skip]'']
      | _ \<Rightarrow> True)"

text \<open>
  Every commit with the marker comes right after a formatting pass that exited with 0 and
  the staging that follows it; \<open>a\<close> and \<open>b\<close> are the two events before the list.
\<close>

fun marked_after_pass :: "event \<Rightarrow> event \<Rightarrow> event list \<Rightarrow> bool" where
  "marked_after_pass a b [] = True"
| "marked_after_pass a b (c # es) =
     ((unmarked c \<or>
       (a = Exec [''pre-commit'', ''run'', ''-a''] 0 \<and> b = Exec [''git'', ''add'', ''.''] 0))
      \<and> marked_after_pass b c es)"

text \<open>
  The contract of the hosting service for the listing as the tool requests it (base and
  head, no state): the answer lists open pull requests only, and none of them has the
  number 0.
\<close>

definition open_listing :: "response \<Rightarrow> bool" where
  "open_listing r = list_all (\<lambda>pr. state pr = ''open'' \<and> number pr \<noteq> 0) (json r)"

text \<open>
  Lines 149 to 161 on their own, with the answer whether the iteration goes on to the
  update (\<open>False\<close> after the skip notice); \<open>clone_block\<close> is these lines followed by the
  update.
\<close>

definition preparing :: "env \<Rightarrow> params \<Rightarrow> string \<Rightarrow> string \<Rightarrow> bool prog" where
  "preparing env p repo branch =
     bind (print (replicate 10 (CHR ''='') @ '' '' @ repo @ '' '' @ branch @ '' '' @
                  replicate 10 (CHR ''=''))) (\<lambda>_.
     bind (if git_user_name p \<noteq> []
           then check_call env [''git'', ''config'', ''user.name'', git_user_name p]
           else return ()) (\<lambda>_.
     bind (if git_user_email p \<noteq> []
           then check_call env [''git'', ''config'', ''user.email'', git_user_email p]
           else return ()) (\<lambda>_.
     bind (path_exists ''.copier-answers.yml'') (\<lambda>present.
     if \<not> present
     then bind (print (''Skipping '' @ repo @ '' because it has no .copier-answers.yml''))
            (\<lambda>_. return False)
     else bind (fix_copier_answers env) (\<lambda>_. return True)))))"

text \<open>The spec's words for the resolved list: the trimmed, non-empty comma-split.\<close>

definition trimmed_nonempty_split :: "string \<Rightarrow> string list" where
  "trimmed_nonempty_split s = filter (\<lambda>x. x \<noteq> []) (map strip (py_split s (CHR '','')))"

section \<open>A simulated environment\<close>

text \<open>
  Collaborators for concrete runs. A script gives, for a command line, the exit codes of
  its successive runs; a command the script does not name, or a run past the end of its
  codes, exits with 0. No child process changes a file. The hosting API answers every
  request with status 200 and the given pull requests; the branches listed as missing do
  not exist, every other clone holds an answers file; \<open>changes\<close> says whether there are
  staged changes.
\<close>

definition scripted_run ::
    "(string list \<times> int list) list \<Rightarrow> string list \<Rightarrow> world \<Rightarrow> int \<times> (string \<rightharpoonup> string)" where
  "scripted_run script argv w =
     (case map_of script argv of
        None \<Rightarrow> (0, files w)
      | Some codes \<Rightarrow>
          (let i = length (exit_codes argv (trace w)) in
           (if i < length codes then codes ! i else 0, files w)))"

definition simulated ::
    "(string list \<times> int list) list \<Rightarrow> pull list \<Rightarrow> bool \<Rightarrow> string list \<Rightarrow> env" where
  "simulated script prs changes missing =
     \<lparr>run = scripted_run script,
      http_get = (\<lambda>url w. Some \<lparr>status_code = 200, json = prs\<rparr>),
      clone = (\<lambda>og repo branch protocol w.
                 if branch \<in> set missing then BranchMissing
                 else Cloned [''.copier-answers.yml'' \<mapsto> ''_commit: v1.17'']),
      staged_changes = (\<lambda>paths w. changes),
      get_repositories = (\<lambda>w. Some [])\<rparr>"

text \<open>The same collaborators, with every clone's answers file holding \<open>content\<close>.\<close>

definition with_answers :: "string \<Rightarrow> env \<Rightarrow> env" where
  "with_answers content env =
     env\<lparr>clone := (\<lambda>og repo branch protocol w.
              case clone env og repo branch protocol w of
                Cloned fs \<Rightarrow> Cloned (fs(''.copier-answers.yml'' \<mapsto> content))
              | BranchMissing \<Rightarrow> BranchMissing
              | CloneFailed \<Rightarrow> CloneFailed)\<rparr>"

definition start :: world where
  "start = \<lparr>files = Map.empty, trace = []\<rparr>"

definition oca :: params where
  "oca = \<lparr>org = ''OCA'', repos = ''web,server-tools'', branches = ''16.0,17.0'',
          git_user_name = ''oca-git-bot'', git_user_email = ''oca-git-bot@odoo-community.org'',
          skip_ci = False, git_protocol = ''git''\<rparr>"

section \<open>The replacement of the answers file\<close>

lemma repl_at_match:
  "old \<noteq> [] \<Longrightarrow> prefix old s \<Longrightarrow>
     repl old new s = new @ repl old new (drop (length old) s)"
  by (cases s) auto

lemma repl_no_match:
  "\<not> prefix old (c # cs) \<Longrightarrow> repl old new (c # cs) = c # repl old new cs"
  by simp

lemma null_description_nonempty: "null_description \<noteq> []"
  by (simp add: null_description_def)

lemma suffix_null_description:
  assumes "suffix u null_description" and "u \<noteq> []"
      and "prefix u (empty_description @ t)"
  shows False
  using assms
  by (auto simp add: null_description_def empty_description_def suffix_Cons)

lemma repl_empty_description:
  assumes "repl null_description empty_description t = t"
  shows "repl null_description empty_description (empty_description @ t) = empty_description @ t"
proof -
  have "repl null_description new (empty_description @ t) =
          empty_description @ repl null_description new t" for new
    by (simp add: null_description_def empty_description_def)
  with assms show ?thesis by simp
qed

lemma prefix_repl_transfer:
  "suffix u null_description \<Longrightarrow> prefix u (repl null_description empty_description s)
     \<Longrightarrow> prefix u s"
proof (induction "length s" arbitrary: s u rule: less_induct)
  case less
  show ?case
  proof (cases u)
    case Nil
    then show ?thesis by simp
  next
    case (Cons a u')
    show ?thesis
    proof (cases s)
      case Nil
      with less.prems(2) Cons show ?thesis by simp
    next
      case s: (Cons c cs)
      show ?thesis
      proof (cases "prefix null_description s")
        case True
        then have "repl null_description empty_description s =
            empty_description @ repl null_description empty_description (drop (length null_description) s)"
          by (rule repl_at_match [OF null_description_nonempty])
        with less.prems(2) have "prefix u (empty_description @
            repl null_description empty_description (drop (length null_description) s))"
          by simp
        moreover have "u \<noteq> []" unfolding Cons by simp
        ultimately have False
          by (rule suffix_null_description [OF less.prems(1), rotated])
        then show ?thesis ..
      next
        case False
        then have r: "repl null_description empty_description s =
            c # repl null_description empty_description cs"
          unfolding s by (rule repl_no_match)
        from less.prems(1) have u': "suffix u' null_description"
          unfolding Cons by (rule suffix_ConsD)
        from less.prems(2) have "prefix (a # u') (c # repl null_description empty_description cs)"
          unfolding r Cons .
        then have "a = c" and "prefix u' (repl null_description empty_description cs)"
          by simp_all
        moreover have "length cs < length s" unfolding s by simp
        ultimately have "prefix u' cs"
          by (simp add: less.hyps [OF _ u'])
        with \<open>a = c\<close> show ?thesis unfolding Cons s by simp
      qed
    qed
  qed
qed


lemma repl_idem:
  "repl null_description empty_description (repl null_description empty_description s) =
     repl null_description empty_description s"
proof (induction "length s" arbitrary: s rule: less_induct)
  case less
  show ?case
  proof (cases s)
    case Nil
    then show ?thesis by simp
  next
    case s: (Cons c cs)
    show ?thesis
    proof (cases "prefix null_description s")
      case True
      then have e: "repl null_description empty_description s =
          empty_description @ repl null_description empty_description (drop (length null_description) s)"
        by (rule repl_at_match [OF null_description_nonempty])
      have "length (drop (length null_description) s) < length s"
        unfolding s by (simp add: null_description_def)
      then have "repl null_description empty_description
          (repl null_description empty_description (drop (length null_description) s)) =
          repl null_description empty_description (drop (length null_description) s)"
        by (rule less.hyps)
      then show ?thesis
        unfolding e by (rule repl_empty_description)
    next
      case False
      then have r: "repl null_description empty_description s =
          c # repl null_description empty_description cs"
        unfolding s by (rule repl_no_match)
      have "\<not> prefix null_description (c # repl null_description empty_description cs)"
      proof
        assume "prefix null_description (c # repl null_description empty_description cs)"
        then have "prefix null_description (repl null_description empty_description s)"
          unfolding r .
        then have "prefix null_description s"
          by (rule prefix_repl_transfer [OF suffix_order.refl])
        with False show False ..
      qed
      then have "repl null_description empty_description
            (c # repl null_description empty_description cs) =
          c # repl null_description empty_description
            (repl null_description empty_description cs)"
        by (rule repl_no_match)
      moreover have "length cs < length s" unfolding s by simp
      ultimately show ?thesis
        unfolding r by (simp add: less.hyps)
    qed
  qed
qed

lemma replace_idem:
  "replace (replace c null_description empty_description) null_description empty_description =
     replace c null_description empty_description"
  by (simp add: replace_def repl_idem null_description_nonempty)

section \<open>What a program appends to the trace\<close>

lemma emits_onlyD:
  "emits_only P m \<Longrightarrow> m w = (res, w') \<Longrightarrow> \<exists>es. trace w' = trace w @ es \<and> list_all P es"
  unfolding emits_only_def by (metis snd_conv)

lemma emits_only_mono:
  "emits_only P m \<Longrightarrow> (\<And>e. P e \<Longrightarrow> Q e) \<Longrightarrow> emits_only Q m"
  unfolding emits_only_def list_all_iff by blast

lemma emits_only_return [intro!]: "emits_only P (return x)"
  by (simp add: emits_only_def return_def)

lemma emits_only_throw [intro!]: "emits_only P (throw e)"
  by (simp add: emits_only_def throw_def)

lemma emits_only_print [intro]: "P (Print s) \<Longrightarrow> emits_only P (print s)"
  by (simp add: emits_only_def print_def emit_def)

lemma emits_only_call [intro]: "(\<And>rc. P (Exec argv rc)) \<Longrightarrow> emits_only P (call env argv)"
  by (simp add: emits_only_def call_def emit_def split: prod.splits)

lemma emits_only_write_text [intro]: "P (WriteText path s) \<Longrightarrow> emits_only P (write_text path s)"
  by (simp add: emits_only_def write_text_def emit_def)

lemma emits_only_requests_get [intro]:
  "(\<And>r. P (HttpGet url r)) \<Longrightarrow> emits_only P (requests_get env url)"
  by (simp add: emits_only_def requests_get_def emit_def split: option.splits)

lemma emits_only_bind [intro]:
  assumes "emits_only P m" and "\<And>x. emits_only P (k x)"
  shows "emits_only P (bind m k)"
  unfolding emits_only_def
proof
  fix w
  obtain r w1 where m: "m w = (r, w1)" by (cases "m w")
  from emits_onlyD [OF assms(1) m] obtain es1
    where es1: "trace w1 = trace w @ es1" "list_all P es1" by blast
  show "\<exists>es. trace (snd (bind m k w)) = trace w @ es \<and> list_all P es"
  proof (cases r)
    case (Inl e)
    with m es1 show ?thesis by (simp add: bind_def)
  next
    case (Inr x)
    obtain r2 w2 where k: "k x w1 = (r2, w2)" by (cases "k x w1")
    from emits_onlyD [OF assms(2) k] obtain es2
      where "trace w2 = trace w1 @ es2" "list_all P es2" by blast
    with m es1 Inr k show ?thesis by (simp add: bind_def)
  qed
qed

lemma emits_only_if [intro]:
  "emits_only P a \<Longrightarrow> emits_only P b \<Longrightarrow> emits_only P (if c then a else b)"
  by simp

lemma emits_only_check_call [intro]:
  "(\<And>rc. P (Exec argv rc)) \<Longrightarrow> emits_only P (check_call env argv)"
  unfolding check_call_def by (intro emits_only_bind emits_only_call emits_only_if) auto

lemma emits_only_precommit_loop:
  assumes "\<And>rc. P (Exec [''pre-commit'', ''run'', ''-a''] rc)"
      and "\<And>rc. P (Exec [''git'', ''add'', ''.''] rc)"
  shows "emits_only P (precommit_loop env n r)"
  using assms by (induction n arbitrary: r) (auto intro!: emits_only_bind)

section \<open>The formatting passes\<close>

lemma precommit_loop_shape:
  "precommit_loop env n r w = (res, w') \<Longrightarrow>
   \<exists>es. trace w' = trace w @ es \<and> staged_after_each es
      \<and> length (exit_codes [''pre-commit'', ''run'', ''-a''] es) \<le> n
      \<and> 0 \<notin> set (butlast (exit_codes [''pre-commit'', ''run'', ''-a''] es))
      \<and> (n = 0 \<longrightarrow> res = Inr r \<and> es = [])
      \<and> (0 < n \<longrightarrow> exit_codes [''pre-commit'', ''run'', ''-a''] es \<noteq> [])
      \<and> (\<forall>r'. 0 < n \<longrightarrow> res = Inr r' \<longrightarrow>
            r' = last (exit_codes [''pre-commit'', ''run'', ''-a''] es)
          \<and> (r' = 0 \<or> length (exit_codes [''pre-commit'', ''run'', ''-a''] es) = n))"
proof (induction n arbitrary: r w res w')
  case 0
  then show ?case by (auto simp add: return_def)
next
  case (Suc n)
  obtain rc fs where run1: "run env [''pre-commit'', ''run'', ''-a''] w = (rc, fs)"
    by (cases "run env [''pre-commit'', ''run'', ''-a''] w")
  define w1 where "w1 = emit (Exec [''pre-commit'', ''run'', ''-a''] rc) (w\<lparr>files := fs\<rparr>)"
  obtain rc2 fs2 where run2: "run env [''git'', ''add'', ''.''] w1 = (rc2, fs2)"
    by (cases "run env [''git'', ''add'', ''.''] w1")
  define w2 where "w2 = emit (Exec [''git'', ''add'', ''.''] rc2) (w1\<lparr>files := fs2\<rparr>)"
  have t2: "trace w2 = trace w @ [Exec [''pre-commit'', ''run'', ''-a''] rc, Exec [''git'', ''add'', ''.''] rc2]"
    by (simp add: w2_def w1_def emit_def)
  have step: "precommit_loop env (Suc n) r w =
      (if rc2 \<noteq> 0 then (Inl (CalledProcessError [''git'', ''add'', ''.''] rc2), w2)
       else if rc = 0 then (Inr rc, w2) else precommit_loop env n rc w2)"
    using run1 run2
    by (simp add: bind_def call_def check_call_def return_def throw_def w1_def w2_def)
  show ?case
  proof (cases "rc2 \<noteq> 0 \<or> rc = 0")
    case True
    with Suc.prems step t2 show ?thesis
      by (intro exI [of _ "[Exec [''pre-commit'', ''run'', ''-a''] rc, Exec [''git'', ''add'', ''.''] rc2]"])
         (auto split: if_splits)
  next
    case False
    with Suc.prems step have rec: "precommit_loop env n rc w2 = (res, w')" by simp
    from Suc.IH [OF rec] obtain es where es:
      "trace w' = trace w2 @ es" "staged_after_each es"
      "length (exit_codes [''pre-commit'', ''run'', ''-a''] es) \<le> n"
      "0 \<notin> set (butlast (exit_codes [''pre-commit'', ''run'', ''-a''] es))"
      "n = 0 \<longrightarrow> res = Inr rc \<and> es = []"
      "0 < n \<longrightarrow> exit_codes [''pre-commit'', ''run'', ''-a''] es \<noteq> []"
      "\<forall>r'. 0 < n \<longrightarrow> res = Inr r' \<longrightarrow>
            r' = last (exit_codes [''pre-commit'', ''run'', ''-a''] es)
          \<and> (r' = 0 \<or> length (exit_codes [''pre-commit'', ''run'', ''-a''] es) = n)"
      by blast
    show ?thesis
      using es False t2
      by (intro exI [of _ "[Exec [''pre-commit'', ''run'', ''-a''] rc, Exec [''git'', ''add'', ''.''] rc2] @ es"])
         (cases "n = 0"; auto)
  qed
qed

section \<open>Concrete runs\<close>

lemma replicate_10: "replicate 10 c = [c, c, c, c, c, c, c, c, c, c]"
  by (simp add: numeral_eq_Suc)

lemmas prog_defs = replicate_10 bind_def return_def throw_def emit_def print_def call_def check_call_def
  path_exists_def read_text_def write_text_def requests_get_def raise_for_status_def
  has_staged_changes_def Let_def

lemmas simulated_defs = simulated_def scripted_run_def start_def oca_def

lemmas iteration_defs = iteration_def temporary_clone_def clone_block_def fix_copier_answers_def
  updating_def formatting_def IGNORED_REJ_FILES_def numeral_3_eq_3 needs_manual_intervention_def
  ready_to_publish_def commit_if_needed_def make_commit_msg_def make_update_dotfiles_pr_def
  make_update_dotfiles_branch_def get_update_dotfiles_open_pr_def truthy_def
  replace_def null_description_def empty_description_def

section \<open>The commit messages\<close>

text \<open>
  C8: The commit message of the direct-push commit is exactly \<^verbatim>\<open>[IMP] update dotfiles\<close> when
  the skip-ci flag is unset and exactly \<^verbatim>\<open>[IMP] update dotfiles [ci skip]\<close> when it is set:
  these are the two values of \<open>make_commit_msg\<close>, and the direct-push step hands
  \<open>commit_if_needed\<close> the one that belongs to the flag.
\<close>

theorem direct_push_commit_message:
  "make_commit_msg False = ''[IMP] update dotfiles''
   \<and> make_commit_msg True = ''[IMP] update dotfiles [ci skip]''
   \<and> ready_to_publish env p =
       bind (commit_if_needed env [''.'']
               (if skip_ci p then ''[IMP] update dotfiles [ci skip]'' else ''[IMP] update dotfiles''))
            (\<lambda>committed. if committed then check_call env [''git'', ''push''] else return ())"
  by (simp add: make_commit_msg_def ready_to_publish_def)

theorem direct_push_commit_message_witness:
  "ready_to_publish (simulated [] [] True []) (oca\<lparr>skip_ci := True\<rparr>) start =
     (Inr (), start\<lparr>trace := [Exec [''git'', ''commit'', ''-m'', ''[IMP] update dotfiles [ci skip]''] 0,
                              Exec [''git'', ''push''] 0]\<rparr>)"
  using direct_push_commit_message [of "simulated [] [] True []" "oca\<lparr>skip_ci := True\<rparr>"]
  by (simp add: oca_def start_def simulated_def scripted_run_def bind_def commit_if_needed_def
        has_staged_changes_def check_call_def call_def return_def throw_def emit_def)

section \<open>The lookup of an open pull request\<close>

text \<open>
  C10: The open-PR lookup inspects only the first element of the list the hosting API
  returns. When the request succeeds, it returns a number if and only if the list is not
  empty and its first element has the state \<^verbatim>\<open>open\<close>, and that number is the first element's;
  for the empty list and for a first element that is not open it returns no PR, whatever
  the later elements are.
\<close>

theorem open_pr_lookup_first_element:
  assumes "http_get env (pulls_url og repo branch) w = Some r"
      and "status_code r < 400 \<or> 600 \<le> status_code r"
  shows "((fst (get_update_dotfiles_open_pr env og repo branch w) = Inr (Some n)) =
            (\<exists>pr rest. json r = pr # rest \<and> state pr = ''open'' \<and> number pr = n))
       \<and> ((fst (get_update_dotfiles_open_pr env og repo branch w) = Inr None) =
            (json r = [] \<or> (\<exists>pr rest. json r = pr # rest \<and> state pr \<noteq> ''open'')))"
  using assms
  by (auto simp add: get_update_dotfiles_open_pr_def bind_def requests_get_def raise_for_status_def
        return_def throw_def split: list.splits)

theorem open_pr_lookup_first_element_witness:
  "http_get (simulated [] [\<lparr>state = ''closed'', number = 5\<rparr>, \<lparr>state = ''open'', number = 7\<rparr>] False [])
      (pulls_url ''OCA'' ''web'' ''16.0'') start =
     Some \<lparr>status_code = 200, json = [\<lparr>state = ''closed'', number = 5\<rparr>, \<lparr>state = ''open'', number = 7\<rparr>]\<rparr>
   \<and> status_code \<lparr>status_code = 200, json = [\<lparr>state = ''closed'', number = 5\<rparr>, \<lparr>state = ''open'', number = 7\<rparr>]\<rparr> < 400
   \<and> fst (get_update_dotfiles_open_pr
         (simulated [] [\<lparr>state = ''closed'', number = 5\<rparr>, \<lparr>state = ''open'', number = 7\<rparr>] False [])
         ''OCA'' ''web'' ''16.0'' start) = Inr None"
  using open_pr_lookup_first_element
    [of "simulated [] [\<lparr>state = ''closed'', number = 5\<rparr>, \<lparr>state = ''open'', number = 7\<rparr>] False []"
        "''OCA''" "''web''" "''16.0''" start "\<lparr>status_code = 200, json = [\<lparr>state = ''closed'', number = 5\<rparr>, \<lparr>state = ''open'', number = 7\<rparr>]\<rparr>"]
  by (simp add: simulated_def)

section \<open>The pairs of repositories and branches\<close>

lemma branch_loop_eq:
  "branch_loop repo bs = map (Pair repo) (filter (\<lambda>x. x \<noteq> []) (map strip bs))"
  by (induction bs) (simp_all add: Let_def)

lemma repo_loop_eq:
  "repo_loop rs bs =
     List.product (filter (\<lambda>x. x \<noteq> []) (map strip rs)) (trimmed_nonempty_split bs)"
  by (induction rs) (simp_all add: Let_def branch_loop_eq trimmed_nonempty_split_def)

text \<open>
  C4: For every repos selector other than \<^verbatim>\<open>:all:\<close> and every branches string, the iterator
  yields exactly the cross-product of the trimmed, non-empty comma-split of the repos with
  the trimmed, non-empty comma-split of the branches, in the order of the input (repository
  first), so as many pairs as the product of the two lengths.
\<close>

theorem cross_product_of_selectors:
  assumes "rs \<noteq> '':all:''"
  shows "iterate_repos_and_branches env rs bs w =
           (Inr (List.product (trimmed_nonempty_split rs) (trimmed_nonempty_split bs)), w)
       \<and> length (List.product (trimmed_nonempty_split rs) (trimmed_nonempty_split bs)) =
           length (trimmed_nonempty_split rs) * length (trimmed_nonempty_split bs)"
  using assms
  by (simp add: iterate_repos_and_branches_def repo_loop_eq trimmed_nonempty_split_def)

theorem cross_product_of_selectors_witness:
  "'' web, ,server-tools'' \<noteq> '':all:''
   \<and> iterate_repos_and_branches (simulated [] [] False []) '' web, ,server-tools'' ''16.0, 17.0 ,'' start =
     (Inr [(''web'', ''16.0''), (''web'', ''17.0''),
           (''server-tools'', ''16.0''), (''server-tools'', ''17.0'')], start)"
  using cross_product_of_selectors
    [of "'' web, ,server-tools''" "simulated [] [] False []" "''16.0, 17.0 ,''" start]
  by (simp add: trimmed_nonempty_split_def strip_def isspace_def)

section \<open>The fixer of the answers file\<close>

lemma fix_copier_answers_absent:
  "files w ''.copier-answers.yml'' = None \<Longrightarrow> fix_copier_answers env w = (Inr (), w)"
  by (simp add: fix_copier_answers_def path_exists_def read_text_def bind_def return_def)

lemma fix_copier_answers_unchanged:
  "files w ''.copier-answers.yml'' = Some c \<Longrightarrow>
   replace c null_description empty_description = c \<Longrightarrow>
   fix_copier_answers env w = (Inr (), w)"
  by (simp add: fix_copier_answers_def path_exists_def read_text_def bind_def return_def)

lemma fix_copier_answers_writes:
  "files w ''.copier-answers.yml'' = Some c \<Longrightarrow>
   replace c null_description empty_description \<noteq> c \<Longrightarrow>
   \<exists>es. trace (snd (fix_copier_answers env w)) =
     trace w @ WriteText ''.copier-answers.yml'' (replace c null_description empty_description) # es"
  by (auto simp add: fix_copier_answers_def path_exists_def read_text_def Let_def bind_def
        write_text_def check_call_def call_def return_def throw_def emit_def split: prod.splits)

text \<open>
  C5: The answers-file fixer is idempotent. For every content, replacing twice gives what
  replacing once gives. A run on a world whose answers file holds what a first run wrote
  changes nothing: it writes no file and runs no command, so there is no second commit.
  A run is also a no-op, without an error, when the answers file is absent or when the
  replacement leaves its content unchanged; otherwise the run writes the replaced content.
\<close>

theorem answers_fix_idempotent:
  "replace (replace c null_description empty_description) null_description empty_description =
     replace c null_description empty_description
   \<and> (files w ''.copier-answers.yml'' = None \<longrightarrow> fix_copier_answers env w = (Inr (), w))
   \<and> (files w ''.copier-answers.yml'' = Some c \<and> replace c null_description empty_description = c
        \<longrightarrow> fix_copier_answers env w = (Inr (), w))
   \<and> (files w ''.copier-answers.yml'' = Some c \<and> replace c null_description empty_description \<noteq> c
        \<longrightarrow> (\<exists>es. trace (snd (fix_copier_answers env w)) =
               trace w @ WriteText ''.copier-answers.yml''
                           (replace c null_description empty_description) # es))
   \<and> (files w1 ''.copier-answers.yml'' = Some (replace c null_description empty_description)
        \<longrightarrow> fix_copier_answers env w1 = (Inr (), w1))"
  using fix_copier_answers_absent [of w env] fix_copier_answers_unchanged [of w c env]
    fix_copier_answers_writes [of w c env]
    fix_copier_answers_unchanged [of w1 "replace c null_description empty_description" env]
    replace_idem [of c]
  by simp

theorem answers_fix_idempotent_witness:
  "files start ''.copier-answers.yml'' = None
   \<and> fix_copier_answers (simulated [] [] False []) start = (Inr (), start)
   \<and> replace (''_commit: v1.17'' @ [CHR 0x0A] @ ''repo_description: null'' @ [CHR 0x0A])
        null_description empty_description =
       ''_commit: v1.17'' @ [CHR 0x0A] @ ''repo_description: '' @ [CHR 0x22, CHR 0x22, CHR 0x0A]
   \<and> fix_copier_answers (simulated [] [] False [])
        (start\<lparr>files := [''.copier-answers.yml'' \<mapsto>
          ''_commit: v1.17'' @ [CHR 0x0A] @ ''repo_description: null'' @ [CHR 0x0A]]\<rparr>) =
       (Inr (), start\<lparr>files := [''.copier-answers.yml'' \<mapsto>
          ''_commit: v1.17'' @ [CHR 0x0A] @ ''repo_description: '' @ [CHR 0x22, CHR 0x22, CHR 0x0A]],
        trace :=
          [WriteText ''.copier-answers.yml''
            (''_commit: v1.17'' @ [CHR 0x0A] @ ''repo_description: '' @ [CHR 0x22, CHR 0x22, CHR 0x0A]),
           Exec [''git'', ''add'', ''.copier-answers.yml''] 0,
           Exec [''git'', ''commit'', ''-m'', ''[FIX] .copier-answers.yml''] 0]\<rparr>)
   \<and> replace (''_commit: v1.17'' @ [CHR 0x0A] @ ''repo_description: '' @ [CHR 0x22, CHR 0x22, CHR 0x0A])
        null_description empty_description =
       ''_commit: v1.17'' @ [CHR 0x0A] @ ''repo_description: '' @ [CHR 0x22, CHR 0x22, CHR 0x0A]
   \<and> fix_copier_answers (simulated [] [] False [])
        (start\<lparr>files := [''.copier-answers.yml'' \<mapsto>
          ''_commit: v1.17'' @ [CHR 0x0A] @ ''repo_description: '' @ [CHR 0x22, CHR 0x22, CHR 0x0A]],
        trace :=
          [WriteText ''.copier-answers.yml''
            (''_commit: v1.17'' @ [CHR 0x0A] @ ''repo_description: '' @ [CHR 0x22, CHR 0x22, CHR 0x0A]),
           Exec [''git'', ''add'', ''.copier-answers.yml''] 0,
           Exec [''git'', ''commit'', ''-m'', ''[FIX] .copier-answers.yml''] 0]\<rparr>) =
       (Inr (), start\<lparr>files := [''.copier-answers.yml'' \<mapsto>
          ''_commit: v1.17'' @ [CHR 0x0A] @ ''repo_description: '' @ [CHR 0x22, CHR 0x22, CHR 0x0A]],
        trace :=
          [WriteText ''.copier-answers.yml''
            (''_commit: v1.17'' @ [CHR 0x0A] @ ''repo_description: '' @ [CHR 0x22, CHR 0x22, CHR 0x0A]),
           Exec [''git'', ''add'', ''.copier-answers.yml''] 0,
           Exec [''git'', ''commit'', ''-m'', ''[FIX] .copier-answers.yml''] 0]\<rparr>)"
  using answers_fix_idempotent
      [where c = "''_commit: v1.17'' @ [CHR 0x0A] @ ''repo_description: null'' @ [CHR 0x0A]"
         and w = start and env = "simulated [] [] False []"
         and ?w1.0 = "start\<lparr>files := [''.copier-answers.yml'' \<mapsto>
          ''_commit: v1.17'' @ [CHR 0x0A] @ ''repo_description: '' @ [CHR 0x22, CHR 0x22, CHR 0x0A]],
        trace :=
          [WriteText ''.copier-answers.yml''
            (''_commit: v1.17'' @ [CHR 0x0A] @ ''repo_description: '' @ [CHR 0x22, CHR 0x22, CHR 0x0A]),
           Exec [''git'', ''add'', ''.copier-answers.yml''] 0,
           Exec [''git'', ''commit'', ''-m'', ''[FIX] .copier-answers.yml''] 0]\<rparr>"]
    answers_fix_idempotent
      [where c = "''_commit: v1.17'' @ [CHR 0x0A] @ ''repo_description: null'' @ [CHR 0x0A]"
         and w = "start\<lparr>files := [''.copier-answers.yml'' \<mapsto>
          ''_commit: v1.17'' @ [CHR 0x0A] @ ''repo_description: null'' @ [CHR 0x0A]]\<rparr>"
         and env = "simulated [] [] False []"
         and ?w1.0 = "start\<lparr>files := [''.copier-answers.yml'' \<mapsto>
          ''_commit: v1.17'' @ [CHR 0x0A] @ ''repo_description: '' @ [CHR 0x22, CHR 0x22, CHR 0x0A]],
        trace :=
          [WriteText ''.copier-answers.yml''
            (''_commit: v1.17'' @ [CHR 0x0A] @ ''repo_description: '' @ [CHR 0x22, CHR 0x22, CHR 0x0A]),
           Exec [''git'', ''add'', ''.copier-answers.yml''] 0,
           Exec [''git'', ''commit'', ''-m'', ''[FIX] .copier-answers.yml''] 0]\<rparr>"]
    answers_fix_idempotent
      [where c = "''_commit: v1.17'' @ [CHR 0x0A] @ ''repo_description: '' @ [CHR 0x22, CHR 0x22, CHR 0x0A]"
         and w = "start\<lparr>files := [''.copier-answers.yml'' \<mapsto>
          ''_commit: v1.17'' @ [CHR 0x0A] @ ''repo_description: '' @ [CHR 0x22, CHR 0x22, CHR 0x0A]],
        trace :=
          [WriteText ''.copier-answers.yml''
            (''_commit: v1.17'' @ [CHR 0x0A] @ ''repo_description: '' @ [CHR 0x22, CHR 0x22, CHR 0x0A]),
           Exec [''git'', ''add'', ''.copier-answers.yml''] 0,
           Exec [''git'', ''commit'', ''-m'', ''[FIX] .copier-answers.yml''] 0]\<rparr>"
         and env = "simulated [] [] False []"
         and ?w1.0 = "start\<lparr>files := [''.copier-answers.yml'' \<mapsto>
          ''_commit: v1.17'' @ [CHR 0x0A] @ ''repo_description: '' @ [CHR 0x22, CHR 0x22, CHR 0x0A]],
        trace :=
          [WriteText ''.copier-answers.yml''
            (''_commit: v1.17'' @ [CHR 0x0A] @ ''repo_description: '' @ [CHR 0x22, CHR 0x22, CHR 0x0A]),
           Exec [''git'', ''add'', ''.copier-answers.yml''] 0,
           Exec [''git'', ''commit'', ''-m'', ''[FIX] .copier-answers.yml''] 0]\<rparr>"]
  by (simp add: fix_copier_answers_def replace_def null_description_def empty_description_def
        prog_defs simulated_defs)

section \<open>The retry loop of the formatting tool\<close>

lemma formatting_after_loop:
  "check_call env ([''rm'', ''-f''] @ IGNORED_REJ_FILES) w = (Inr (), w1) \<Longrightarrow>
   check_call env [''git'', ''add'', ''.''] w1 = (Inr (), w2) \<Longrightarrow>
   precommit_loop env 3 r w2 = (Inr r', w3) \<Longrightarrow>
   formatting env p repo branch r w =
     (if r' \<noteq> 0 then needs_manual_intervention env p repo branch w3
      else ready_to_publish env p w3)"
  by (simp add: formatting_def bind_def)

lemma simulated_loop_110:
  "precommit_loop (simulated [([''pre-commit'', ''run'', ''-a''], [1, 1, 0])] [] True []) 3 0 start =
     (Inr 0, start\<lparr>trace :=
        [Exec [''pre-commit'', ''run'', ''-a''] 1, Exec [''git'', ''add'', ''.''] 0,
         Exec [''pre-commit'', ''run'', ''-a''] 1, Exec [''git'', ''add'', ''.''] 0,
         Exec [''pre-commit'', ''run'', ''-a''] 0, Exec [''git'', ''add'', ''.''] 0]\<rparr>)"
  by (simp add: numeral_3_eq_3 bind_def call_def check_call_def return_def throw_def emit_def
        simulated_def scripted_run_def start_def)

lemma simulated_loop_111:
  "precommit_loop (simulated [([''pre-commit'', ''run'', ''-a''], [1, 1, 1])] [] True []) 3 0 start =
     (Inr 1, start\<lparr>trace :=
        [Exec [''pre-commit'', ''run'', ''-a''] 1, Exec [''git'', ''add'', ''.''] 0,
         Exec [''pre-commit'', ''run'', ''-a''] 1, Exec [''git'', ''add'', ''.''] 0,
         Exec [''pre-commit'', ''run'', ''-a''] 1, Exec [''git'', ''add'', ''.''] 0]\<rparr>)"
  by (simp add: numeral_3_eq_3 bind_def call_def check_call_def return_def throw_def emit_def
        simulated_def scripted_run_def start_def)

lemma simulated_formatting_111:
  "formatting (simulated [([''pre-commit'', ''run'', ''-a''], [1, 1, 1])] [] True []) oca
      ''web'' ''16.0'' 0 start =
   needs_manual_intervention (simulated [([''pre-commit'', ''run'', ''-a''], [1, 1, 1])] [] True []) oca
      ''web'' ''16.0''
      (start\<lparr>trace :=
        [Exec [''rm'', ''-f'', ''oca_dependencies.txt.rej''] 0, Exec [''git'', ''add'', ''.''] 0,
         Exec [''pre-commit'', ''run'', ''-a''] 1, Exec [''git'', ''add'', ''.''] 0,
         Exec [''pre-commit'', ''run'', ''-a''] 1, Exec [''git'', ''add'', ''.''] 0,
         Exec [''pre-commit'', ''run'', ''-a''] 1, Exec [''git'', ''add'', ''.''] 0]\<rparr>)"
  by (simp add: formatting_def IGNORED_REJ_FILES_def numeral_3_eq_3 bind_def call_def check_call_def
        return_def throw_def emit_def simulated_def scripted_run_def start_def)

text \<open>
  C1: The retry loop runs the formatting tool at least once and at most 3 times, stages all
  changes right after every run, and stops at the first run that exits with 0: every exit
  code before the last is non-zero, and the loop's result is the last exit code. After
  the loop a non-zero result takes the manual-intervention path and a zero result the
  ready-to-publish path. With the simulated exit codes 1, 1, 0 there are exactly 3 runs
  and the result is 0; with 1, 1, 1 the result is 1 and the manual-intervention path is
  taken.
\<close>

theorem formatting_retry_loop:
  "(precommit_loop env 3 r w = (res, w') \<longrightarrow>
      (\<exists>es. trace w' = trace w @ es \<and> staged_after_each es
         \<and> length (exit_codes [''pre-commit'', ''run'', ''-a''] es) \<le> 3
         \<and> 0 \<notin> set (butlast (exit_codes [''pre-commit'', ''run'', ''-a''] es))
         \<and> exit_codes [''pre-commit'', ''run'', ''-a''] es \<noteq> []
         \<and> (\<forall>r'. res = Inr r' \<longrightarrow>
               r' = last (exit_codes [''pre-commit'', ''run'', ''-a''] es)
             \<and> (r' = 0 \<or> length (exit_codes [''pre-commit'', ''run'', ''-a''] es) = 3))))
   \<and> (check_call env ([''rm'', ''-f''] @ IGNORED_REJ_FILES) w = (Inr (), w1)
       \<and> check_call env [''git'', ''add'', ''.''] w1 = (Inr (), w2)
       \<and> precommit_loop env 3 r w2 = (Inr r', w3) \<longrightarrow>
       formatting env p repo branch r w =
         (if r' \<noteq> 0 then needs_manual_intervention env p repo branch w3
          else ready_to_publish env p w3))
   \<and> precommit_loop (simulated [([''pre-commit'', ''run'', ''-a''], [1, 1, 0])] [] True []) 3 0 start =
       (Inr 0, start\<lparr>trace :=
          [Exec [''pre-commit'', ''run'', ''-a''] 1, Exec [''git'', ''add'', ''.''] 0,
           Exec [''pre-commit'', ''run'', ''-a''] 1, Exec [''git'', ''add'', ''.''] 0,
           Exec [''pre-commit'', ''run'', ''-a''] 0, Exec [''git'', ''add'', ''.''] 0]\<rparr>)
   \<and> precommit_loop (simulated [([''pre-commit'', ''run'', ''-a''], [1, 1, 1])] [] True []) 3 0 start =
       (Inr 1, start\<lparr>trace :=
          [Exec [''pre-commit'', ''run'', ''-a''] 1, Exec [''git'', ''add'', ''.''] 0,
           Exec [''pre-commit'', ''run'', ''-a''] 1, Exec [''git'', ''add'', ''.''] 0,
           Exec [''pre-commit'', ''run'', ''-a''] 1, Exec [''git'', ''add'', ''.''] 0]\<rparr>)
   \<and> formatting (simulated [([''pre-commit'', ''run'', ''-a''], [1, 1, 1])] [] True []) oca
         ''web'' ''16.0'' 0 start =
       needs_manual_intervention (simulated [([''pre-commit'', ''run'', ''-a''], [1, 1, 1])] [] True []) oca
         ''web'' ''16.0''
         (start\<lparr>trace :=
           [Exec [''rm'', ''-f'', ''oca_dependencies.txt.rej''] 0, Exec [''git'', ''add'', ''.''] 0,
            Exec [''pre-commit'', ''run'', ''-a''] 1, Exec [''git'', ''add'', ''.''] 0,
            Exec [''pre-commit'', ''run'', ''-a''] 1, Exec [''git'', ''add'', ''.''] 0,
            Exec [''pre-commit'', ''run'', ''-a''] 1, Exec [''git'', ''add'', ''.''] 0]\<rparr>)"
proof (intro conjI impI)
  assume "precommit_loop env 3 r w = (res, w')"
  from precommit_loop_shape [OF this]
  show "\<exists>es. trace w' = trace w @ es \<and> staged_after_each es
         \<and> length (exit_codes [''pre-commit'', ''run'', ''-a''] es) \<le> 3
         \<and> 0 \<notin> set (butlast (exit_codes [''pre-commit'', ''run'', ''-a''] es))
         \<and> exit_codes [''pre-commit'', ''run'', ''-a''] es \<noteq> []
         \<and> (\<forall>r'. res = Inr r' \<longrightarrow>
               r' = last (exit_codes [''pre-commit'', ''run'', ''-a''] es)
             \<and> (r' = 0 \<or> length (exit_codes [''pre-commit'', ''run'', ''-a''] es) = 3))"
    by simp
next
  assume "check_call env ([''rm'', ''-f''] @ IGNORED_REJ_FILES) w = (Inr (), w1)
       \<and> check_call env [''git'', ''add'', ''.''] w1 = (Inr (), w2)
       \<and> precommit_loop env 3 r w2 = (Inr r', w3)"
  then show "formatting env p repo branch r w =
         (if r' \<noteq> 0 then needs_manual_intervention env p repo branch w3
          else ready_to_publish env p w3)"
    using formatting_after_loop by blast
qed (rule simulated_loop_110 simulated_loop_111 simulated_formatting_111)+

theorem formatting_retry_loop_witness:
  "precommit_loop (simulated [([''pre-commit'', ''run'', ''-a''], [1, 1, 1])] [] True []) 3 0 start =
     (Inr 1, start\<lparr>trace :=
        [Exec [''pre-commit'', ''run'', ''-a''] 1,
         Exec [''git'', ''add'', ''.''] 0,
         Exec [''pre-commit'', ''run'', ''-a''] 1,
         Exec [''git'', ''add'', ''.''] 0,
         Exec [''pre-commit'', ''run'', ''-a''] 1,
         Exec [''git'', ''add'', ''.''] 0]\<rparr>)
   \<and> exit_codes [''pre-commit'', ''run'', ''-a'']
        [Exec [''pre-commit'', ''run'', ''-a''] 1,
         Exec [''git'', ''add'', ''.''] 0,
         Exec [''pre-commit'', ''run'', ''-a''] 1,
         Exec [''git'', ''add'', ''.''] 0,
         Exec [''pre-commit'', ''run'', ''-a''] 1,
         Exec [''git'', ''add'', ''.''] 0] = [1, 1, 1]
   \<and> staged_after_each
        [Exec [''pre-commit'', ''run'', ''-a''] 1,
         Exec [''git'', ''add'', ''.''] 0,
         Exec [''pre-commit'', ''run'', ''-a''] 1,
         Exec [''git'', ''add'', ''.''] 0,
         Exec [''pre-commit'', ''run'', ''-a''] 1,
         Exec [''git'', ''add'', ''.''] 0]
   \<and> check_call (simulated [([''pre-commit'', ''run'', ''-a''], [1, 1, 1])] [] True []) ([''rm'', ''-f''] @ IGNORED_REJ_FILES) start =
       (Inr (), start\<lparr>trace :=
        [Exec [''rm'', ''-f'', ''oca_dependencies.txt.rej''] 0]\<rparr>)
   \<and> check_call (simulated [([''pre-commit'', ''run'', ''-a''], [1, 1, 1])] [] True []) [''git'', ''add'', ''.'']
        (start\<lparr>trace :=
        [Exec [''rm'', ''-f'', ''oca_dependencies.txt.rej''] 0]\<rparr>) =
       (Inr (), start\<lparr>trace :=
        [Exec [''rm'', ''-f'', ''oca_dependencies.txt.rej''] 0,
         Exec [''git'', ''add'', ''.''] 0]\<rparr>)
   \<and> precommit_loop (simulated [([''pre-commit'', ''run'', ''-a''], [1, 1, 1])] [] True []) 3 0
        (start\<lparr>trace :=
        [Exec [''rm'', ''-f'', ''oca_dependencies.txt.rej''] 0,
         Exec [''git'', ''add'', ''.''] 0]\<rparr>) =
       (Inr 1, start\<lparr>trace :=
        [Exec [''rm'', ''-f'', ''oca_dependencies.txt.rej''] 0,
         Exec [''git'', ''add'', ''.''] 0,
         Exec [''pre-commit'', ''run'', ''-a''] 1,
         Exec [''git'', ''add'', ''.''] 0,
         Exec [''pre-commit'', ''run'', ''-a''] 1,
         Exec [''git'', ''add'', ''.''] 0,
         Exec [''pre-commit'', ''run'', ''-a''] 1,
         Exec [''git'', ''add'', ''.''] 0]\<rparr>)
   \<and> formatting (simulated [([''pre-commit'', ''run'', ''-a''], [1, 1, 1])] [] True []) oca ''web'' ''16.0'' 0 start =
       needs_manual_intervention (simulated [([''pre-commit'', ''run'', ''-a''], [1, 1, 1])] [] True []) oca ''web'' ''16.0''
         (start\<lparr>trace :=
        [Exec [''rm'', ''-f'', ''oca_dependencies.txt.rej''] 0,
         Exec [''git'', ''add'', ''.''] 0,
         Exec [''pre-commit'', ''run'', ''-a''] 1,
         Exec [''git'', ''add'', ''.''] 0,
         Exec [''pre-commit'', ''run'', ''-a''] 1,
         Exec [''git'', ''add'', ''.''] 0,
         Exec [''pre-commit'', ''run'', ''-a''] 1,
         Exec [''git'', ''add'', ''.''] 0]\<rparr>)"
  using formatting_retry_loop
    [where env = "simulated [([''pre-commit'', ''run'', ''-a''], [1, 1, 1])] [] True []"
       and r = 0 and w = start and res = "Inr 1"
       and w' = "start\<lparr>trace :=
        [Exec [''pre-commit'', ''run'', ''-a''] 1,
         Exec [''git'', ''add'', ''.''] 0,
         Exec [''pre-commit'', ''run'', ''-a''] 1,
         Exec [''git'', ''add'', ''.''] 0,
         Exec [''pre-commit'', ''run'', ''-a''] 1,
         Exec [''git'', ''add'', ''.''] 0]\<rparr>"
       and ?w1.0 = "start\<lparr>trace :=
        [Exec [''rm'', ''-f'', ''oca_dependencies.txt.rej''] 0]\<rparr>"
       and ?w2.0 = "start\<lparr>trace :=
        [Exec [''rm'', ''-f'', ''oca_dependencies.txt.rej''] 0,
         Exec [''git'', ''add'', ''.''] 0]\<rparr>"
       and r' = 1
       and ?w3.0 = "start\<lparr>trace :=
        [Exec [''rm'', ''-f'', ''oca_dependencies.txt.rej''] 0,
         Exec [''git'', ''add'', ''.''] 0,
         Exec [''pre-commit'', ''run'', ''-a''] 1,
         Exec [''git'', ''add'', ''.''] 0,
         Exec [''pre-commit'', ''run'', ''-a''] 1,
         Exec [''git'', ''add'', ''.''] 0,
         Exec [''pre-commit'', ''run'', ''-a''] 1,
         Exec [''git'', ''add'', ''.''] 0]\<rparr>"
       and p = oca and repo = "''web''" and branch = "''16.0''"]
  by (simp add: prog_defs simulated_defs IGNORED_REJ_FILES_def numeral_3_eq_3)

section \<open>The direct push\<close>

lemma ready_to_publish_no_changes:
  "\<not> staged_changes env [''.''] w \<Longrightarrow> ready_to_publish env p w = (Inr (), w)"
  by (simp add: ready_to_publish_def commit_if_needed_def has_staged_changes_def bind_def
        return_def)

lemma commit_if_needed_reports:
  "(fst (commit_if_needed env paths msg w) = Inr True) =
     (staged_changes env paths w \<and> fst (run env [''git'', ''commit'', ''-m'', msg] w) = 0)"
  by (simp add: commit_if_needed_def has_staged_changes_def bind_def check_call_def call_def
        return_def throw_def split: prod.splits)

lemma commit_if_needed_no_changes:
  "\<not> staged_changes env paths w \<Longrightarrow> commit_if_needed env paths msg w = (Inr False, w)"
  by (simp add: commit_if_needed_def has_staged_changes_def bind_def return_def)

lemma ready_to_publish_push:
  assumes "ready_to_publish env p w = (res, w')" and "trace w' = trace w @ es"
  shows "length (exit_codes [''git'', ''push''] es) =
     (if fst (commit_if_needed env [''.''] (make_commit_msg (skip_ci p)) w) = Inr True then 1 else 0)"
  using assms
  by (auto simp add: ready_to_publish_def commit_if_needed_def has_staged_changes_def bind_def
        check_call_def call_def
        return_def throw_def emit_def make_commit_msg_def split: prod.splits if_splits)

text \<open>
  C6: On the ready-to-publish path, when there are no staged changes relative to HEAD,
  \<open>commit_if_needed\<close> reports that it made no commit and the step leaves the world as it
  is: no commit and no push. The current branch is pushed, once, exactly when
  \<open>commit_if_needed\<close> reports that a commit was made.
\<close>

theorem publish_only_after_commit:
  "(\<not> staged_changes env [''.''] w \<longrightarrow>
      commit_if_needed env [''.''] (make_commit_msg (skip_ci p)) w = (Inr False, w)
      \<and> ready_to_publish env p w = (Inr (), w))
   \<and> (ready_to_publish env p w = (res, w') \<and> trace w' = trace w @ es \<longrightarrow>
        length (exit_codes [''git'', ''push''] es) =
          (if fst (commit_if_needed env [''.''] (make_commit_msg (skip_ci p)) w) = Inr True
           then 1 else 0))"
  using ready_to_publish_no_changes [of env w p] ready_to_publish_push [of env p w res w' es]
    commit_if_needed_no_changes [of env "[''.'']" w]
  by simp

theorem publish_only_after_commit_witness:
  "\<not> staged_changes (simulated [] [] False []) [''.''] start
   \<and> ready_to_publish (simulated [] [] False []) oca start = (Inr (), start)
   \<and> exit_codes [''git'', ''push''] [] = []
   \<and> fst (commit_if_needed (simulated [] [] True []) [''.''] (make_commit_msg (skip_ci oca)) start) = Inr True
   \<and> ready_to_publish (simulated [] [] True []) oca start =
       (Inr (), start\<lparr>trace :=
        [Exec [''git'', ''commit'', ''-m'', ''[IMP] update dotfiles''] 0,
         Exec [''git'', ''push''] 0]\<rparr>)
   \<and> exit_codes [''git'', ''push'']
        [Exec [''git'', ''commit'', ''-m'', ''[IMP] update dotfiles''] 0,
         Exec [''git'', ''push''] 0] = [0]"
  using publish_only_after_commit [of "simulated [] [] False []" start oca "Inr ()" start "[]"]
    publish_only_after_commit [of "simulated [] [] True []" start oca "Inr ()"
      "start\<lparr>trace :=
        [Exec [''git'', ''commit'', ''-m'', ''[IMP] update dotfiles''] 0,
         Exec [''git'', ''push''] 0]\<rparr>"
      "[Exec [''git'', ''commit'', ''-m'', ''[IMP] update dotfiles''] 0,
         Exec [''git'', ''push''] 0]"]
  by (simp add: ready_to_publish_def commit_if_needed_def make_commit_msg_def
        prog_defs simulated_defs)

section \<open>The pull request for manual intervention\<close>

lemma exit_codes_append:
  "exit_codes argv (es @ es') = exit_codes argv es @ exit_codes argv es'"
  by (induction argv es rule: exit_codes.induct) simp_all

lemma emits_only_path_exists [intro!]: "emits_only P (path_exists path)"
  by (simp add: emits_only_def path_exists_def)

lemma emits_only_read_text [intro!]: "emits_only P (read_text path)"
  by (simp add: emits_only_def read_text_def split: option.splits)

lemma emits_only_has_staged_changes [intro!]: "emits_only P (has_staged_changes env paths)"
  by (simp add: emits_only_def has_staged_changes_def)

lemma emits_only_raise_for_status [intro!]: "emits_only P (raise_for_status r)"
  by (auto simp add: raise_for_status_def)

lemma emits_only_get_update_dotfiles_open_pr:
  "(\<And>r. P (HttpGet (pulls_url og repo branch) r)) \<Longrightarrow>
   emits_only P (get_update_dotfiles_open_pr env og repo branch)"
  unfolding get_update_dotfiles_open_pr_def
  by (intro emits_only_bind emits_only_requests_get emits_only_raise_for_status)
     (auto split: list.splits)

lemma emits_only_make_update_dotfiles_pr:
  "emits_only (pr_event og repo branch) (make_update_dotfiles_pr env og repo branch)"
  unfolding make_update_dotfiles_pr_def Let_def
  by (intro emits_only_bind emits_only_check_call emits_only_get_update_dotfiles_open_pr
        emits_only_if emits_only_return)
     (simp_all add: pr_event_def make_commit_msg_def)



lemma bind_cases:
  assumes "bind m k w = (res, w')"
  obtains (raised) e where "m w = (Inl e, w')" and "res = Inl e"
        | (returned) x w1 where "m w = (Inr x, w1)" and "k x w1 = (res, w')"
  using assms by (auto simp add: bind_def split: prod.splits sum.splits)

lemma bind_assoc: "bind (bind m k) h = bind m (\<lambda>x. bind (k x) h)"
  by (rule ext) (simp add: bind_def split: prod.splits sum.splits)

lemma check_call_trace:
  assumes "check_call env argv w = (res, w')"
  shows "\<exists>rc. trace w' = trace w @ [Exec argv rc]"
  using assms
  by (auto simp add: check_call_def call_def bind_def return_def throw_def emit_def
        split: prod.splits if_splits)

lemma get_update_dotfiles_open_pr_eq:
  "get_update_dotfiles_open_pr env og repo branch w =
     (case http_get env (pulls_url og repo branch) w of
        None \<Rightarrow> (Inl ConnectionError, emit (HttpGet (pulls_url og repo branch) None) w)
      | Some r \<Rightarrow>
          (if 400 \<le> status_code r \<and> status_code r < 600 then Inl (HTTPError (status_code r))
           else Inr (case json r of [] \<Rightarrow> None
                     | pr # _ \<Rightarrow> if state pr = ''open'' then Some (number pr) else None),
           emit (HttpGet (pulls_url og repo branch) (Some r)) w))"
proof (cases "http_get env (pulls_url og repo branch) w")
  case None
  then show ?thesis
    by (simp add: get_update_dotfiles_open_pr_def requests_get_def bind_def)
next
  case (Some r)
  then show ?thesis
    by (cases "json r")
       (simp_all add: get_update_dotfiles_open_pr_def requests_get_def raise_for_status_def
          bind_def return_def throw_def)
qed

lemma get_update_dotfiles_open_pr_trace:
  assumes "get_update_dotfiles_open_pr env og repo branch w = (res, w')"
  shows "\<exists>resp. trace w' = trace w @ [HttpGet (pulls_url og repo branch) resp]
     \<and> (\<forall>x. res = Inr x \<longrightarrow>
           (\<exists>r. resp = Some r
              \<and> x = (case json r of [] \<Rightarrow> None
                      | pr # _ \<Rightarrow> if state pr = ''open'' then Some (number pr) else None)))"
  using assms unfolding get_update_dotfiles_open_pr_eq
  by (auto simp add: emit_def split: option.splits if_splits)

lemma git_events_no_gh:
  "list_all (\<lambda>e. \<exists>args rc. e = Exec (''git'' # args) rc) es \<Longrightarrow>
   exit_codes (gh_pr_create og repo branch) es = [] \<and> (\<forall>url r. HttpGet url r \<notin> set es)"
  by (induction es) (auto simp add: gh_pr_create_def)

lemma make_update_dotfiles_pr_trace:
  assumes run: "make_update_dotfiles_pr env og repo branch w = (res, w')"
      and es: "trace w' = trace w @ es"
  shows "(HttpGet (pulls_url og repo branch) (Some r) \<in> set es \<and> json r = pr # rest
            \<and> state pr = ''open'' \<and> number pr \<noteq> 0
          \<longrightarrow> exit_codes (gh_pr_create og repo branch) es = [])
       \<and> (exit_codes (gh_pr_create og repo branch) es \<noteq> [] \<longrightarrow>
            (\<exists>r'. HttpGet (pulls_url og repo branch) (Some r') \<in> set es
               \<and> (case json r' of [] \<Rightarrow> True
                   | pr' # _ \<Rightarrow> state pr' \<noteq> ''open'' \<or> number pr' = 0)))"
proof -
  define git where "git = bind (check_call env [''git'', ''checkout'', ''-B'', make_update_dotfiles_branch branch]) (\<lambda>_.
      bind (check_call env [''git'', ''add'', ''.'']) (\<lambda>_.
      bind (check_call env [''git'', ''commit'', ''-m'', make_commit_msg False]) (\<lambda>_.
      check_call env [''git'', ''push'', ''-f'', ''origin'', make_update_dotfiles_branch branch])))"
  have git: "emits_only (\<lambda>e. \<exists>args rc. e = Exec (''git'' # args) rc) git"
    unfolding git_def by (intro emits_only_bind emits_only_check_call) simp_all
  have split: "make_update_dotfiles_pr env og repo branch =
      bind git (\<lambda>_. bind (get_update_dotfiles_open_pr env og repo branch) (\<lambda>pr.
        if \<not> truthy pr then check_call env (gh_pr_create og repo branch) else return ()))"
    by (simp add: make_update_dotfiles_pr_def Let_def git_def bind_assoc)
  from run [unfolded split] show ?thesis
  proof (cases rule: bind_cases)
    case (raised e)
    from emits_onlyD [OF git raised(1)] es git_events_no_gh [of es og repo branch]
    show ?thesis by auto
  next
    case (returned u w1)
    from emits_onlyD [OF git returned(1)] obtain pre where pre:
      "trace w1 = trace w @ pre" "list_all (\<lambda>e. \<exists>args rc. e = Exec (''git'' # args) rc) pre"
      by blast
    note no = git_events_no_gh [OF pre(2), of og repo branch]
    from returned(2) show ?thesis
    proof (cases rule: bind_cases)
      case (raised e)
      from get_update_dotfiles_open_pr_trace [OF raised(1)] pre(1) es
      obtain resp where "es = pre @ [HttpGet (pulls_url og repo branch) resp]" by auto
      with no show ?thesis by (simp add: exit_codes_append)
    next
      case (returned x w2)
      from get_update_dotfiles_open_pr_trace [OF returned(1)] obtain r0 where r0:
        "trace w2 = trace w1 @ [HttpGet (pulls_url og repo branch) (Some r0)]"
        "x = (case json r0 of [] \<Rightarrow> None
              | pr # _ \<Rightarrow> if state pr = ''open'' then Some (number pr) else None)"
        by blast
      show ?thesis
      proof (cases "truthy x")
        case True
        with returned(2) have "w' = w2" by (simp add: return_def)
        with r0(1) pre(1) es
        have "es = pre @ [HttpGet (pulls_url og repo branch) (Some r0)]" by simp
        with no show ?thesis by (simp add: exit_codes_append)
      next
        case False
        with returned(2) check_call_trace [of env "gh_pr_create og repo branch" w2 res w']
        obtain rc where "trace w' = trace w2 @ [Exec (gh_pr_create og repo branch) rc]" by auto
        with r0(1) pre(1) es
        have e: "es = pre @ [HttpGet (pulls_url og repo branch) (Some r0),
                     Exec (gh_pr_create og repo branch) rc]" by simp
        from False r0(2) have "case json r0 of [] \<Rightarrow> True
                   | pr' # _ \<Rightarrow> state pr' \<noteq> ''open'' \<or> number pr' = 0"
          by (auto simp add: truthy_def split: list.splits if_splits)
        with e no show ?thesis by (auto simp add: exit_codes_append split: list.splits)
      qed
    qed
  qed
qed

section \<open>The parts of an iteration\<close>

lemma emits_only_fix_copier_answers:
  "emits_only (setup_event p) (fix_copier_answers env)"
  unfolding fix_copier_answers_def Let_def
  by (intro emits_only_bind emits_only_if emits_only_return emits_only_path_exists
        emits_only_read_text emits_only_write_text emits_only_check_call)
     (simp_all add: setup_event_def)

lemma emits_only_preparing:
  "emits_only (setup_event p) (preparing env p repo branch)"
  unfolding preparing_def
  by (intro emits_only_bind emits_only_if emits_only_return emits_only_path_exists
        emits_only_print emits_only_check_call emits_only_fix_copier_answers)
     (simp_all add: setup_event_def)


lemma emits_only_commit_if_needed:
  "(\<And>rc. P (Exec [''git'', ''commit'', ''-m'', msg] rc)) \<Longrightarrow>
   emits_only P (commit_if_needed env paths msg)"
  unfolding commit_if_needed_def
  by (intro emits_only_bind emits_only_if emits_only_return emits_only_has_staged_changes
        emits_only_check_call)

lemma emits_only_ready_to_publish:
  "emits_only (publish_event p repo branch) (ready_to_publish env p)"
  unfolding ready_to_publish_def
  by (intro emits_only_bind emits_only_if emits_only_return emits_only_commit_if_needed
        emits_only_check_call)
     (simp_all add: publish_event_def)

lemma emits_only_needs_manual_intervention:
  "emits_only (publish_event p repo branch) (needs_manual_intervention env p repo branch)"
  unfolding needs_manual_intervention_def
  by (intro emits_only_bind emits_only_print
        emits_only_mono [OF emits_only_make_update_dotfiles_pr])
     (simp_all add: publish_event_def)

lemma emits_only_formatting:
  "emits_only (publish_event p repo branch) (formatting env p repo branch r)"
  unfolding formatting_def
  by (intro emits_only_bind emits_only_if emits_only_check_call emits_only_precommit_loop
        emits_only_needs_manual_intervention emits_only_ready_to_publish)
     (simp_all add: publish_event_def IGNORED_REJ_FILES_def)


lemma bind_return_left: "bind (return x) k = k x"
  by (rule ext) (simp add: bind_def return_def)

lemma bind_return_unit: "bind m (\<lambda>_. return ()) = m"
  by (rule ext) (simp add: bind_def return_def split: prod.splits sum.splits)

lemma bind_if: "bind (if c then a else b) k = (if c then bind a k else bind b k)"
  by simp

lemma clone_block_eq:
  "clone_block env p repo branch =
     bind (preparing env p repo branch) (\<lambda>go.
       if go then updating env p repo branch else return ())"
  unfolding clone_block_def preparing_def
  by (simp only: bind_assoc bind_if bind_return_left bind_return_unit if_True if_False)

lemma copier_no_setup_event [simp]:
  "\<not> setup_event p (Exec [''copier'', ''update'', ''-f'', ''--trust''] rc)"
  by (simp add: setup_event_def)

lemma copier_no_publish_event [simp]:
  "\<not> publish_event p repo branch (Exec [''copier'', ''update'', ''-f'', ''--trust''] rc)"
  by (simp add: publish_event_def pr_event_def gh_pr_create_def)

lemma updating_trace:
  assumes "updating env p repo branch w = (res, w')"
  shows "\<exists>rc es. trace w' = trace w @ Exec [''copier'', ''update'', ''-f'', ''--trust''] rc # es
     \<and> (rc \<noteq> 0 \<longrightarrow> res = Inr ()
          \<and> es = [Print (replicate 10 (CHR ''$'') @ '' '' @ ''copier update failed on '' @ repo)])
     \<and> (rc = 0 \<longrightarrow> list_all (publish_event p repo branch) es)"
proof -
  obtain rc fs where r: "run env [''copier'', ''update'', ''-f'', ''--trust''] w = (rc, fs)"
    by (cases "run env [''copier'', ''update'', ''-f'', ''--trust''] w")
  define w1 where "w1 = emit (Exec [''copier'', ''update'', ''-f'', ''--trust''] rc) (w\<lparr>files := fs\<rparr>)"
  have t1: "trace w1 = trace w @ [Exec [''copier'', ''update'', ''-f'', ''--trust''] rc]"
    by (simp add: w1_def emit_def)
  have step: "updating env p repo branch w =
      (if rc \<noteq> 0
       then print (replicate 10 (CHR ''$'') @ '' '' @ ''copier update failed on '' @ repo) w1
       else formatting env p repo branch rc w1)"
    using r by (simp add: updating_def bind_def call_def w1_def)
  show ?thesis
  proof (cases "rc = 0")
    case True
    with assms step have "formatting env p repo branch rc w1 = (res, w')" by simp
    from emits_onlyD [OF emits_only_formatting this] t1 True show ?thesis by auto
  next
    case False
    with assms step t1 show ?thesis by (auto simp add: print_def emit_def)
  qed
qed

lemma temporary_clone_cases:
  assumes "temporary_clone env og repo branch protocol block w = (res, w')"
  obtains (missing) "clone env og repo branch protocol w = BranchMissing"
            and "res = Inl BranchNotFoundError"
            and "w' = emit (Clone og repo branch protocol) w"
        | (failed) "clone env og repo branch protocol w = CloneFailed"
            and "res = Inl CloneError"
            and "w' = emit (Clone og repo branch protocol) w"
        | (cloned) fs w2 where "clone env og repo branch protocol w = Cloned fs"
            and "block ((emit (Clone og repo branch protocol) w)\<lparr>files := fs\<rparr>) = (res, w2)"
            and "w' = emit Cleanup (w2\<lparr>files := files w\<rparr>)"
  using assms
  by (auto simp add: temporary_clone_def Let_def split: clone_result.splits prod.splits)

lemma main_loop_step:
  "iteration env p repo branch w = (res, w') \<Longrightarrow>
   main_loop env p ((repo, branch) # rest) w =
     (case res of
        Inl e \<Rightarrow> if e = BranchNotFoundError then main_loop env p rest w' else (Inl e, w')
      | Inr u \<Rightarrow> main_loop env p rest w')"
  by (simp split: sum.splits)

lemma iteration_update_failed:
  assumes run: "iteration env p repo branch w = (res, w')"
      and es: "trace w' = trace w @ es"
      and failed: "Exec [''copier'', ''update'', ''-f'', ''--trust''] rc \<in> set es" "rc \<noteq> 0"
  shows "res = Inr ()
     \<and> (\<exists>pre. list_all (setup_event p) pre
           \<and> es = Clone (org p) repo branch (git_protocol p) # pre @
                 [Exec [''copier'', ''update'', ''-f'', ''--trust''] rc,
                  Print (replicate 10 (CHR ''$'') @ '' '' @ ''copier update failed on '' @ repo),
                  Cleanup])"
  using run unfolding iteration_def
proof (cases rule: temporary_clone_cases)
  case missing
  with es have "es = [Clone (org p) repo branch (git_protocol p)]" by (simp add: emit_def)
  with failed(1) show ?thesis by simp
next
  case failed
  with es have "es = [Clone (org p) repo branch (git_protocol p)]" by (simp add: emit_def)
  with assms(3) show ?thesis by simp
next
  case (cloned fs w2)
  define w1 where "w1 = (emit (Clone (org p) repo branch (git_protocol p)) w)\<lparr>files := fs\<rparr>"
  have t1: "trace w1 = trace w @ [Clone (org p) repo branch (git_protocol p)]"
    by (simp add: w1_def emit_def)
  from cloned(3) have t': "trace w' = trace w2 @ [Cleanup]" by (simp add: emit_def)
  from cloned(2) have "bind (preparing env p repo branch) (\<lambda>go.
       if go then updating env p repo branch else return ()) w1 = (res, w2)"
    by (simp add: clone_block_eq w1_def)
  then show ?thesis
  proof (cases rule: bind_cases)
    case (raised e)
    from emits_onlyD [OF emits_only_preparing raised(1)] obtain pre
      where "trace w2 = trace w1 @ pre" "list_all (setup_event p) pre" by blast
    with t1 t' es have "es = Clone (org p) repo branch (git_protocol p) # pre @ [Cleanup]"
      and "list_all (setup_event p) pre" by simp_all
    with failed(1) show ?thesis by (auto simp add: list_all_iff)
  next
    case (returned go w3)
    from emits_onlyD [OF emits_only_preparing returned(1)] obtain pre
      where pre: "trace w3 = trace w1 @ pre" "list_all (setup_event p) pre" by blast
    show ?thesis
    proof (cases go)
      case False
      with returned(2) have "w2 = w3" by (simp add: return_def)
      with pre t1 t' es have "es = Clone (org p) repo branch (git_protocol p) # pre @ [Cleanup]"
        by simp
      with failed(1) pre(2) show ?thesis by (auto simp add: list_all_iff)
    next
      case True
      with returned(2) have "updating env p repo branch w3 = (res, w2)" by simp
      from updating_trace [OF this] obtain rc0 es2 where u:
        "trace w2 = trace w3 @ Exec [''copier'', ''update'', ''-f'', ''--trust''] rc0 # es2"
        "rc0 \<noteq> 0 \<longrightarrow> res = Inr ()
          \<and> es2 = [Print (replicate 10 (CHR ''$'') @ '' '' @ ''copier update failed on '' @ repo)]"
        "rc0 = 0 \<longrightarrow> list_all (publish_event p repo branch) es2"
        by blast
      from u(1) pre(1) t1 t' es
      have e: "es = Clone (org p) repo branch (git_protocol p) # pre @
          Exec [''copier'', ''update'', ''-f'', ''--trust''] rc0 # es2 @ [Cleanup]"
        by simp
      have "rc0 \<noteq> 0"
      proof
        assume "rc0 = 0"
        with u(3) have "list_all (publish_event p repo branch) es2" by simp
        with failed e pre(2) \<open>rc0 = 0\<close> show False by (auto simp add: list_all_iff)
      qed
      with u(2) have r: "res = Inr ()"
        and es2: "es2 = [Print (replicate 10 (CHR ''$'') @ '' '' @ ''copier update failed on '' @ repo)]"
        by simp_all
      from failed(1) e es2 pre(2) have "rc = rc0" by (auto simp add: list_all_iff)
      with r e es2 pre(2) show ?thesis by simp
    qed
  qed
qed

section \<open>The whole run\<close>

lemma emits_only_updating:
  "emits_only (block_event p repo branch) (updating env p repo branch)"
  unfolding updating_def
  by (intro emits_only_bind emits_only_if emits_only_call emits_only_print
        emits_only_mono [OF emits_only_formatting])
     (simp_all add: block_event_def setup_event_def)

lemma emits_only_clone_block:
  "emits_only (block_event p repo branch) (clone_block env p repo branch)"
  unfolding clone_block_eq
  by (intro emits_only_bind emits_only_if emits_only_return emits_only_updating
        emits_only_mono [OF emits_only_preparing])
     (simp add: block_event_def)

lemma emits_only_temporary_clone:
  assumes "emits_only P block" and "P (Clone og repo branch protocol)" and "P Cleanup"
  shows "emits_only P (temporary_clone env og repo branch protocol block)"
  unfolding emits_only_def
proof
  fix w
  obtain res w' where run: "temporary_clone env og repo branch protocol block w = (res, w')"
    by (cases "temporary_clone env og repo branch protocol block w")
  from run have "\<exists>es. trace w' = trace w @ es \<and> list_all P es"
  proof (cases rule: temporary_clone_cases)
    case missing
    with assms(2) show ?thesis by (simp add: emit_def)
  next
    case failed
    with assms(2) show ?thesis by (simp add: emit_def)
  next
    case (cloned fs w2)
    from emits_onlyD [OF assms(1) cloned(2)] obtain es
      where "trace w2 = trace w @ [Clone og repo branch protocol] @ es" "list_all P es"
      by (auto simp add: emit_def)
    with cloned(3) assms(2,3) show ?thesis by (simp add: emit_def)
  qed
  with run show "\<exists>es. trace (snd (temporary_clone env og repo branch protocol block w)) =
      trace w @ es \<and> list_all P es" by simp
qed

lemma emits_only_main_loop:
  assumes "\<And>repo branch. emits_only P (iteration env p repo branch)"
  shows "emits_only P (main_loop env p pairs)"
proof (induction pairs)
  case Nil
  show ?case by (simp add: emits_only_def)
next
  case (Cons pair pairs)
  obtain repo branch where pair: "pair = (repo, branch)" by (cases pair)
  show ?case
    unfolding emits_only_def
  proof
    fix w
    obtain res w1 where it: "iteration env p repo branch w = (res, w1)"
      by (cases "iteration env p repo branch w")
    from emits_onlyD [OF assms it] obtain es1
      where es1: "trace w1 = trace w @ es1" "list_all P es1" by blast
    obtain res2 w2 where rest: "main_loop env p pairs w1 = (res2, w2)"
      by (cases "main_loop env p pairs w1")
    from emits_onlyD [OF Cons.IH rest] obtain es2
      where es2: "trace w2 = trace w1 @ es2" "list_all P es2" by blast
    from it rest es1 es2
    show "\<exists>es. trace (snd (main_loop env p (pair # pairs) w)) = trace w @ es \<and> list_all P es"
      unfolding pair by (cases res) auto
  qed
qed

lemma block_event_unmarked:
  "block_event p repo branch e \<Longrightarrow> skip_ci p \<or> unmarked e"
  by (cases e)
     (auto simp add: block_event_def setup_event_def publish_event_def pr_event_def unmarked_def
        gh_pr_create_def make_commit_msg_def)

lemma emits_only_iteration_unmarked:
  "emits_only (\<lambda>e. skip_ci p \<or> unmarked e) (iteration env p repo branch)"
proof -
  have "emits_only (\<lambda>e. skip_ci p \<or> unmarked e) (clone_block env p repo branch)"
    by (rule emits_only_mono [OF emits_only_clone_block]) (rule block_event_unmarked)
  then show ?thesis
    unfolding iteration_def
    by (rule emits_only_temporary_clone) (simp_all add: unmarked_def)
qed

lemma emits_only_iterate_repos_and_branches:
  "emits_only P (iterate_repos_and_branches env rs bs)"
  by (simp add: emits_only_def iterate_repos_and_branches_def split: option.splits)

lemma emits_only_main_unmarked:
  "emits_only (\<lambda>e. skip_ci p \<or> unmarked e) (main env p)"
  unfolding main_def
  by (intro emits_only_bind emits_only_iterate_repos_and_branches emits_only_main_loop
        emits_only_iteration_unmarked)

lemma clone_attempts_append:
  "clone_attempts (es @ es') = clone_attempts es @ clone_attempts es'"
  by (induction es rule: clone_attempts.induct) simp_all

lemma block_no_clone:
  "list_all (block_event p repo branch) es \<Longrightarrow> clone_attempts es = []"
proof (induction es)
  case Nil
  show ?case by simp
next
  case (Cons e es)
  then show ?case
    by (cases e)
       (simp_all add: block_event_def setup_event_def publish_event_def pr_event_def)
qed

lemma iteration_attempts:
  assumes "iteration env p repo branch w = (res, w')"
  shows "\<exists>es. trace w' = trace w @ es \<and> clone_attempts es = [(repo, branch)]"
  using assms unfolding iteration_def
proof (cases rule: temporary_clone_cases)
  case missing
  then show ?thesis by (simp add: emit_def)
next
  case failed
  then show ?thesis by (simp add: emit_def)
next
  case (cloned fs w2)
  from emits_onlyD [OF emits_only_clone_block cloned(2)] obtain es
    where "trace w2 = trace w @ [Clone (org p) repo branch (git_protocol p)] @ es"
      "list_all (block_event p repo branch) es"
    by (auto simp add: emit_def)
  with cloned(3) block_no_clone [of p repo branch es]
  have "trace w' = trace w @ (Clone (org p) repo branch (git_protocol p) # es @ [Cleanup])
      \<and> clone_attempts (Clone (org p) repo branch (git_protocol p) # es @ [Cleanup]) = [(repo, branch)]"
    by (simp add: emit_def clone_attempts_append)
  then show ?thesis by blast
qed

lemma main_loop_attempts:
  "main_loop env p pairs w = (res, w') \<Longrightarrow>
   \<exists>es. trace w' = trace w @ es \<and> prefix (clone_attempts es) pairs
      \<and> (res = Inr () \<longrightarrow> clone_attempts es = pairs)
      \<and> res \<noteq> Inl BranchNotFoundError"
proof (induction pairs arbitrary: w res w')
  case Nil
  then show ?case by auto
next
  case (Cons pair pairs)
  obtain repo branch where pair: "pair = (repo, branch)" by (cases pair)
  obtain r1 w1 where it: "iteration env p repo branch w = (r1, w1)"
    by (cases "iteration env p repo branch w")
  from iteration_attempts [OF it] obtain es1
    where es1: "trace w1 = trace w @ es1" "clone_attempts es1 = [(repo, branch)]" by blast
  show ?case
  proof (cases "r1 = Inr () \<or> r1 = Inl BranchNotFoundError")
    case True
    with Cons.prems it have "main_loop env p pairs w1 = (res, w')"
      unfolding pair by auto
    from Cons.IH [OF this] obtain es2 where es2: "trace w' = trace w1 @ es2"
      "prefix (clone_attempts es2) pairs" "res = Inr () \<longrightarrow> clone_attempts es2 = pairs"
      "res \<noteq> Inl BranchNotFoundError" by blast
    with es1 have "trace w' = trace w @ (es1 @ es2)
      \<and> prefix (clone_attempts (es1 @ es2)) (pair # pairs)
      \<and> (res = Inr () \<longrightarrow> clone_attempts (es1 @ es2) = pair # pairs)
      \<and> res \<noteq> Inl BranchNotFoundError"
      unfolding pair by (simp add: clone_attempts_append)
    then show ?thesis by blast
  next
    case False
    then obtain e where e: "r1 = Inl e" "e \<noteq> BranchNotFoundError"
      by (cases r1) auto
    with Cons.prems it have "res = Inl e" "w' = w1" unfolding pair by simp_all
    with es1 e have "trace w' = trace w @ es1
      \<and> prefix (clone_attempts es1) (pair # pairs)
      \<and> (res = Inr () \<longrightarrow> clone_attempts es1 = pair # pairs)
      \<and> res \<noteq> Inl BranchNotFoundError"
      unfolding pair by simp
    then show ?thesis by blast
  qed
qed


section \<open>No second pull request\<close>

lemma open_listing_first:
  assumes "open_listing r" and "list_ex (\<lambda>pr. state pr = ''open'') (json r)"
  obtains pr rest where "json r = pr # rest" and "state pr = ''open''" and "number pr \<noteq> 0"
  using assms by (cases "json r") (auto simp add: open_listing_def)

lemma make_update_dotfiles_pr_listing:
  assumes run: "make_update_dotfiles_pr env og repo branch w = (res, w')"
      and es: "trace w' = trace w @ es"
      and answer: "HttpGet (pulls_url og repo branch) (Some r) \<in> set es"
      and listing: "open_listing r"
      and reported: "list_ex (\<lambda>pr. state pr = ''open'') (json r)"
  shows "exit_codes (gh_pr_create og repo branch) es = []"
proof -
  from listing reported obtain pr rest
    where "json r = pr # rest" "state pr = ''open''" "number pr \<noteq> 0"
    by (rule open_listing_first)
  with make_update_dotfiles_pr_trace [OF run es, of r pr rest] answer
  show ?thesis by simp
qed

lemma make_update_dotfiles_pr_answered:
  assumes "make_update_dotfiles_pr env og repo branch w = (res, w')"
      and "trace w' = trace w @ es"
      and "exit_codes (gh_pr_create og repo branch) es \<noteq> []"
  shows "\<exists>r'. HttpGet (pulls_url og repo branch) (Some r') \<in> set es"
proof -
  from make_update_dotfiles_pr_trace [OF assms(1,2), THEN conjunct2, rule_format, OF assms(3)]
  obtain r' where "HttpGet (pulls_url og repo branch) (Some r') \<in> set es"
    by (elim exE conjE)
  then show ?thesis ..
qed

text \<open>
  C2: On the manual-intervention path, for every organisation, repository and branch, the
  tool asks the hosting API for the pull requests from the head branch
  \<^verbatim>\<open><branch>-ocabot-update-dotfiles\<close> into the base \<^verbatim>\<open><branch>\<close>, without naming a state; the
  hosting service answers such a request with open pull requests only, none of which has the
  number 0. On every such answer that reports an open pull request the create-pull-request
  command is not run, whatever else the answer holds; the command is run only if the answer
  reports no open pull request, and never without an answer.
\<close>

theorem open_pr_prevents_creation:
  "(make_update_dotfiles_pr env og repo branch w = (res, w') \<and> trace w' = trace w @ es
      \<and> HttpGet (pulls_url og repo branch) (Some r) \<in> set es \<and> open_listing r \<longrightarrow>
      (list_ex (\<lambda>pr. state pr = ''open'') (json r) \<longrightarrow>
         exit_codes (gh_pr_create og repo branch) es = [])
      \<and> (exit_codes (gh_pr_create og repo branch) es \<noteq> [] \<longrightarrow>
           \<not> list_ex (\<lambda>pr. state pr = ''open'') (json r)))
   \<and> (make_update_dotfiles_pr env og repo branch w = (res, w') \<and> trace w' = trace w @ es
      \<and> exit_codes (gh_pr_create og repo branch) es \<noteq> [] \<longrightarrow>
      (\<exists>r'. HttpGet (pulls_url og repo branch) (Some r') \<in> set es))"
proof (intro conjI impI; elim conjE)
  assume "make_update_dotfiles_pr env og repo branch w = (res, w')" "trace w' = trace w @ es"
    "HttpGet (pulls_url og repo branch) (Some r) \<in> set es" "open_listing r"
    "list_ex (\<lambda>pr. state pr = ''open'') (json r)"
  then show "exit_codes (gh_pr_create og repo branch) es = []"
    by (rule make_update_dotfiles_pr_listing)
next
  assume a: "make_update_dotfiles_pr env og repo branch w = (res, w')" "trace w' = trace w @ es"
    "HttpGet (pulls_url og repo branch) (Some r) \<in> set es" "open_listing r"
    and c: "exit_codes (gh_pr_create og repo branch) es \<noteq> []"
  show "\<not> list_ex (\<lambda>pr. state pr = ''open'') (json r)"
  proof
    assume "list_ex (\<lambda>pr. state pr = ''open'') (json r)"
    with a have "exit_codes (gh_pr_create og repo branch) es = []"
      by (rule make_update_dotfiles_pr_listing)
    with c show False ..
  qed
next
  assume "make_update_dotfiles_pr env og repo branch w = (res, w')" "trace w' = trace w @ es"
    "exit_codes (gh_pr_create og repo branch) es \<noteq> []"
  then show "\<exists>r'. HttpGet (pulls_url og repo branch) (Some r') \<in> set es"
    by (rule make_update_dotfiles_pr_answered)
qed

theorem open_pr_prevents_creation_witness:
  "make_update_dotfiles_pr (simulated [] [\<lparr>state = ''open'', number = 7\<rparr>] True []) ''OCA'' ''web'' ''16.0'' start =
     (Inr (), start\<lparr>trace :=
        [Exec [''git'', ''checkout'', ''-B'', ''16.0-ocabot-update-dotfiles''] 0,
         Exec [''git'', ''add'', ''.''] 0,
         Exec [''git'', ''commit'', ''-m'', ''[IMP] update dotfiles''] 0,
         Exec [''git'', ''push'', ''-f'', ''origin'', ''16.0-ocabot-update-dotfiles''] 0,
         HttpGet (pulls_url ''OCA'' ''web'' ''16.0'') (Some \<lparr>status_code = 200, json = [\<lparr>state = ''open'', number = 7\<rparr>]\<rparr>)]\<rparr>)
   \<and> HttpGet (pulls_url ''OCA'' ''web'' ''16.0'') (Some \<lparr>status_code = 200, json = [\<lparr>state = ''open'', number = 7\<rparr>]\<rparr>)
       \<in> set [Exec [''git'', ''checkout'', ''-B'', ''16.0-ocabot-update-dotfiles''] 0,
         Exec [''git'', ''add'', ''.''] 0,
         Exec [''git'', ''commit'', ''-m'', ''[IMP] update dotfiles''] 0,
         Exec [''git'', ''push'', ''-f'', ''origin'', ''16.0-ocabot-update-dotfiles''] 0,
         HttpGet (pulls_url ''OCA'' ''web'' ''16.0'') (Some \<lparr>status_code = 200, json = [\<lparr>state = ''open'', number = 7\<rparr>]\<rparr>)]
   \<and> open_listing \<lparr>status_code = 200, json = [\<lparr>state = ''open'', number = 7\<rparr>]\<rparr>
   \<and> list_ex (\<lambda>pr. state pr = ''open'') (json \<lparr>status_code = 200, json = [\<lparr>state = ''open'', number = 7\<rparr>]\<rparr>)
   \<and> exit_codes (gh_pr_create ''OCA'' ''web'' ''16.0'')
        [Exec [''git'', ''checkout'', ''-B'', ''16.0-ocabot-update-dotfiles''] 0,
         Exec [''git'', ''add'', ''.''] 0,
         Exec [''git'', ''commit'', ''-m'', ''[IMP] update dotfiles''] 0,
         Exec [''git'', ''push'', ''-f'', ''origin'', ''16.0-ocabot-update-dotfiles''] 0,
         HttpGet (pulls_url ''OCA'' ''web'' ''16.0'') (Some \<lparr>status_code = 200, json = [\<lparr>state = ''open'', number = 7\<rparr>]\<rparr>)] = []
   \<and> make_update_dotfiles_pr (simulated [] [] True []) ''OCA'' ''web'' ''16.0'' start =
     (Inr (), start\<lparr>trace :=
        [Exec [''git'', ''checkout'', ''-B'', ''16.0-ocabot-update-dotfiles''] 0,
         Exec [''git'', ''add'', ''.''] 0,
         Exec [''git'', ''commit'', ''-m'', ''[IMP] update dotfiles''] 0,
         Exec [''git'', ''push'', ''-f'', ''origin'', ''16.0-ocabot-update-dotfiles''] 0,
         HttpGet (pulls_url ''OCA'' ''web'' ''16.0'') (Some \<lparr>status_code = 200, json = []\<rparr>),
         Exec (gh_pr_create ''OCA'' ''web'' ''16.0'') 0]\<rparr>)
   \<and> HttpGet (pulls_url ''OCA'' ''web'' ''16.0'') (Some \<lparr>status_code = 200, json = []\<rparr>)
       \<in> set [Exec [''git'', ''checkout'', ''-B'', ''16.0-ocabot-update-dotfiles''] 0,
         Exec [''git'', ''add'', ''.''] 0,
         Exec [''git'', ''commit'', ''-m'', ''[IMP] update dotfiles''] 0,
         Exec [''git'', ''push'', ''-f'', ''origin'', ''16.0-ocabot-update-dotfiles''] 0,
         HttpGet (pulls_url ''OCA'' ''web'' ''16.0'') (Some \<lparr>status_code = 200, json = []\<rparr>),
         Exec (gh_pr_create ''OCA'' ''web'' ''16.0'') 0]
   \<and> open_listing \<lparr>status_code = 200, json = []\<rparr>
   \<and> exit_codes (gh_pr_create ''OCA'' ''web'' ''16.0'')
        [Exec [''git'', ''checkout'', ''-B'', ''16.0-ocabot-update-dotfiles''] 0,
         Exec [''git'', ''add'', ''.''] 0,
         Exec [''git'', ''commit'', ''-m'', ''[IMP] update dotfiles''] 0,
         Exec [''git'', ''push'', ''-f'', ''origin'', ''16.0-ocabot-update-dotfiles''] 0,
         HttpGet (pulls_url ''OCA'' ''web'' ''16.0'') (Some \<lparr>status_code = 200, json = []\<rparr>),
         Exec (gh_pr_create ''OCA'' ''web'' ''16.0'') 0] = [0]"
  using open_pr_prevents_creation
      [where env = "simulated [] [\<lparr>state = ''open'', number = 7\<rparr>] True []"
         and og = "''OCA''" and repo = "''web''" and branch = "''16.0''" and w = start
         and res = "Inr ()"
         and w' = "start\<lparr>trace :=
        [Exec [''git'', ''checkout'', ''-B'', ''16.0-ocabot-update-dotfiles''] 0,
         Exec [''git'', ''add'', ''.''] 0,
         Exec [''git'', ''commit'', ''-m'', ''[IMP] update dotfiles''] 0,
         Exec [''git'', ''push'', ''-f'', ''origin'', ''16.0-ocabot-update-dotfiles''] 0,
         HttpGet (pulls_url ''OCA'' ''web'' ''16.0'') (Some \<lparr>status_code = 200, json = [\<lparr>state = ''open'', number = 7\<rparr>]\<rparr>)]\<rparr>"
         and es = "[Exec [''git'', ''checkout'', ''-B'', ''16.0-ocabot-update-dotfiles''] 0,
         Exec [''git'', ''add'', ''.''] 0,
         Exec [''git'', ''commit'', ''-m'', ''[IMP] update dotfiles''] 0,
         Exec [''git'', ''push'', ''-f'', ''origin'', ''16.0-ocabot-update-dotfiles''] 0,
         HttpGet (pulls_url ''OCA'' ''web'' ''16.0'') (Some \<lparr>status_code = 200, json = [\<lparr>state = ''open'', number = 7\<rparr>]\<rparr>)]"
         and r = "\<lparr>status_code = 200, json = [\<lparr>state = ''open'', number = 7\<rparr>]\<rparr>"]
    open_pr_prevents_creation
      [where env = "simulated [] [] True []"
         and og = "''OCA''" and repo = "''web''" and branch = "''16.0''" and w = start
         and res = "Inr ()"
         and w' = "start\<lparr>trace :=
        [Exec [''git'', ''checkout'', ''-B'', ''16.0-ocabot-update-dotfiles''] 0,
         Exec [''git'', ''add'', ''.''] 0,
         Exec [''git'', ''commit'', ''-m'', ''[IMP] update dotfiles''] 0,
         Exec [''git'', ''push'', ''-f'', ''origin'', ''16.0-ocabot-update-dotfiles''] 0,
         HttpGet (pulls_url ''OCA'' ''web'' ''16.0'') (Some \<lparr>status_code = 200, json = []\<rparr>),
         Exec (gh_pr_create ''OCA'' ''web'' ''16.0'') 0]\<rparr>"
         and es = "[Exec [''git'', ''checkout'', ''-B'', ''16.0-ocabot-update-dotfiles''] 0,
         Exec [''git'', ''add'', ''.''] 0,
         Exec [''git'', ''commit'', ''-m'', ''[IMP] update dotfiles''] 0,
         Exec [''git'', ''push'', ''-f'', ''origin'', ''16.0-ocabot-update-dotfiles''] 0,
         HttpGet (pulls_url ''OCA'' ''web'' ''16.0'') (Some \<lparr>status_code = 200, json = []\<rparr>),
         Exec (gh_pr_create ''OCA'' ''web'' ''16.0'') 0]"
         and r = "\<lparr>status_code = 200, json = []\<rparr>"]
  by (simp add: make_update_dotfiles_pr_def make_update_dotfiles_branch_def make_commit_msg_def
        get_update_dotfiles_open_pr_def truthy_def gh_pr_create_def open_listing_def
        prog_defs simulated_defs)

section \<open>The commit on the pull-request branch\<close>

lemma pr_event_commit:
  "pr_event og repo branch (Exec [''git'', ''commit'', ''-m'', msg] rc) \<Longrightarrow>
   msg = ''[IMP] update dotfiles''"
  by (simp add: pr_event_def gh_pr_create_def)

lemma pr_event_unmarked: "pr_event og repo branch e \<Longrightarrow> unmarked e"
  by (cases e) (auto simp add: pr_event_def unmarked_def gh_pr_create_def)

lemma needs_manual_intervention_skip_ci:
  "needs_manual_intervention env (p\<lparr>skip_ci := b\<rparr>) repo branch =
     needs_manual_intervention env p repo branch"
  by (simp add: needs_manual_intervention_def)

lemma pr_commit_made:
  assumes "check_call env [''git'', ''checkout'', ''-B'', make_update_dotfiles_branch branch] w =
             (Inr (), w1)"
      and "check_call env [''git'', ''add'', ''.''] w1 = (Inr (), w2)"
  shows "\<exists>rc es. trace (snd (make_update_dotfiles_pr env og repo branch w)) =
           trace w2 @ Exec [''git'', ''commit'', ''-m'', ''[IMP] update dotfiles''] rc # es"
proof -
  define k where "k = (\<lambda>u :: unit.
      bind (check_call env [''git'', ''push'', ''-f'', ''origin'', make_update_dotfiles_branch branch]) (\<lambda>_.
      bind (get_update_dotfiles_open_pr env og repo branch) (\<lambda>pr.
      if \<not> truthy pr then check_call env (gh_pr_create og repo branch)
      else return ())))"
  have k: "emits_only (\<lambda>e. True) (k u)" for u
    unfolding k_def
    by (intro emits_only_bind emits_only_check_call emits_only_get_update_dotfiles_open_pr
          emits_only_if emits_only_return) simp_all
  have eq: "make_update_dotfiles_pr env og repo branch w =
      bind (check_call env [''git'', ''commit'', ''-m'', ''[IMP] update dotfiles'']) k w2"
    using assms
    by (simp add: make_update_dotfiles_pr_def Let_def make_commit_msg_def k_def bind_def)
  obtain r3 w3 where c: "check_call env [''git'', ''commit'', ''-m'', ''[IMP] update dotfiles''] w2 = (r3, w3)"
    by (cases "check_call env [''git'', ''commit'', ''-m'', ''[IMP] update dotfiles''] w2")
  from check_call_trace [OF c] obtain rc
    where t3: "trace w3 = trace w2 @ [Exec [''git'', ''commit'', ''-m'', ''[IMP] update dotfiles''] rc]"
    by blast
  show ?thesis
  proof (cases r3)
    case (Inl e)
    with eq c t3 show ?thesis by (simp add: bind_def)
  next
    case (Inr u)
    obtain r4 w4 where k4: "k u w3 = (r4, w4)" by (cases "k u w3")
    from emits_onlyD [OF k k4] obtain es where "trace w4 = trace w3 @ es" by blast
    with eq c t3 Inr k4 show ?thesis by (simp add: bind_def)
  qed
qed

lemma setup_event_unmarked: "setup_event p e \<Longrightarrow> unmarked e"
  by (cases e) (auto simp add: setup_event_def unmarked_def)

lemma marked_after_pass_unmarked:
  "list_all unmarked es \<Longrightarrow> marked_after_pass a b es"
  by (induction es arbitrary: a b) simp_all

lemma marked_after_pass_append:
  "marked_after_pass a b es1 \<Longrightarrow> (\<And>a b. marked_after_pass a b es2) \<Longrightarrow>
   marked_after_pass a b (es1 @ es2)"
  by (induction es1 arbitrary: a b) simp_all

lemma marked_after_pass_commit:
  "list_all unmarked pre \<Longrightarrow> list_all unmarked post \<Longrightarrow>
   marked_after_pass a b
     (pre @ [Exec [''pre-commit'', ''run'', ''-a''] 0, Exec [''git'', ''add'', ''.''] 0] @ c # post)"
proof (induction pre arbitrary: a b)
  case Nil
  have "unmarked (Exec [''pre-commit'', ''run'', ''-a''] 0)" "unmarked (Exec [''git'', ''add'', ''.''] 0)"
    by (simp_all add: unmarked_def)
  with Nil show ?case by (simp add: marked_after_pass_unmarked)
next
  case (Cons e pre)
  then show ?case by simp
qed

lemma precommit_loop_passed:
  "precommit_loop env n r w = (Inr 0, w') \<Longrightarrow> 0 < n \<Longrightarrow>
   \<exists>pre. list_all unmarked pre
      \<and> trace w' = trace w @ pre @
          [Exec [''pre-commit'', ''run'', ''-a''] 0, Exec [''git'', ''add'', ''.''] 0]"
proof (induction n arbitrary: r w)
  case 0
  then show ?case by simp
next
  case (Suc n)
  obtain rc fs where run1: "run env [''pre-commit'', ''run'', ''-a''] w = (rc, fs)"
    by (cases "run env [''pre-commit'', ''run'', ''-a''] w")
  define w1 where "w1 = emit (Exec [''pre-commit'', ''run'', ''-a''] rc) (w\<lparr>files := fs\<rparr>)"
  obtain rc2 fs2 where run2: "run env [''git'', ''add'', ''.''] w1 = (rc2, fs2)"
    by (cases "run env [''git'', ''add'', ''.''] w1")
  define w2 where "w2 = emit (Exec [''git'', ''add'', ''.''] rc2) (w1\<lparr>files := fs2\<rparr>)"
  have t2: "trace w2 = trace w @ [Exec [''pre-commit'', ''run'', ''-a''] rc, Exec [''git'', ''add'', ''.''] rc2]"
    by (simp add: w2_def w1_def emit_def)
  have step: "precommit_loop env (Suc n) r w =
      (if rc2 \<noteq> 0 then (Inl (CalledProcessError [''git'', ''add'', ''.''] rc2), w2)
       else if rc = 0 then (Inr rc, w2) else precommit_loop env n rc w2)"
    using run1 run2
    by (simp add: bind_def call_def check_call_def return_def throw_def w1_def w2_def)
  from Suc.prems(1) step have rc2: "rc2 = 0" by (auto split: if_splits)
  show ?case
  proof (cases "rc = 0")
    case True
    with Suc.prems(1) step rc2 have "w' = w2" by simp
    with t2 True rc2 show ?thesis by (intro exI [of _ "[]"]) simp
  next
    case False
    with Suc.prems(1) step rc2 have rec: "precommit_loop env n rc w2 = (Inr 0, w')" by simp
    have "0 < n"
    proof (rule ccontr)
      assume "\<not> 0 < n"
      with rec False show False by (simp add: return_def)
    qed
    from Suc.IH [OF rec this] obtain pre where pre: "list_all unmarked pre"
      "trace w' = trace w2 @ pre @
          [Exec [''pre-commit'', ''run'', ''-a''] 0, Exec [''git'', ''add'', ''.''] 0]"
      by blast
    have "unmarked (Exec [''pre-commit'', ''run'', ''-a''] rc)" "unmarked (Exec [''git'', ''add'', ''.''] rc2)"
      by (simp_all add: unmarked_def)
    with t2 pre show ?thesis
      by (intro exI [of _ "[Exec [''pre-commit'', ''run'', ''-a''] rc, Exec [''git'', ''add'', ''.''] rc2] @ pre"])
         simp
  qed
qed



lemma bind_unmarked_then:
  assumes m: "emits_only unmarked m"
      and run: "bind m k w = (res, w')"
      and k: "\<And>x w1. k x w1 = (res, w') \<Longrightarrow>
               (\<exists>es. trace w' = trace w1 @ es \<and> list_all unmarked es)
             \<or> (\<exists>pre w0. list_all unmarked pre \<and> trace w0 = trace w1 @ pre @ tail \<and> R w0)"
  shows "(\<exists>es. trace w' = trace w @ es \<and> list_all unmarked es)
       \<or> (\<exists>pre w0. list_all unmarked pre \<and> trace w0 = trace w @ pre @ tail \<and> R w0)"
  using run
proof (cases rule: bind_cases)
  case (raised e)
  from emits_onlyD [OF m raised(1)] show ?thesis by blast
next
  case (returned x w1)
  from emits_onlyD [OF m returned(1)] obtain es1
    where es1: "trace w1 = trace w @ es1" "list_all unmarked es1" by blast
  from k [OF returned(2)] show ?thesis
  proof
    assume "\<exists>es. trace w' = trace w1 @ es \<and> list_all unmarked es"
    then obtain es where "trace w' = trace w1 @ es" "list_all unmarked es" by blast
    with es1 have "trace w' = trace w @ (es1 @ es) \<and> list_all unmarked (es1 @ es)" by simp
    then show ?thesis by blast
  next
    assume "\<exists>pre w0. list_all unmarked pre \<and> trace w0 = trace w1 @ pre @ tail \<and> R w0"
    then obtain pre w0 where "list_all unmarked pre" "trace w0 = trace w1 @ pre @ tail" "R w0"
      by blast
    with es1 have "list_all unmarked (es1 @ pre) \<and> trace w0 = trace w @ (es1 @ pre) @ tail \<and> R w0"
      by simp
    then show ?thesis by blast
  qed
qed

lemma emits_only_unmarked_needs_manual_intervention:
  "emits_only unmarked (needs_manual_intervention env p repo branch)"
proof -
  have "emits_only unmarked (make_update_dotfiles_pr env (org p) repo branch)"
    by (rule emits_only_mono [OF emits_only_make_update_dotfiles_pr]) (rule pr_event_unmarked)
  moreover have "unmarked (Print s)" for s by (simp add: unmarked_def)
  ultimately show ?thesis
    unfolding needs_manual_intervention_def
    by (intro emits_only_bind emits_only_print)
qed

lemma emits_only_unmarked_preparing:
  "emits_only unmarked (preparing env p repo branch)"
  by (rule emits_only_mono [OF emits_only_preparing]) (rule setup_event_unmarked)

lemma emits_only_unmarked_precommit_loop:
  "emits_only unmarked (precommit_loop env n r)"
  by (rule emits_only_precommit_loop) (simp_all add: unmarked_def)

lemma loop_publish:
  assumes run: "bind (precommit_loop env 3 r) (\<lambda>r.
       if r \<noteq> 0 then needs_manual_intervention env p repo branch
       else ready_to_publish env p) w = (res, w')"
      and tail: "tail = [Exec [''pre-commit'', ''run'', ''-a''] 0, Exec [''git'', ''add'', ''.''] 0]"
  shows "(\<exists>es. trace w' = trace w @ es \<and> list_all unmarked es)
       \<or> (\<exists>pre w0. list_all unmarked pre \<and> trace w0 = trace w @ pre @ tail
            \<and> ready_to_publish env p w0 = (res, w'))"
  using run
proof (cases rule: bind_cases)
  case (raised e)
  from emits_onlyD [OF emits_only_unmarked_precommit_loop raised(1)] show ?thesis by blast
next
  case (returned r' w3)
  show ?thesis
  proof (cases "r' = 0")
    case True
    with returned have loop: "precommit_loop env 3 r w = (Inr 0, w3)"
      and pub: "ready_to_publish env p w3 = (res, w')" by simp_all
    from precommit_loop_passed [OF loop, folded tail] obtain pre
      where "list_all unmarked pre" "trace w3 = trace w @ pre @ tail" by auto
    with pub have "list_all unmarked pre \<and> trace w3 = trace w @ pre @ tail
        \<and> ready_to_publish env p w3 = (res, w')" by simp
    then show ?thesis by blast
  next
    case False
    from emits_onlyD [OF emits_only_unmarked_precommit_loop returned(1)] obtain es1
      where es1: "trace w3 = trace w @ es1" "list_all unmarked es1" by blast
    from False returned(2) have "needs_manual_intervention env p repo branch w3 = (res, w')"
      by simp
    from emits_onlyD [OF emits_only_unmarked_needs_manual_intervention this] obtain es2
      where "trace w' = trace w3 @ es2" "list_all unmarked es2" by blast
    with es1 have "trace w' = trace w @ (es1 @ es2) \<and> list_all unmarked (es1 @ es2)" by simp
    then show ?thesis by blast
  qed
qed

lemma formatting_publish:
  assumes run: "formatting env p repo branch r w = (res, w')"
      and tail: "tail = [Exec [''pre-commit'', ''run'', ''-a''] 0, Exec [''git'', ''add'', ''.''] 0]"
  shows "(\<exists>es. trace w' = trace w @ es \<and> list_all unmarked es)
       \<or> (\<exists>pre w0. list_all unmarked pre \<and> trace w0 = trace w @ pre @ tail
            \<and> ready_to_publish env p w0 = (res, w'))"
proof (rule bind_unmarked_then [OF _ run [unfolded formatting_def]])
  show "emits_only unmarked (check_call env ([''rm'', ''-f''] @ IGNORED_REJ_FILES))"
    by (rule emits_only_check_call) (simp add: unmarked_def IGNORED_REJ_FILES_def)
next
  fix x :: unit and w1
  assume "bind (check_call env [''git'', ''add'', ''.'']) (\<lambda>_.
     bind (precommit_loop env 3 r) (\<lambda>r.
     if r \<noteq> 0 then needs_manual_intervention env p repo branch
     else ready_to_publish env p)) w1 = (res, w')"
  then show "(\<exists>es. trace w' = trace w1 @ es \<and> list_all unmarked es)
       \<or> (\<exists>pre w0. list_all unmarked pre \<and> trace w0 = trace w1 @ pre @ tail
            \<and> ready_to_publish env p w0 = (res, w'))"
  proof (rule bind_unmarked_then [rotated])
    show "emits_only unmarked (check_call env [''git'', ''add'', ''.''])"
      by (rule emits_only_check_call) (simp add: unmarked_def)
  next
    fix y :: unit and w2
    assume "bind (precommit_loop env 3 r) (\<lambda>r.
       if r \<noteq> 0 then needs_manual_intervention env p repo branch
       else ready_to_publish env p) w2 = (res, w')"
    then show "(\<exists>es. trace w' = trace w2 @ es \<and> list_all unmarked es)
       \<or> (\<exists>pre w0. list_all unmarked pre \<and> trace w0 = trace w2 @ pre @ tail
            \<and> ready_to_publish env p w0 = (res, w'))"
      using tail by (rule loop_publish)
  qed
qed

lemma updating_publish:
  assumes run: "updating env p repo branch w = (res, w')"
      and tail: "tail = [Exec [''pre-commit'', ''run'', ''-a''] 0, Exec [''git'', ''add'', ''.''] 0]"
  shows "(\<exists>es. trace w' = trace w @ es \<and> list_all unmarked es)
       \<or> (\<exists>pre w0. list_all unmarked pre \<and> trace w0 = trace w @ pre @ tail
            \<and> ready_to_publish env p w0 = (res, w'))"
proof (rule bind_unmarked_then [OF _ run [unfolded updating_def]])
  show "emits_only unmarked (call env [''copier'', ''update'', ''-f'', ''--trust''])"
    by (rule emits_only_call) (simp add: unmarked_def)
next
  fix rc w1
  assume k: "(if rc \<noteq> 0
       then print (replicate 10 (CHR ''$'') @ '' '' @ ''copier update failed on '' @ repo)
       else formatting env p repo branch rc) w1 = (res, w')"
  show "(\<exists>es. trace w' = trace w1 @ es \<and> list_all unmarked es)
       \<or> (\<exists>pre w0. list_all unmarked pre \<and> trace w0 = trace w1 @ pre @ tail
            \<and> ready_to_publish env p w0 = (res, w'))"
  proof (cases "rc = 0")
    case True
    with k have "formatting env p repo branch rc w1 = (res, w')" by simp
    then show ?thesis using tail by (rule formatting_publish)
  next
    case False
    define notice where "notice = Print (replicate 10 (CHR ''$'') @ '' '' @ ''copier update failed on '' @ repo)"
    from False k have "trace w' = trace w1 @ [notice]"
      by (auto simp add: print_def emit_def notice_def)
    moreover have "list_all unmarked [notice]" by (simp add: unmarked_def notice_def)
    ultimately have "trace w' = trace w1 @ [notice] \<and> list_all unmarked [notice]" by simp
    then show ?thesis by blast
  qed
qed

lemma clone_block_publish:
  assumes run: "clone_block env p repo branch w = (res, w')"
      and tail: "tail = [Exec [''pre-commit'', ''run'', ''-a''] 0, Exec [''git'', ''add'', ''.''] 0]"
  shows "(\<exists>es. trace w' = trace w @ es \<and> list_all unmarked es)
       \<or> (\<exists>pre w0. list_all unmarked pre \<and> trace w0 = trace w @ pre @ tail
            \<and> ready_to_publish env p w0 = (res, w'))"
proof (rule bind_unmarked_then [OF emits_only_unmarked_preparing run [unfolded clone_block_eq]])
  fix go w1
  assume k: "(if go then updating env p repo branch else return ()) w1 = (res, w')"
  show "(\<exists>es. trace w' = trace w1 @ es \<and> list_all unmarked es)
       \<or> (\<exists>pre w0. list_all unmarked pre \<and> trace w0 = trace w1 @ pre @ tail
            \<and> ready_to_publish env p w0 = (res, w'))"
  proof (cases go)
    case True
    with k have "updating env p repo branch w1 = (res, w')" by simp
    then show ?thesis using tail by (rule updating_publish)
  next
    case False
    with k have "trace w' = trace w1 @ [] \<and> list_all unmarked []" by (simp add: return_def)
    then show ?thesis by blast
  qed
qed

lemma ready_to_publish_trace:
  assumes "ready_to_publish env p w = (res, w')"
  shows "trace w' = trace w
       \<or> (\<exists>rc post. trace w' = trace w @
             Exec [''git'', ''commit'', ''-m'', make_commit_msg (skip_ci p)] rc # post
           \<and> list_all unmarked post)"
proof -
  define msg where "msg = make_commit_msg (skip_ci p)"
  have push: "unmarked (Exec [''git'', ''push''] rc)" for rc by (simp add: unmarked_def)
  from assms [unfolded ready_to_publish_def commit_if_needed_def, folded msg_def]
  have "trace w' = trace w
       \<or> (\<exists>rc. trace w' = trace w @ [Exec [''git'', ''commit'', ''-m'', msg] rc])
       \<or> (\<exists>rc rc'. trace w' = trace w @ [Exec [''git'', ''commit'', ''-m'', msg] rc,
                                           Exec [''git'', ''push''] rc'])"
    by (auto simp add: has_staged_changes_def bind_def check_call_def call_def return_def
          throw_def emit_def split: prod.splits if_splits)
  with push show ?thesis unfolding msg_def by auto
qed

lemma iteration_publish:
  assumes run: "iteration env p repo branch w = (res, w')"
  obtains (silent) es where "trace w' = trace w @ es" and "list_all unmarked es"
        | (published) pre w0 w2 rc post where "list_all unmarked pre" and "list_all unmarked post"
            and "trace w0 = trace w @ pre @
                [Exec [''pre-commit'', ''run'', ''-a''] 0, Exec [''git'', ''add'', ''.''] 0]"
            and "ready_to_publish env p w0 = (res, w2)"
            and "trace w2 = trace w0 @
                Exec [''git'', ''commit'', ''-m'', make_commit_msg (skip_ci p)] rc # post"
            and "trace w' = trace w2 @ [Cleanup]"
  using run unfolding iteration_def
proof (cases rule: temporary_clone_cases)
  case missing
  show ?thesis
    by (rule silent [of "[Clone (org p) repo branch (git_protocol p)]"])
       (simp_all add: missing emit_def unmarked_def)
next
  case failed
  show ?thesis
    by (rule silent [of "[Clone (org p) repo branch (git_protocol p)]"])
       (simp_all add: failed emit_def unmarked_def)
next
  case (cloned fs w2)
  define tail where "tail = [Exec [''pre-commit'', ''run'', ''-a''] 0, Exec [''git'', ''add'', ''.''] 0]"
  define c where "c = Clone (org p) repo branch (git_protocol p)"
  define w1 where "w1 = (emit c w)\<lparr>files := fs\<rparr>"
  have t1: "trace w1 = trace w @ [c]" by (simp add: w1_def emit_def)
  have c: "unmarked c" "unmarked Cleanup" by (simp_all add: c_def unmarked_def)
  have tl: "list_all unmarked tail" by (simp add: tail_def unmarked_def)
  from cloned(3) have t': "trace w' = trace w2 @ [Cleanup]" by (simp add: emit_def)
  from cloned(2) have block: "clone_block env p repo branch w1 = (res, w2)"
    by (simp add: w1_def c_def)
  from clone_block_publish [OF block tail_def] show ?thesis
  proof
    assume "\<exists>es. trace w2 = trace w1 @ es \<and> list_all unmarked es"
    then obtain es where "trace w2 = trace w1 @ es" "list_all unmarked es" by blast
    with t1 t' c show ?thesis by (intro silent [of "c # es @ [Cleanup]"]) simp_all
  next
    assume "\<exists>pre w0. list_all unmarked pre \<and> trace w0 = trace w1 @ pre @ tail
        \<and> ready_to_publish env p w0 = (res, w2)"
    then obtain pre w0 where pre: "list_all unmarked pre" "trace w0 = trace w1 @ pre @ tail"
      "ready_to_publish env p w0 = (res, w2)" by blast
    from ready_to_publish_trace [OF pre(3)] show ?thesis
    proof
      assume "trace w2 = trace w0"
      with pre t1 t' c tl show ?thesis
        by (intro silent [of "c # pre @ tail @ [Cleanup]"]) simp_all
    next
      assume "\<exists>rc post. trace w2 = trace w0 @
             Exec [''git'', ''commit'', ''-m'', make_commit_msg (skip_ci p)] rc # post
           \<and> list_all unmarked post"
      then obtain rc post where post: "trace w2 = trace w0 @
             Exec [''git'', ''commit'', ''-m'', make_commit_msg (skip_ci p)] rc # post"
           "list_all unmarked post" by blast
      show ?thesis
      proof (rule published [of "c # pre" post w0 w2 rc])
        from pre(1) c show "list_all unmarked (c # pre)" by simp
        from post(2) show "list_all unmarked post" .
        from pre(2) t1 show "trace w0 = trace w @ (c # pre) @
                [Exec [''pre-commit'', ''run'', ''-a''] 0, Exec [''git'', ''add'', ''.''] 0]"
          by (simp add: tail_def)
        from pre(3) show "ready_to_publish env p w0 = (res, w2)" .
        from post(1) show "trace w2 = trace w0 @
             Exec [''git'', ''commit'', ''-m'', make_commit_msg (skip_ci p)] rc # post" .
        from t' show "trace w' = trace w2 @ [Cleanup]" .
      qed
    qed
  qed
qed

lemma iteration_marked:
  assumes run: "iteration env p repo branch w = (res, w')"
      and es: "trace w' = trace w @ es"
      and marked: "\<not> list_all unmarked es"
  shows "skip_ci p
     \<and> (\<exists>pre rc post w0 w2.
           es = pre @ [Exec [''pre-commit'', ''run'', ''-a''] 0, Exec [''git'', ''add'', ''.''] 0,
                       Exec [''git'', ''commit'', ''-m'', ''[IMP] update dotfiles [ci skip]''] rc]
                    @ post @ [Cleanup]
         \<and> list_all unmarked pre \<and> list_all unmarked post
         \<and> trace w0 = trace w @ pre @
             [Exec [''pre-commit'', ''run'', ''-a''] 0, Exec [''git'', ''add'', ''.''] 0]
         \<and> ready_to_publish env p w0 = (res, w2)
         \<and> trace w2 = trace w0 @
             Exec [''git'', ''commit'', ''-m'', ''[IMP] update dotfiles [ci skip]''] rc # post)"
  using run
proof (cases rule: iteration_publish)
  case (silent es0)
  with es marked show ?thesis by simp
next
  case sh: (published pre w0 w2 rc post)
  define tail where "tail = [Exec [''pre-commit'', ''run'', ''-a''] 0, Exec [''git'', ''add'', ''.''] 0]"
  have tl: "list_all unmarked tail" by (simp add: tail_def unmarked_def)
  from sh es have e: "es = pre @ tail @
      Exec [''git'', ''commit'', ''-m'', make_commit_msg (skip_ci p)] rc # post @ [Cleanup]"
    by (simp add: tail_def)
  have skip: "skip_ci p"
  proof (rule ccontr)
    assume "\<not> skip_ci p"
    then have "unmarked (Exec [''git'', ''commit'', ''-m'', make_commit_msg (skip_ci p)] rc)"
      by (simp add: unmarked_def make_commit_msg_def)
    moreover have "unmarked Cleanup" by (simp add: unmarked_def)
    ultimately have "list_all unmarked es" using sh(1,2) tl unfolding e by simp
    with marked show False ..
  qed
  then have msg: "make_commit_msg (skip_ci p) = ''[IMP] update dotfiles [ci skip]''"
    by (simp add: make_commit_msg_def)
  from sh e have "es = pre @ [Exec [''pre-commit'', ''run'', ''-a''] 0, Exec [''git'', ''add'', ''.''] 0,
                       Exec [''git'', ''commit'', ''-m'', ''[IMP] update dotfiles [ci skip]''] rc]
                    @ post @ [Cleanup]
         \<and> list_all unmarked pre \<and> list_all unmarked post
         \<and> trace w0 = trace w @ pre @
             [Exec [''pre-commit'', ''run'', ''-a''] 0, Exec [''git'', ''add'', ''.''] 0]
         \<and> ready_to_publish env p w0 = (res, w2)
         \<and> trace w2 = trace w0 @
             Exec [''git'', ''commit'', ''-m'', ''[IMP] update dotfiles [ci skip]''] rc # post"
    unfolding msg tail_def by simp
  then have "\<exists>pre rc post w0 w2.
           es = pre @ [Exec [''pre-commit'', ''run'', ''-a''] 0, Exec [''git'', ''add'', ''.''] 0,
                       Exec [''git'', ''commit'', ''-m'', ''[IMP] update dotfiles [ci skip]''] rc]
                    @ post @ [Cleanup]
         \<and> list_all unmarked pre \<and> list_all unmarked post
         \<and> trace w0 = trace w @ pre @
             [Exec [''pre-commit'', ''run'', ''-a''] 0, Exec [''git'', ''add'', ''.''] 0]
         \<and> ready_to_publish env p w0 = (res, w2)
         \<and> trace w2 = trace w0 @
             Exec [''git'', ''commit'', ''-m'', ''[IMP] update dotfiles [ci skip]''] rc # post"
    by (intro exI [of _ pre] exI [of _ rc] exI [of _ post] exI [of _ w0] exI [of _ w2])
  with skip show ?thesis ..
qed

lemma iteration_marked_after_pass:
  assumes run: "iteration env p repo branch w = (res, w')"
  shows "\<exists>es. trace w' = trace w @ es \<and> (\<forall>a b. marked_after_pass a b es)"
  using run
proof (cases rule: iteration_publish)
  case (silent es)
  then have "trace w' = trace w @ es \<and> (\<forall>a b. marked_after_pass a b es)"
    by (simp add: marked_after_pass_unmarked)
  then show ?thesis by (intro exI [of _ es])
next
  case sh: (published pre w0 w2 rc post)
  define c where "c = Exec [''git'', ''commit'', ''-m'', make_commit_msg (skip_ci p)] rc"
  define es where "es = pre @
      [Exec [''pre-commit'', ''run'', ''-a''] 0, Exec [''git'', ''add'', ''.''] 0] @ c # post @ [Cleanup]"
  from sh(2) have "list_all unmarked (post @ [Cleanup])" by (simp add: unmarked_def)
  from marked_after_pass_commit [OF sh(1) this, of _ _ c]
  have "\<forall>a b. marked_after_pass a b es" unfolding es_def by simp
  moreover from sh(3,5,6) have "trace w' = trace w @ es" by (simp add: c_def es_def)
  ultimately show ?thesis by (intro exI [of _ es] conjI)
qed

lemma main_loop_marked_after_pass:
  "main_loop env p pairs w = (res, w') \<Longrightarrow>
   \<exists>es. trace w' = trace w @ es \<and> (\<forall>a b. marked_after_pass a b es)"
proof (induction pairs arbitrary: w)
  case Nil
  then have "trace w' = trace w @ [] \<and> (\<forall>a b. marked_after_pass a b [])" by simp
  then show ?case by (intro exI [of _ "[]"])
next
  case (Cons pair pairs)
  obtain repo branch where pair: "pair = (repo, branch)" by (cases pair)
  obtain r1 w1 where it: "iteration env p repo branch w = (r1, w1)"
    by (cases "iteration env p repo branch w")
  from iteration_marked_after_pass [OF it] obtain es1
    where es1: "trace w1 = trace w @ es1" "\<And>a b. marked_after_pass a b es1" by blast
  show ?case
  proof (cases "r1 = Inr () \<or> r1 = Inl BranchNotFoundError")
    case True
    with Cons.prems it have "main_loop env p pairs w1 = (res, w')"
      unfolding pair by auto
    from Cons.IH [OF this] obtain es2 where es2: "trace w' = trace w1 @ es2"
      "\<And>a b. marked_after_pass a b es2" by blast
    from es1(2) es2(2) have "\<forall>a b. marked_after_pass a b (es1 @ es2)"
      by (simp add: marked_after_pass_append)
    with es1(1) es2(1) have "trace w' = trace w @ (es1 @ es2)
        \<and> (\<forall>a b. marked_after_pass a b (es1 @ es2))" by simp
    then show ?thesis by (intro exI [of _ "es1 @ es2"])
  next
    case False
    then obtain e where e: "r1 = Inl e" "e \<noteq> BranchNotFoundError"
      by (cases r1) auto
    with Cons.prems it have "w' = w1" unfolding pair by simp
    with es1 have "trace w' = trace w @ es1 \<and> (\<forall>a b. marked_after_pass a b es1)" by simp
    then show ?thesis by (intro exI [of _ es1])
  qed
qed

lemma main_marked_after_pass:
  assumes run: "main env p w = (res, w')" and es: "trace w' = trace w @ es"
  shows "marked_after_pass a b es"
  using run unfolding main_def
proof (cases rule: bind_cases)
  case (raised e)
  then have "w' = w"
    by (auto simp add: iterate_repos_and_branches_def split: if_splits option.splits)
  with es show ?thesis by simp
next
  case (returned pairs w1)
  from returned(1) have "w1 = w"
    by (auto simp add: iterate_repos_and_branches_def split: if_splits option.splits)
  with returned(2) main_loop_marked_after_pass [of env p pairs w res w'] es
  show ?thesis by auto
qed

text \<open>
  C9: The commit on the manual-intervention branch always has the message
  \<^verbatim>\<open>[IMP] update dotfiles\<close>: every event of \<^verbatim>\<open>_make_update_dotfiles_pr\<close> is one of its six
  commands, none of them a commit with the CI-skip marker, and once the checkout and the
  staging succeed the commit with that message is made. The path does not depend on the
  skip-ci flag. In a whole run a commit with the marker can only appear when the flag is
  set. The marker appears on direct-push commits only: an iteration whose events hold a
  commit with the marker has the flag set and reached lines 183 and 184 right after a
  formatting pass that exited with 0; no event before that point carries the marker (not the
  commit of the answers-file fix, not a failed update, not the manual-intervention path),
  the commit with the marker is the first event of lines 183 and 184, and no event after it
  carries the marker. In the trace of a whole run every commit with the marker comes right
  after a formatting pass that exited with 0 and the staging that follows it.
\<close>

theorem pr_commit_never_skips_ci:
  "(make_update_dotfiles_pr env og repo branch w = (res, w') \<and> trace w' = trace w @ es \<longrightarrow>
      list_all (pr_event og repo branch) es \<and> list_all unmarked es
      \<and> (Exec [''git'', ''commit'', ''-m'', msg] rc \<in> set es \<longrightarrow> msg = ''[IMP] update dotfiles''))
   \<and> (check_call env [''git'', ''checkout'', ''-B'', make_update_dotfiles_branch branch] w =
         (Inr (), w1)
       \<and> check_call env [''git'', ''add'', ''.''] w1 = (Inr (), w2) \<longrightarrow>
       (\<exists>rc es. trace (snd (make_update_dotfiles_pr env og repo branch w)) =
           trace w2 @ Exec [''git'', ''commit'', ''-m'', ''[IMP] update dotfiles''] rc # es))
   \<and> needs_manual_intervention env (p\<lparr>skip_ci := b\<rparr>) repo branch =
       needs_manual_intervention env p repo branch
   \<and> (main env p w = (res', w'') \<and> trace w'' = trace w @ es' \<longrightarrow>
       skip_ci p \<or> list_all unmarked es')
   \<and> (iteration env p repo branch wi = (resi, wi') \<and> trace wi' = trace wi @ esi
       \<and> \<not> list_all unmarked esi \<longrightarrow>
       skip_ci p
       \<and> (\<exists>pre rc post wa wb.
             esi = pre @ [Exec [''pre-commit'', ''run'', ''-a''] 0, Exec [''git'', ''add'', ''.''] 0,
                          Exec [''git'', ''commit'', ''-m'', ''[IMP] update dotfiles [ci skip]''] rc]
                       @ post @ [Cleanup]
           \<and> list_all unmarked pre \<and> list_all unmarked post
           \<and> trace wa = trace wi @ pre @
               [Exec [''pre-commit'', ''run'', ''-a''] 0, Exec [''git'', ''add'', ''.''] 0]
           \<and> ready_to_publish env p wa = (resi, wb)
           \<and> trace wb = trace wa @
               Exec [''git'', ''commit'', ''-m'', ''[IMP] update dotfiles [ci skip]''] rc # post))
   \<and> (main env p w = (res', w'') \<and> trace w'' = trace w @ es' \<longrightarrow>
       marked_after_pass e1 e2 es')"
proof (intro conjI impI)
  assume a: "make_update_dotfiles_pr env og repo branch w = (res, w') \<and> trace w' = trace w @ es"
  with emits_onlyD [OF emits_only_make_update_dotfiles_pr, of env og repo branch w res w']
  show pr: "list_all (pr_event og repo branch) es" by auto
  then show "list_all unmarked es"
    by (auto simp add: list_all_iff intro: pr_event_unmarked)
  assume "Exec [''git'', ''commit'', ''-m'', msg] rc \<in> set es"
  with pr have "pr_event og repo branch (Exec [''git'', ''commit'', ''-m'', msg] rc)"
    by (simp add: list_all_iff)
  then show "msg = ''[IMP] update dotfiles''" by (rule pr_event_commit)
next
  assume "check_call env [''git'', ''checkout'', ''-B'', make_update_dotfiles_branch branch] w =
         (Inr (), w1)
       \<and> check_call env [''git'', ''add'', ''.''] w1 = (Inr (), w2)"
  then show "\<exists>rc es. trace (snd (make_update_dotfiles_pr env og repo branch w)) =
           trace w2 @ Exec [''git'', ''commit'', ''-m'', ''[IMP] update dotfiles''] rc # es"
    using pr_commit_made by simp
next
  show "needs_manual_intervention env (p\<lparr>skip_ci := b\<rparr>) repo branch =
       needs_manual_intervention env p repo branch"
    by (rule needs_manual_intervention_skip_ci)
next
  assume a: "main env p w = (res', w'') \<and> trace w'' = trace w @ es'"
  with emits_onlyD [OF emits_only_main_unmarked, of env p w res' w'']
  have "list_all (\<lambda>e. skip_ci p \<or> unmarked e) es'" by auto
  then show "skip_ci p \<or> list_all unmarked es'"
    by (auto simp add: list_all_iff)
next
  assume "iteration env p repo branch wi = (resi, wi') \<and> trace wi' = trace wi @ esi
       \<and> \<not> list_all unmarked esi"
  then have marked: "skip_ci p
       \<and> (\<exists>pre rc post wa wb.
             esi = pre @ [Exec [''pre-commit'', ''run'', ''-a''] 0, Exec [''git'', ''add'', ''.''] 0,
                          Exec [''git'', ''commit'', ''-m'', ''[IMP] update dotfiles [ci skip]''] rc]
                       @ post @ [Cleanup]
           \<and> list_all unmarked pre \<and> list_all unmarked post
           \<and> trace wa = trace wi @ pre @
               [Exec [''pre-commit'', ''run'', ''-a''] 0, Exec [''git'', ''add'', ''.''] 0]
           \<and> ready_to_publish env p wa = (resi, wb)
           \<and> trace wb = trace wa @
               Exec [''git'', ''commit'', ''-m'', ''[IMP] update dotfiles [ci skip]''] rc # post)"
    by (elim conjE) (rule iteration_marked)
  from marked show "skip_ci p" by (rule conjunct1)
  from marked show "\<exists>pre rc post wa wb.
             esi = pre @ [Exec [''pre-commit'', ''run'', ''-a''] 0, Exec [''git'', ''add'', ''.''] 0,
                          Exec [''git'', ''commit'', ''-m'', ''[IMP] update dotfiles [ci skip]''] rc]
                       @ post @ [Cleanup]
           \<and> list_all unmarked pre \<and> list_all unmarked post
           \<and> trace wa = trace wi @ pre @
               [Exec [''pre-commit'', ''run'', ''-a''] 0, Exec [''git'', ''add'', ''.''] 0]
           \<and> ready_to_publish env p wa = (resi, wb)
           \<and> trace wb = trace wa @
               Exec [''git'', ''commit'', ''-m'', ''[IMP] update dotfiles [ci skip]''] rc # post"
    by (rule conjunct2)
next
  assume "main env p w = (res', w'') \<and> trace w'' = trace w @ es'"
  then show "marked_after_pass e1 e2 es'"
    by (elim conjE) (rule main_marked_after_pass)
qed

theorem pr_commit_never_skips_ci_witness:
  "make_update_dotfiles_pr (simulated [] [] True []) ''OCA'' ''web'' ''16.0'' start =
     (Inr (), start\<lparr>trace :=
        [Exec [''git'', ''checkout'', ''-B'', ''16.0-ocabot-update-dotfiles''] 0,
         Exec [''git'', ''add'', ''.''] 0,
         Exec [''git'', ''commit'', ''-m'', ''[IMP] update dotfiles''] 0,
         Exec [''git'', ''push'', ''-f'', ''origin'', ''16.0-ocabot-update-dotfiles''] 0,
         HttpGet (pulls_url ''OCA'' ''web'' ''16.0'') (Some \<lparr>status_code = 200, json = []\<rparr>),
         Exec (gh_pr_create ''OCA'' ''web'' ''16.0'') 0]\<rparr>)
   \<and> list_all unmarked
        [Exec [''git'', ''checkout'', ''-B'', ''16.0-ocabot-update-dotfiles''] 0,
         Exec [''git'', ''add'', ''.''] 0,
         Exec [''git'', ''commit'', ''-m'', ''[IMP] update dotfiles''] 0,
         Exec [''git'', ''push'', ''-f'', ''origin'', ''16.0-ocabot-update-dotfiles''] 0,
         HttpGet (pulls_url ''OCA'' ''web'' ''16.0'') (Some \<lparr>status_code = 200, json = []\<rparr>),
         Exec (gh_pr_create ''OCA'' ''web'' ''16.0'') 0]
   \<and> check_call (simulated [] [] True []) [''git'', ''checkout'', ''-B'', ''16.0-ocabot-update-dotfiles''] start =
       (Inr (), start\<lparr>trace :=
        [Exec [''git'', ''checkout'', ''-B'', ''16.0-ocabot-update-dotfiles''] 0]\<rparr>)
   \<and> check_call (simulated [] [] True []) [''git'', ''add'', ''.'']
        (start\<lparr>trace :=
        [Exec [''git'', ''checkout'', ''-B'', ''16.0-ocabot-update-dotfiles''] 0]\<rparr>) =
       (Inr (), start\<lparr>trace :=
        [Exec [''git'', ''checkout'', ''-B'', ''16.0-ocabot-update-dotfiles''] 0,
         Exec [''git'', ''add'', ''.''] 0]\<rparr>)
   \<and> needs_manual_intervention (simulated [] [] True []) ((oca\<lparr>repos := ''web'', branches := ''16.0''\<rparr>)\<lparr>skip_ci := True\<rparr>) ''web'' ''16.0'' start =
       needs_manual_intervention (simulated [] [] True []) (oca\<lparr>repos := ''web'', branches := ''16.0''\<rparr>) ''web'' ''16.0'' start
   \<and> main (simulated [] [] True []) (oca\<lparr>repos := ''web'', branches := ''16.0''\<rparr>) start =
       (Inr (), start\<lparr>trace :=
        [Clone ''OCA'' ''web'' ''16.0'' ''git'',
         Print ''========== web 16.0 =========='',
         Exec [''git'', ''config'', ''user.name'', ''oca-git-bot''] 0,
         Exec [''git'', ''config'', ''user.email'', ''oca-git-bot@odoo-community.org''] 0,
         Exec [''copier'', ''update'', ''-f'', ''--trust''] 0,
         Exec [''rm'', ''-f'', ''oca_dependencies.txt.rej''] 0,
         Exec [''git'', ''add'', ''.''] 0,
         Exec [''pre-commit'', ''run'', ''-a''] 0,
         Exec [''git'', ''add'', ''.''] 0,
         Exec [''git'', ''commit'', ''-m'', ''[IMP] update dotfiles''] 0,
         Exec [''git'', ''push''] 0,
         Cleanup]\<rparr>)
   \<and> list_all unmarked
        [Clone ''OCA'' ''web'' ''16.0'' ''git'',
         Print ''========== web 16.0 =========='',
         Exec [''git'', ''config'', ''user.name'', ''oca-git-bot''] 0,
         Exec [''git'', ''config'', ''user.email'', ''oca-git-bot@odoo-community.org''] 0,
         Exec [''copier'', ''update'', ''-f'', ''--trust''] 0,
         Exec [''rm'', ''-f'', ''oca_dependencies.txt.rej''] 0,
         Exec [''git'', ''add'', ''.''] 0,
         Exec [''pre-commit'', ''run'', ''-a''] 0,
         Exec [''git'', ''add'', ''.''] 0,
         Exec [''git'', ''commit'', ''-m'', ''[IMP] update dotfiles''] 0,
         Exec [''git'', ''push''] 0,
         Cleanup]
   \<and> iteration (simulated [] [] True []) (oca\<lparr>repos := ''web'', branches := ''16.0'', skip_ci := True\<rparr>) ''web'' ''16.0'' start =
       (Inr (), start\<lparr>trace :=
        [Clone ''OCA'' ''web'' ''16.0'' ''git'',
         Print ''========== web 16.0 =========='',
         Exec [''git'', ''config'', ''user.name'', ''oca-git-bot''] 0,
         Exec [''git'', ''config'', ''user.email'', ''oca-git-bot@odoo-community.org''] 0,
         Exec [''copier'', ''update'', ''-f'', ''--trust''] 0,
         Exec [''rm'', ''-f'', ''oca_dependencies.txt.rej''] 0,
         Exec [''git'', ''add'', ''.''] 0,
         Exec [''pre-commit'', ''run'', ''-a''] 0,
         Exec [''git'', ''add'', ''.''] 0,
         Exec [''git'', ''commit'', ''-m'', ''[IMP] update dotfiles [ci skip]''] 0,
         Exec [''git'', ''push''] 0,
         Cleanup]\<rparr>)
   \<and> \<not> list_all unmarked
        [Clone ''OCA'' ''web'' ''16.0'' ''git'',
         Print ''========== web 16.0 =========='',
         Exec [''git'', ''config'', ''user.name'', ''oca-git-bot''] 0,
         Exec [''git'', ''config'', ''user.email'', ''oca-git-bot@odoo-community.org''] 0,
         Exec [''copier'', ''update'', ''-f'', ''--trust''] 0,
         Exec [''rm'', ''-f'', ''oca_dependencies.txt.rej''] 0,
         Exec [''git'', ''add'', ''.''] 0,
         Exec [''pre-commit'', ''run'', ''-a''] 0,
         Exec [''git'', ''add'', ''.''] 0,
         Exec [''git'', ''commit'', ''-m'', ''[IMP] update dotfiles [ci skip]''] 0,
         Exec [''git'', ''push''] 0,
         Cleanup]
   \<and> skip_ci (oca\<lparr>repos := ''web'', branches := ''16.0'', skip_ci := True\<rparr>)
   \<and> main (simulated [] [] True []) (oca\<lparr>repos := ''web'', branches := ''16.0'', skip_ci := True\<rparr>) start =
       (Inr (), start\<lparr>trace :=
        [Clone ''OCA'' ''web'' ''16.0'' ''git'',
         Print ''========== web 16.0 =========='',
         Exec [''git'', ''config'', ''user.name'', ''oca-git-bot''] 0,
         Exec [''git'', ''config'', ''user.email'', ''oca-git-bot@odoo-community.org''] 0,
         Exec [''copier'', ''update'', ''-f'', ''--trust''] 0,
         Exec [''rm'', ''-f'', ''oca_dependencies.txt.rej''] 0,
         Exec [''git'', ''add'', ''.''] 0,
         Exec [''pre-commit'', ''run'', ''-a''] 0,
         Exec [''git'', ''add'', ''.''] 0,
         Exec [''git'', ''commit'', ''-m'', ''[IMP] update dotfiles [ci skip]''] 0,
         Exec [''git'', ''push''] 0,
         Cleanup]\<rparr>)
   \<and> marked_after_pass Cleanup Cleanup
        [Clone ''OCA'' ''web'' ''16.0'' ''git'',
         Print ''========== web 16.0 =========='',
         Exec [''git'', ''config'', ''user.name'', ''oca-git-bot''] 0,
         Exec [''git'', ''config'', ''user.email'', ''oca-git-bot@odoo-community.org''] 0,
         Exec [''copier'', ''update'', ''-f'', ''--trust''] 0,
         Exec [''rm'', ''-f'', ''oca_dependencies.txt.rej''] 0,
         Exec [''git'', ''add'', ''.''] 0,
         Exec [''pre-commit'', ''run'', ''-a''] 0,
         Exec [''git'', ''add'', ''.''] 0,
         Exec [''git'', ''commit'', ''-m'', ''[IMP] update dotfiles [ci skip]''] 0,
         Exec [''git'', ''push''] 0,
         Cleanup]"
  using pr_commit_never_skips_ci
      [where env = "simulated [] [] True []" and p = "oca\<lparr>repos := ''web'', branches := ''16.0''\<rparr>" and b = True
         and og = "''OCA''" and repo = "''web''" and branch = "''16.0''" and w = start
         and res = "Inr ()"
         and w' = "start\<lparr>trace :=
        [Exec [''git'', ''checkout'', ''-B'', ''16.0-ocabot-update-dotfiles''] 0,
         Exec [''git'', ''add'', ''.''] 0,
         Exec [''git'', ''commit'', ''-m'', ''[IMP] update dotfiles''] 0,
         Exec [''git'', ''push'', ''-f'', ''origin'', ''16.0-ocabot-update-dotfiles''] 0,
         HttpGet (pulls_url ''OCA'' ''web'' ''16.0'') (Some \<lparr>status_code = 200, json = []\<rparr>),
         Exec (gh_pr_create ''OCA'' ''web'' ''16.0'') 0]\<rparr>"
         and es = "[Exec [''git'', ''checkout'', ''-B'', ''16.0-ocabot-update-dotfiles''] 0,
         Exec [''git'', ''add'', ''.''] 0,
         Exec [''git'', ''commit'', ''-m'', ''[IMP] update dotfiles''] 0,
         Exec [''git'', ''push'', ''-f'', ''origin'', ''16.0-ocabot-update-dotfiles''] 0,
         HttpGet (pulls_url ''OCA'' ''web'' ''16.0'') (Some \<lparr>status_code = 200, json = []\<rparr>),
         Exec (gh_pr_create ''OCA'' ''web'' ''16.0'') 0]"
         and msg = "''[IMP] update dotfiles''" and rc = 0
         and ?w1.0 = "start\<lparr>trace :=
        [Exec [''git'', ''checkout'', ''-B'', ''16.0-ocabot-update-dotfiles''] 0]\<rparr>"
         and ?w2.0 = "start\<lparr>trace :=
        [Exec [''git'', ''checkout'', ''-B'', ''16.0-ocabot-update-dotfiles''] 0,
         Exec [''git'', ''add'', ''.''] 0]\<rparr>"
         and res' = "Inr ()"
         and w'' = "start\<lparr>trace :=
        [Clone ''OCA'' ''web'' ''16.0'' ''git'',
         Print ''========== web 16.0 =========='',
         Exec [''git'', ''config'', ''user.name'', ''oca-git-bot''] 0,
         Exec [''git'', ''config'', ''user.email'', ''oca-git-bot@odoo-community.org''] 0,
         Exec [''copier'', ''update'', ''-f'', ''--trust''] 0,
         Exec [''rm'', ''-f'', ''oca_dependencies.txt.rej''] 0,
         Exec [''git'', ''add'', ''.''] 0,
         Exec [''pre-commit'', ''run'', ''-a''] 0,
         Exec [''git'', ''add'', ''.''] 0,
         Exec [''git'', ''commit'', ''-m'', ''[IMP] update dotfiles''] 0,
         Exec [''git'', ''push''] 0,
         Cleanup]\<rparr>"
         and es' = "[Clone ''OCA'' ''web'' ''16.0'' ''git'',
         Print ''========== web 16.0 =========='',
         Exec [''git'', ''config'', ''user.name'', ''oca-git-bot''] 0,
         Exec [''git'', ''config'', ''user.email'', ''oca-git-bot@odoo-community.org''] 0,
         Exec [''copier'', ''update'', ''-f'', ''--trust''] 0,
         Exec [''rm'', ''-f'', ''oca_dependencies.txt.rej''] 0,
         Exec [''git'', ''add'', ''.''] 0,
         Exec [''pre-commit'', ''run'', ''-a''] 0,
         Exec [''git'', ''add'', ''.''] 0,
         Exec [''git'', ''commit'', ''-m'', ''[IMP] update dotfiles''] 0,
         Exec [''git'', ''push''] 0,
         Cleanup]"]
    pr_commit_never_skips_ci
      [where env = "simulated [] [] True []" and p = "oca\<lparr>repos := ''web'', branches := ''16.0'', skip_ci := True\<rparr>"
         and repo = "''web''" and branch = "''16.0''" and w = start
         and wi = start and resi = "Inr ()"
         and wi' = "start\<lparr>trace :=
        [Clone ''OCA'' ''web'' ''16.0'' ''git'',
         Print ''========== web 16.0 =========='',
         Exec [''git'', ''config'', ''user.name'', ''oca-git-bot''] 0,
         Exec [''git'', ''config'', ''user.email'', ''oca-git-bot@odoo-community.org''] 0,
         Exec [''copier'', ''update'', ''-f'', ''--trust''] 0,
         Exec [''rm'', ''-f'', ''oca_dependencies.txt.rej''] 0,
         Exec [''git'', ''add'', ''.''] 0,
         Exec [''pre-commit'', ''run'', ''-a''] 0,
         Exec [''git'', ''add'', ''.''] 0,
         Exec [''git'', ''commit'', ''-m'', ''[IMP] update dotfiles [ci skip]''] 0,
         Exec [''git'', ''push''] 0,
         Cleanup]\<rparr>"
         and esi = "[Clone ''OCA'' ''web'' ''16.0'' ''git'',
         Print ''========== web 16.0 =========='',
         Exec [''git'', ''config'', ''user.name'', ''oca-git-bot''] 0,
         Exec [''git'', ''config'', ''user.email'', ''oca-git-bot@odoo-community.org''] 0,
         Exec [''copier'', ''update'', ''-f'', ''--trust''] 0,
         Exec [''rm'', ''-f'', ''oca_dependencies.txt.rej''] 0,
         Exec [''git'', ''add'', ''.''] 0,
         Exec [''pre-commit'', ''run'', ''-a''] 0,
         Exec [''git'', ''add'', ''.''] 0,
         Exec [''git'', ''commit'', ''-m'', ''[IMP] update dotfiles [ci skip]''] 0,
         Exec [''git'', ''push''] 0,
         Cleanup]"
         and res' = "Inr ()"
         and w'' = "start\<lparr>trace :=
        [Clone ''OCA'' ''web'' ''16.0'' ''git'',
         Print ''========== web 16.0 =========='',
         Exec [''git'', ''config'', ''user.name'', ''oca-git-bot''] 0,
         Exec [''git'', ''config'', ''user.email'', ''oca-git-bot@odoo-community.org''] 0,
         Exec [''copier'', ''update'', ''-f'', ''--trust''] 0,
         Exec [''rm'', ''-f'', ''oca_dependencies.txt.rej''] 0,
         Exec [''git'', ''add'', ''.''] 0,
         Exec [''pre-commit'', ''run'', ''-a''] 0,
         Exec [''git'', ''add'', ''.''] 0,
         Exec [''git'', ''commit'', ''-m'', ''[IMP] update dotfiles [ci skip]''] 0,
         Exec [''git'', ''push''] 0,
         Cleanup]\<rparr>"
         and es' = "[Clone ''OCA'' ''web'' ''16.0'' ''git'',
         Print ''========== web 16.0 =========='',
         Exec [''git'', ''config'', ''user.name'', ''oca-git-bot''] 0,
         Exec [''git'', ''config'', ''user.email'', ''oca-git-bot@odoo-community.org''] 0,
         Exec [''copier'', ''update'', ''-f'', ''--trust''] 0,
         Exec [''rm'', ''-f'', ''oca_dependencies.txt.rej''] 0,
         Exec [''git'', ''add'', ''.''] 0,
         Exec [''pre-commit'', ''run'', ''-a''] 0,
         Exec [''git'', ''add'', ''.''] 0,
         Exec [''git'', ''commit'', ''-m'', ''[IMP] update dotfiles [ci skip]''] 0,
         Exec [''git'', ''push''] 0,
         Cleanup]"
         and ?e1.0 = Cleanup and ?e2.0 = Cleanup,
       THEN conjunct2, THEN conjunct2, THEN conjunct2, THEN conjunct2]
  by (simp add: main_def iterate_repos_and_branches_def strip_def isspace_def
        iteration_defs prog_defs simulated_defs unmarked_def)

section \<open>A failed update\<close>

lemma setup_events_exit_codes:
  "list_all (setup_event p) pre \<Longrightarrow>
   argv \<notin> set [[''git'', ''config'', ''user.name'', git_user_name p],
                [''git'', ''config'', ''user.email'', git_user_email p],
                [''git'', ''add'', ''.copier-answers.yml''],
                [''git'', ''commit'', ''-m'', ''[FIX] .copier-answers.yml'']] \<Longrightarrow>
   exit_codes argv pre = []"
proof (induction pre)
  case Nil
  show ?case by simp
next
  case (Cons e pre)
  then show ?case by (cases e) (auto simp add: setup_event_def)
qed

lemma setup_events_no_request:
  "list_all (setup_event p) pre \<Longrightarrow> HttpGet url r \<notin> set pre"
  by (auto simp add: list_all_iff setup_event_def)

lemma failed_update_exit_codes:
  assumes "list_all (setup_event p) pre"
      and "argv \<notin> set [[''git'', ''config'', ''user.name'', git_user_name p],
                [''git'', ''config'', ''user.email'', git_user_email p],
                [''git'', ''add'', ''.copier-answers.yml''],
                [''git'', ''commit'', ''-m'', ''[FIX] .copier-answers.yml'']]"
      and "argv \<noteq> [''copier'', ''update'', ''-f'', ''--trust'']"
  shows "exit_codes argv (c # pre @ [Exec [''copier'', ''update'', ''-f'', ''--trust''] rc,
                                      Print s, Cleanup]) = exit_codes argv [c]"
  using setup_events_exit_codes [OF assms(1,2)] assms(3)
  by (cases c) (simp_all add: exit_codes_append)

text \<open>
  C7 (amended): In every iteration in which the update tool exits with a non-zero code,
  the iteration ends right after the notice: what follows the failed update is the notice
  and the removal of the clone, and what precedes it is the clone and the setup (banner, git
  identity, fix of the answers file). So the iteration stages nothing with
  \<^verbatim>\<open>git add .\<close>, runs no formatting pass, makes no dotfiles commit, pushes nothing and
  attempts no pull request for that pair (no checkout of the pull-request branch, no forced
  push, no request to the hosting API, no create-pull-request command); it ends without an
  error and the loop goes on with the next pair. The fix of the answers file, which runs
  before the update, may have staged and committed that one file.
\<close>

theorem update_failure_skips_iteration:
  "iteration env p repo branch w = (res, w') \<and> trace w' = trace w @ es
     \<and> Exec [''copier'', ''update'', ''-f'', ''--trust''] rc \<in> set es \<and> rc \<noteq> 0 \<longrightarrow>
   res = Inr ()
   \<and> (\<exists>pre. list_all (setup_event p) pre
         \<and> es = Clone (org p) repo branch (git_protocol p) # pre @
               [Exec [''copier'', ''update'', ''-f'', ''--trust''] rc,
                Print (replicate 10 (CHR ''$'') @ '' '' @ ''copier update failed on '' @ repo),
                Cleanup])
   \<and> main_loop env p ((repo, branch) # rest) w = main_loop env p rest w'
   \<and> exit_codes [''git'', ''add'', ''.''] es = []
   \<and> exit_codes [''pre-commit'', ''run'', ''-a''] es = []
   \<and> exit_codes [''git'', ''commit'', ''-m'', make_commit_msg ci_skip] es = []
   \<and> exit_codes [''git'', ''push''] es = []
   \<and> exit_codes [''git'', ''checkout'', ''-B'', make_update_dotfiles_branch branch] es = []
   \<and> exit_codes [''git'', ''push'', ''-f'', ''origin'', make_update_dotfiles_branch branch] es = []
   \<and> HttpGet url answer \<notin> set es
   \<and> exit_codes (gh_pr_create (org p) repo branch) es = []"
proof (intro impI, elim conjE)
  assume run: "iteration env p repo branch w = (res, w')" and es: "trace w' = trace w @ es"
    and failed: "Exec [''copier'', ''update'', ''-f'', ''--trust''] rc \<in> set es" "rc \<noteq> 0"
  note shape = iteration_update_failed [OF run es failed]
  from shape main_loop_step [OF run, of rest]
  have loop: "main_loop env p ((repo, branch) # rest) w = main_loop env p rest w'" by simp
  from shape obtain pre where pre: "list_all (setup_event p) pre"
    and e: "es = Clone (org p) repo branch (git_protocol p) # pre @
               [Exec [''copier'', ''update'', ''-f'', ''--trust''] rc,
                Print (replicate 10 (CHR ''$'') @ '' '' @ ''copier update failed on '' @ repo),
                Cleanup]"
    by (elim conjE exE)
  have none: "exit_codes argv es = []"
    if "argv \<notin> set [[''git'', ''config'', ''user.name'', git_user_name p],
                [''git'', ''config'', ''user.email'', git_user_email p],
                [''git'', ''add'', ''.copier-answers.yml''],
                [''git'', ''commit'', ''-m'', ''[FIX] .copier-answers.yml'']]"
      and "argv \<noteq> [''copier'', ''update'', ''-f'', ''--trust'']" for argv
  proof -
    have "exit_codes argv es = exit_codes argv [Clone (org p) repo branch (git_protocol p)]"
      unfolding e by (rule failed_update_exit_codes [OF pre that])
    then show ?thesis by simp
  qed
  have 1: "exit_codes [''git'', ''add'', ''.''] es = []"
    by (rule none) simp_all
  have 2: "exit_codes [''pre-commit'', ''run'', ''-a''] es = []"
    by (rule none) simp_all
  have 3: "exit_codes [''git'', ''commit'', ''-m'', make_commit_msg ci_skip] es = []"
    by (rule none) (simp_all add: make_commit_msg_def Let_def)
  have 4: "exit_codes [''git'', ''push''] es = []"
    by (rule none) simp_all
  have 5: "exit_codes [''git'', ''checkout'', ''-B'', make_update_dotfiles_branch branch] es = []"
    by (rule none) simp_all
  have 6: "exit_codes [''git'', ''push'', ''-f'', ''origin'', make_update_dotfiles_branch branch] es = []"
    by (rule none) simp_all
  have 7: "HttpGet url answer \<notin> set es"
    using setup_events_no_request [OF pre, of url answer] unfolding e by simp
  have 8: "exit_codes (gh_pr_create (org p) repo branch) es = []"
    by (rule none) (simp_all add: gh_pr_create_def)
  from shape loop 1 2 3 4 5 6 7 8
  show "res = Inr ()
   \<and> (\<exists>pre. list_all (setup_event p) pre
         \<and> es = Clone (org p) repo branch (git_protocol p) # pre @
               [Exec [''copier'', ''update'', ''-f'', ''--trust''] rc,
                Print (replicate 10 (CHR ''$'') @ '' '' @ ''copier update failed on '' @ repo),
                Cleanup])
   \<and> main_loop env p ((repo, branch) # rest) w = main_loop env p rest w'
   \<and> exit_codes [''git'', ''add'', ''.''] es = []
   \<and> exit_codes [''pre-commit'', ''run'', ''-a''] es = []
   \<and> exit_codes [''git'', ''commit'', ''-m'', make_commit_msg ci_skip] es = []
   \<and> exit_codes [''git'', ''push''] es = []
   \<and> exit_codes [''git'', ''checkout'', ''-B'', make_update_dotfiles_branch branch] es = []
   \<and> exit_codes [''git'', ''push'', ''-f'', ''origin'', make_update_dotfiles_branch branch] es = []
   \<and> HttpGet url answer \<notin> set es
   \<and> exit_codes (gh_pr_create (org p) repo branch) es = []"
    by (intro conjI) (rule conjunct1, assumption, rule conjunct2, assumption+)
qed

theorem update_failure_skips_iteration_witness:
  "iteration (simulated [([''copier'', ''update'', ''-f'', ''--trust''], [1])] [] True []) oca ''web'' ''16.0'' start =
     (Inr (), start\<lparr>trace :=
        [Clone ''OCA'' ''web'' ''16.0'' ''git'',
         Print ''========== web 16.0 =========='',
         Exec [''git'', ''config'', ''user.name'', ''oca-git-bot''] 0,
         Exec [''git'', ''config'', ''user.email'', ''oca-git-bot@odoo-community.org''] 0,
         Exec [''copier'', ''update'', ''-f'', ''--trust''] 1,
         Print ''$$$$$$$$$$ copier update failed on web'',
         Cleanup]\<rparr>)
   \<and> Exec [''copier'', ''update'', ''-f'', ''--trust''] 1
       \<in> set [Clone ''OCA'' ''web'' ''16.0'' ''git'',
         Print ''========== web 16.0 =========='',
         Exec [''git'', ''config'', ''user.name'', ''oca-git-bot''] 0,
         Exec [''git'', ''config'', ''user.email'', ''oca-git-bot@odoo-community.org''] 0,
         Exec [''copier'', ''update'', ''-f'', ''--trust''] 1,
         Print ''$$$$$$$$$$ copier update failed on web'',
         Cleanup]
   \<and> list_all (setup_event oca)
        [Print ''========== web 16.0 =========='',
         Exec [''git'', ''config'', ''user.name'', ''oca-git-bot''] 0,
         Exec [''git'', ''config'', ''user.email'', ''oca-git-bot@odoo-community.org''] 0]
   \<and> main_loop (simulated [([''copier'', ''update'', ''-f'', ''--trust''], [1])] [] True []) oca [(''web'', ''16.0''), (''web'', ''17.0'')] start =
       main_loop (simulated [([''copier'', ''update'', ''-f'', ''--trust''], [1])] [] True []) oca [(''web'', ''17.0'')]
         (start\<lparr>trace :=
        [Clone ''OCA'' ''web'' ''16.0'' ''git'',
         Print ''========== web 16.0 =========='',
         Exec [''git'', ''config'', ''user.name'', ''oca-git-bot''] 0,
         Exec [''git'', ''config'', ''user.email'', ''oca-git-bot@odoo-community.org''] 0,
         Exec [''copier'', ''update'', ''-f'', ''--trust''] 1,
         Print ''$$$$$$$$$$ copier update failed on web'',
         Cleanup]\<rparr>)
   \<and> exit_codes [''git'', ''add'', ''.'']
        [Clone ''OCA'' ''web'' ''16.0'' ''git'',
         Print ''========== web 16.0 =========='',
         Exec [''git'', ''config'', ''user.name'', ''oca-git-bot''] 0,
         Exec [''git'', ''config'', ''user.email'', ''oca-git-bot@odoo-community.org''] 0,
         Exec [''copier'', ''update'', ''-f'', ''--trust''] 1,
         Print ''$$$$$$$$$$ copier update failed on web'',
         Cleanup] = []
   \<and> exit_codes [''pre-commit'', ''run'', ''-a'']
        [Clone ''OCA'' ''web'' ''16.0'' ''git'',
         Print ''========== web 16.0 =========='',
         Exec [''git'', ''config'', ''user.name'', ''oca-git-bot''] 0,
         Exec [''git'', ''config'', ''user.email'', ''oca-git-bot@odoo-community.org''] 0,
         Exec [''copier'', ''update'', ''-f'', ''--trust''] 1,
         Print ''$$$$$$$$$$ copier update failed on web'',
         Cleanup] = []
   \<and> exit_codes [''git'', ''commit'', ''-m'', ''[IMP] update dotfiles'']
        [Clone ''OCA'' ''web'' ''16.0'' ''git'',
         Print ''========== web 16.0 =========='',
         Exec [''git'', ''config'', ''user.name'', ''oca-git-bot''] 0,
         Exec [''git'', ''config'', ''user.email'', ''oca-git-bot@odoo-community.org''] 0,
         Exec [''copier'', ''update'', ''-f'', ''--trust''] 1,
         Print ''$$$$$$$$$$ copier update failed on web'',
         Cleanup] = []
   \<and> exit_codes [''git'', ''push'']
        [Clone ''OCA'' ''web'' ''16.0'' ''git'',
         Print ''========== web 16.0 =========='',
         Exec [''git'', ''config'', ''user.name'', ''oca-git-bot''] 0,
         Exec [''git'', ''config'', ''user.email'', ''oca-git-bot@odoo-community.org''] 0,
         Exec [''copier'', ''update'', ''-f'', ''--trust''] 1,
         Print ''$$$$$$$$$$ copier update failed on web'',
         Cleanup] = []
   \<and> exit_codes (gh_pr_create ''OCA'' ''web'' ''16.0'')
        [Clone ''OCA'' ''web'' ''16.0'' ''git'',
         Print ''========== web 16.0 =========='',
         Exec [''git'', ''config'', ''user.name'', ''oca-git-bot''] 0,
         Exec [''git'', ''config'', ''user.email'', ''oca-git-bot@odoo-community.org''] 0,
         Exec [''copier'', ''update'', ''-f'', ''--trust''] 1,
         Print ''$$$$$$$$$$ copier update failed on web'',
         Cleanup] = []
   \<and> iteration
        (with_answers ''repo_description: null''
          (simulated [([''copier'', ''update'', ''-f'', ''--trust''], [1])] [] True []))
        oca ''web'' ''16.0'' start =
     (Inr (), start\<lparr>trace :=
        [Clone ''OCA'' ''web'' ''16.0'' ''git'',
         Print ''========== web 16.0 =========='',
         Exec [''git'', ''config'', ''user.name'', ''oca-git-bot''] 0,
         Exec [''git'', ''config'', ''user.email'', ''oca-git-bot@odoo-community.org''] 0,
         WriteText ''.copier-answers.yml'' (''repo_description: '' @ [CHR 0x22, CHR 0x22]),
         Exec [''git'', ''add'', ''.copier-answers.yml''] 0,
         Exec [''git'', ''commit'', ''-m'', ''[FIX] .copier-answers.yml''] 0,
         Exec [''copier'', ''update'', ''-f'', ''--trust''] 1,
         Print ''$$$$$$$$$$ copier update failed on web'',
         Cleanup]\<rparr>)
   \<and> Exec [''copier'', ''update'', ''-f'', ''--trust''] 1
       \<in> set [Clone ''OCA'' ''web'' ''16.0'' ''git'',
         Print ''========== web 16.0 =========='',
         Exec [''git'', ''config'', ''user.name'', ''oca-git-bot''] 0,
         Exec [''git'', ''config'', ''user.email'', ''oca-git-bot@odoo-community.org''] 0,
         WriteText ''.copier-answers.yml'' (''repo_description: '' @ [CHR 0x22, CHR 0x22]),
         Exec [''git'', ''add'', ''.copier-answers.yml''] 0,
         Exec [''git'', ''commit'', ''-m'', ''[FIX] .copier-answers.yml''] 0,
         Exec [''copier'', ''update'', ''-f'', ''--trust''] 1,
         Print ''$$$$$$$$$$ copier update failed on web'',
         Cleanup]
   \<and> exit_codes [''git'', ''add'', ''.'']
        [Clone ''OCA'' ''web'' ''16.0'' ''git'',
         Print ''========== web 16.0 =========='',
         Exec [''git'', ''config'', ''user.name'', ''oca-git-bot''] 0,
         Exec [''git'', ''config'', ''user.email'', ''oca-git-bot@odoo-community.org''] 0,
         WriteText ''.copier-answers.yml'' (''repo_description: '' @ [CHR 0x22, CHR 0x22]),
         Exec [''git'', ''add'', ''.copier-answers.yml''] 0,
         Exec [''git'', ''commit'', ''-m'', ''[FIX] .copier-answers.yml''] 0,
         Exec [''copier'', ''update'', ''-f'', ''--trust''] 1,
         Print ''$$$$$$$$$$ copier update failed on web'',
         Cleanup] = []
   \<and> exit_codes [''git'', ''commit'', ''-m'', ''[IMP] update dotfiles'']
        [Clone ''OCA'' ''web'' ''16.0'' ''git'',
         Print ''========== web 16.0 =========='',
         Exec [''git'', ''config'', ''user.name'', ''oca-git-bot''] 0,
         Exec [''git'', ''config'', ''user.email'', ''oca-git-bot@odoo-community.org''] 0,
         WriteText ''.copier-answers.yml'' (''repo_description: '' @ [CHR 0x22, CHR 0x22]),
         Exec [''git'', ''add'', ''.copier-answers.yml''] 0,
         Exec [''git'', ''commit'', ''-m'', ''[FIX] .copier-answers.yml''] 0,
         Exec [''copier'', ''update'', ''-f'', ''--trust''] 1,
         Print ''$$$$$$$$$$ copier update failed on web'',
         Cleanup] = []"
  using update_failure_skips_iteration
      [where env = "simulated [([''copier'', ''update'', ''-f'', ''--trust''], [1])] [] True []"
         and p = oca and repo = "''web''" and branch = "''16.0''" and w = start and res = "Inr ()"
         and rc = 1 and rest = "[(''web'', ''17.0'')]" and ci_skip = False
         and w' = "start\<lparr>trace :=
        [Clone ''OCA'' ''web'' ''16.0'' ''git'',
         Print ''========== web 16.0 =========='',
         Exec [''git'', ''config'', ''user.name'', ''oca-git-bot''] 0,
         Exec [''git'', ''config'', ''user.email'', ''oca-git-bot@odoo-community.org''] 0,
         Exec [''copier'', ''update'', ''-f'', ''--trust''] 1,
         Print ''$$$$$$$$$$ copier update failed on web'',
         Cleanup]\<rparr>"
         and es = "[Clone ''OCA'' ''web'' ''16.0'' ''git'',
         Print ''========== web 16.0 =========='',
         Exec [''git'', ''config'', ''user.name'', ''oca-git-bot''] 0,
         Exec [''git'', ''config'', ''user.email'', ''oca-git-bot@odoo-community.org''] 0,
         Exec [''copier'', ''update'', ''-f'', ''--trust''] 1,
         Print ''$$$$$$$$$$ copier update failed on web'',
         Cleanup]"]
    update_failure_skips_iteration
      [where env = "with_answers ''repo_description: null''
          (simulated [([''copier'', ''update'', ''-f'', ''--trust''], [1])] [] True [])"
         and p = oca and repo = "''web''" and branch = "''16.0''" and w = start and res = "Inr ()"
         and rc = 1 and rest = "[]" and ci_skip = False
         and w' = "start\<lparr>trace :=
        [Clone ''OCA'' ''web'' ''16.0'' ''git'',
         Print ''========== web 16.0 =========='',
         Exec [''git'', ''config'', ''user.name'', ''oca-git-bot''] 0,
         Exec [''git'', ''config'', ''user.email'', ''oca-git-bot@odoo-community.org''] 0,
         WriteText ''.copier-answers.yml'' (''repo_description: '' @ [CHR 0x22, CHR 0x22]),
         Exec [''git'', ''add'', ''.copier-answers.yml''] 0,
         Exec [''git'', ''commit'', ''-m'', ''[FIX] .copier-answers.yml''] 0,
         Exec [''copier'', ''update'', ''-f'', ''--trust''] 1,
         Print ''$$$$$$$$$$ copier update failed on web'',
         Cleanup]\<rparr>"
         and es = "[Clone ''OCA'' ''web'' ''16.0'' ''git'',
         Print ''========== web 16.0 =========='',
         Exec [''git'', ''config'', ''user.name'', ''oca-git-bot''] 0,
         Exec [''git'', ''config'', ''user.email'', ''oca-git-bot@odoo-community.org''] 0,
         WriteText ''.copier-answers.yml'' (''repo_description: '' @ [CHR 0x22, CHR 0x22]),
         Exec [''git'', ''add'', ''.copier-answers.yml''] 0,
         Exec [''git'', ''commit'', ''-m'', ''[FIX] .copier-answers.yml''] 0,
         Exec [''copier'', ''update'', ''-f'', ''--trust''] 1,
         Print ''$$$$$$$$$$ copier update failed on web'',
         Cleanup]"]
  by (simp add: iteration_defs prog_defs simulated_defs with_answers_def setup_event_def
        gh_pr_create_def)

text \<open>
  The claim as first stated fails: it excludes every staging and every commit. In the run
  below the clone's answers file holds \<^verbatim>\<open>repo_description: null\<close>, so the fix of the answers
  file, which comes before the update, stages that file and commits it; then the update
  exits with 1 and the iteration ends after the notice.
\<close>

theorem update_failure_skips_iteration_counterexample:
  "iteration
        (with_answers ''repo_description: null''
          (simulated [([''copier'', ''update'', ''-f'', ''--trust''], [1])] [] True []))
        oca ''web'' ''16.0'' start =
     (Inr (), start\<lparr>trace :=
        [Clone ''OCA'' ''web'' ''16.0'' ''git'',
         Print ''========== web 16.0 =========='',
         Exec [''git'', ''config'', ''user.name'', ''oca-git-bot''] 0,
         Exec [''git'', ''config'', ''user.email'', ''oca-git-bot@odoo-community.org''] 0,
         WriteText ''.copier-answers.yml'' (''repo_description: '' @ [CHR 0x22, CHR 0x22]),
         Exec [''git'', ''add'', ''.copier-answers.yml''] 0,
         Exec [''git'', ''commit'', ''-m'', ''[FIX] .copier-answers.yml''] 0,
         Exec [''copier'', ''update'', ''-f'', ''--trust''] 1,
         Print ''$$$$$$$$$$ copier update failed on web'',
         Cleanup]\<rparr>)
   \<and> exit_codes [''copier'', ''update'', ''-f'', ''--trust'']
        [Clone ''OCA'' ''web'' ''16.0'' ''git'',
         Print ''========== web 16.0 =========='',
         Exec [''git'', ''config'', ''user.name'', ''oca-git-bot''] 0,
         Exec [''git'', ''config'', ''user.email'', ''oca-git-bot@odoo-community.org''] 0,
         WriteText ''.copier-answers.yml'' (''repo_description: '' @ [CHR 0x22, CHR 0x22]),
         Exec [''git'', ''add'', ''.copier-answers.yml''] 0,
         Exec [''git'', ''commit'', ''-m'', ''[FIX] .copier-answers.yml''] 0,
         Exec [''copier'', ''update'', ''-f'', ''--trust''] 1,
         Print ''$$$$$$$$$$ copier update failed on web'',
         Cleanup] = [1]
   \<and> exit_codes [''git'', ''add'', ''.copier-answers.yml'']
        [Clone ''OCA'' ''web'' ''16.0'' ''git'',
         Print ''========== web 16.0 =========='',
         Exec [''git'', ''config'', ''user.name'', ''oca-git-bot''] 0,
         Exec [''git'', ''config'', ''user.email'', ''oca-git-bot@odoo-community.org''] 0,
         WriteText ''.copier-answers.yml'' (''repo_description: '' @ [CHR 0x22, CHR 0x22]),
         Exec [''git'', ''add'', ''.copier-answers.yml''] 0,
         Exec [''git'', ''commit'', ''-m'', ''[FIX] .copier-answers.yml''] 0,
         Exec [''copier'', ''update'', ''-f'', ''--trust''] 1,
         Print ''$$$$$$$$$$ copier update failed on web'',
         Cleanup] = [0]
   \<and> exit_codes [''git'', ''commit'', ''-m'', ''[FIX] .copier-answers.yml'']
        [Clone ''OCA'' ''web'' ''16.0'' ''git'',
         Print ''========== web 16.0 =========='',
         Exec [''git'', ''config'', ''user.name'', ''oca-git-bot''] 0,
         Exec [''git'', ''config'', ''user.email'', ''oca-git-bot@odoo-community.org''] 0,
         WriteText ''.copier-answers.yml'' (''repo_description: '' @ [CHR 0x22, CHR 0x22]),
         Exec [''git'', ''add'', ''.copier-answers.yml''] 0,
         Exec [''git'', ''commit'', ''-m'', ''[FIX] .copier-answers.yml''] 0,
         Exec [''copier'', ''update'', ''-f'', ''--trust''] 1,
         Print ''$$$$$$$$$$ copier update failed on web'',
         Cleanup] = [0]"
  by (simp add: iteration_defs prog_defs simulated_defs with_answers_def)

section \<open>Exceptions in the loop\<close>

lemma iteration_branch_missing:
  "clone env (org p) repo branch (git_protocol p) w = BranchMissing \<Longrightarrow>
   iteration env p repo branch w =
     (Inl BranchNotFoundError, emit (Clone (org p) repo branch (git_protocol p)) w)"
  by (simp add: iteration_def temporary_clone_def)

lemma main_loop_attempts_of:
  assumes "main_loop env p pairs w = (res, w')" and "trace w' = trace w @ es"
  shows "prefix (clone_attempts es) pairs \<and> (res = Inr () \<longrightarrow> clone_attempts es = pairs)
     \<and> res \<noteq> Inl BranchNotFoundError"
  using main_loop_attempts [OF assms(1)] assms(2) by auto

text \<open>
  C3 (amended): A branch-not-found condition raised by the clone of an iteration is caught
  at the outer loop: the iteration is skipped silently (it leaves no event but the clone
  attempt) and the loop goes on with the following pairs. An iteration that ends without
  an exception, the explicit skips included, is followed by the next pair as well. Any
  other exception raised inside an iteration leaves the loop with it, and the following
  pairs are not processed. So a run never ends with the branch-not-found condition, the
  clone attempts of a run are a prefix of the pairs, and a run that ends without an
  exception has attempted every pair, in order.
\<close>

theorem only_branch_not_found_is_caught:
  "(clone env (org p) repo branch (git_protocol p) w = BranchMissing \<longrightarrow>
      iteration env p repo branch w =
        (Inl BranchNotFoundError, emit (Clone (org p) repo branch (git_protocol p)) w)
      \<and> main_loop env p ((repo, branch) # rest) w =
          main_loop env p rest (emit (Clone (org p) repo branch (git_protocol p)) w))
   \<and> (iteration env p repo branch w = (Inr (), w1) \<longrightarrow>
        main_loop env p ((repo, branch) # rest) w = main_loop env p rest w1)
   \<and> (iteration env p repo branch w = (Inl e, w1) \<and> e \<noteq> BranchNotFoundError \<longrightarrow>
        main_loop env p ((repo, branch) # rest) w = (Inl e, w1))
   \<and> (main_loop env p pairs w = (res, w') \<and> trace w' = trace w @ es \<longrightarrow>
        prefix (clone_attempts es) pairs
        \<and> (res = Inr () \<longrightarrow> clone_attempts es = pairs)
        \<and> res \<noteq> Inl BranchNotFoundError)"
proof -
  have missing: "clone env (org p) repo branch (git_protocol p) w = BranchMissing \<longrightarrow>
      iteration env p repo branch w =
        (Inl BranchNotFoundError, emit (Clone (org p) repo branch (git_protocol p)) w)
      \<and> main_loop env p ((repo, branch) # rest) w =
          main_loop env p rest (emit (Clone (org p) repo branch (git_protocol p)) w)"
  proof
    assume "clone env (org p) repo branch (git_protocol p) w = BranchMissing"
    then have i: "iteration env p repo branch w =
        (Inl BranchNotFoundError, emit (Clone (org p) repo branch (git_protocol p)) w)"
      by (rule iteration_branch_missing)
    with main_loop_step [OF i, of rest]
    show "iteration env p repo branch w =
        (Inl BranchNotFoundError, emit (Clone (org p) repo branch (git_protocol p)) w)
      \<and> main_loop env p ((repo, branch) # rest) w =
          main_loop env p rest (emit (Clone (org p) repo branch (git_protocol p)) w)"
      by simp
  qed
  have normal: "iteration env p repo branch w = (Inr (), w1) \<longrightarrow>
        main_loop env p ((repo, branch) # rest) w = main_loop env p rest w1"
    using main_loop_step [of env p repo branch w "Inr ()" w1 rest] by simp
  have other: "iteration env p repo branch w = (Inl e, w1) \<and> e \<noteq> BranchNotFoundError \<longrightarrow>
        main_loop env p ((repo, branch) # rest) w = (Inl e, w1)"
    using main_loop_step [of env p repo branch w "Inl e" w1 rest] by simp
  have whole: "main_loop env p pairs w = (res, w') \<and> trace w' = trace w @ es \<longrightarrow>
        prefix (clone_attempts es) pairs
        \<and> (res = Inr () \<longrightarrow> clone_attempts es = pairs)
        \<and> res \<noteq> Inl BranchNotFoundError"
    using main_loop_attempts_of [of env p pairs w res w' es] by simp
  from missing normal other whole show ?thesis by (intro conjI)
qed


text \<open>
  The claim as first stated fails: a rejected push in the first iteration raises
  \<open>CalledProcessError\<close>, which ends the run; the three pairs after it are never cloned.
\<close>

lemma simulated_pairs:
  "iterate_repos_and_branches env ''web,server-tools'' ''16.0,17.0'' w =
     (Inr [(''web'', ''16.0''), (''web'', ''17.0''),
           (''server-tools'', ''16.0''), (''server-tools'', ''17.0'')], w)"
  by (simp add: iterate_repos_and_branches_def strip_def isspace_def Let_def)

lemma simulated_push_rejected:
  "iteration (simulated [([''git'', ''push''], [1])] [] True []) oca ''web'' ''16.0'' start =
    (Inl (CalledProcessError [''git'', ''push''] 1), start\<lparr>trace :=
       [Clone ''OCA'' ''web'' ''16.0'' ''git'',
        Print ''========== web 16.0 =========='',
        Exec [''git'', ''config'', ''user.name'', ''oca-git-bot''] 0,
        Exec [''git'', ''config'', ''user.email'', ''oca-git-bot@odoo-community.org''] 0,
        Exec [''copier'', ''update'', ''-f'', ''--trust''] 0,
        Exec [''rm'', ''-f'', ''oca_dependencies.txt.rej''] 0,
        Exec [''git'', ''add'', ''.''] 0,
        Exec [''pre-commit'', ''run'', ''-a''] 0,
        Exec [''git'', ''add'', ''.''] 0,
        Exec [''git'', ''commit'', ''-m'', ''[IMP] update dotfiles''] 0,
        Exec [''git'', ''push''] 1,
        Cleanup]\<rparr>)"
  by (simp add: iteration_defs prog_defs simulated_defs)

theorem only_branch_not_found_is_caught_counterexample:
  "main (simulated [([''git'', ''push''], [1])] [] True []) oca start =
    (Inl (CalledProcessError [''git'', ''push''] 1), start\<lparr>trace :=
       [Clone ''OCA'' ''web'' ''16.0'' ''git'',
        Print ''========== web 16.0 =========='',
        Exec [''git'', ''config'', ''user.name'', ''oca-git-bot''] 0,
        Exec [''git'', ''config'', ''user.email'', ''oca-git-bot@odoo-community.org''] 0,
        Exec [''copier'', ''update'', ''-f'', ''--trust''] 0,
        Exec [''rm'', ''-f'', ''oca_dependencies.txt.rej''] 0,
        Exec [''git'', ''add'', ''.''] 0,
        Exec [''pre-commit'', ''run'', ''-a''] 0,
        Exec [''git'', ''add'', ''.''] 0,
        Exec [''git'', ''commit'', ''-m'', ''[IMP] update dotfiles''] 0,
        Exec [''git'', ''push''] 1,
        Cleanup]\<rparr>)
   \<and> iterate_repos_and_branches (simulated [([''git'', ''push''], [1])] [] True [])
        (repos oca) (branches oca) start =
       (Inr [(''web'', ''16.0''), (''web'', ''17.0''),
             (''server-tools'', ''16.0''), (''server-tools'', ''17.0'')], start)"
proof -
  have "main (simulated [([''git'', ''push''], [1])] [] True []) oca start =
      main_loop (simulated [([''git'', ''push''], [1])] [] True []) oca
        [(''web'', ''16.0''), (''web'', ''17.0''),
         (''server-tools'', ''16.0''), (''server-tools'', ''17.0'')] start"
    by (simp add: main_def bind_def simulated_pairs oca_def)
  then show ?thesis
    by (simp add: simulated_push_rejected) (simp add: simulated_pairs oca_def)
qed

theorem only_branch_not_found_is_caught_witness:
  "clone (simulated [] [] False [''16.0'']) ''OCA'' ''web'' ''16.0'' ''git'' start = BranchMissing
   \<and> iteration (simulated [] [] False [''16.0'']) oca ''web'' ''16.0'' start =
       (Inl BranchNotFoundError, start\<lparr>trace :=
        [Clone ''OCA'' ''web'' ''16.0'' ''git'']\<rparr>)
   \<and> main_loop (simulated [] [] False [''16.0'']) oca [(''web'', ''16.0''), (''web'', ''17.0'')] start =
       main_loop (simulated [] [] False [''16.0'']) oca [(''web'', ''17.0'')]
         (start\<lparr>trace :=
        [Clone ''OCA'' ''web'' ''16.0'' ''git'']\<rparr>)
   \<and> iteration (simulated [] [] False [''16.0'']) oca ''web'' ''17.0''
         (start\<lparr>trace :=
        [Clone ''OCA'' ''web'' ''16.0'' ''git'']\<rparr>) =
       (Inr (), start\<lparr>trace :=
        [Clone ''OCA'' ''web'' ''16.0'' ''git'',
         Clone ''OCA'' ''web'' ''17.0'' ''git'',
         Print ''========== web 17.0 =========='',
         Exec [''git'', ''config'', ''user.name'', ''oca-git-bot''] 0,
         Exec [''git'', ''config'', ''user.email'', ''oca-git-bot@odoo-community.org''] 0,
         Exec [''copier'', ''update'', ''-f'', ''--trust''] 0,
         Exec [''rm'', ''-f'', ''oca_dependencies.txt.rej''] 0,
         Exec [''git'', ''add'', ''.''] 0,
         Exec [''pre-commit'', ''run'', ''-a''] 0,
         Exec [''git'', ''add'', ''.''] 0,
         Cleanup]\<rparr>)
   \<and> main_loop (simulated [] [] False [''16.0'']) oca [(''web'', ''17.0'')]
         (start\<lparr>trace :=
        [Clone ''OCA'' ''web'' ''16.0'' ''git'']\<rparr>) =
       (Inr (), start\<lparr>trace :=
        [Clone ''OCA'' ''web'' ''16.0'' ''git'',
         Clone ''OCA'' ''web'' ''17.0'' ''git'',
         Print ''========== web 17.0 =========='',
         Exec [''git'', ''config'', ''user.name'', ''oca-git-bot''] 0,
         Exec [''git'', ''config'', ''user.email'', ''oca-git-bot@odoo-community.org''] 0,
         Exec [''copier'', ''update'', ''-f'', ''--trust''] 0,
         Exec [''rm'', ''-f'', ''oca_dependencies.txt.rej''] 0,
         Exec [''git'', ''add'', ''.''] 0,
         Exec [''pre-commit'', ''run'', ''-a''] 0,
         Exec [''git'', ''add'', ''.''] 0,
         Cleanup]\<rparr>)
   \<and> iteration (simulated [([''git'', ''push''], [1])] [] True []) oca ''web'' ''16.0'' start =
       (Inl (CalledProcessError [''git'', ''push''] 1), start\<lparr>trace :=
        [Clone ''OCA'' ''web'' ''16.0'' ''git'',
         Print ''========== web 16.0 =========='',
         Exec [''git'', ''config'', ''user.name'', ''oca-git-bot''] 0,
         Exec [''git'', ''config'', ''user.email'', ''oca-git-bot@odoo-community.org''] 0,
         Exec [''copier'', ''update'', ''-f'', ''--trust''] 0,
         Exec [''rm'', ''-f'', ''oca_dependencies.txt.rej''] 0,
         Exec [''git'', ''add'', ''.''] 0,
         Exec [''pre-commit'', ''run'', ''-a''] 0,
         Exec [''git'', ''add'', ''.''] 0,
         Exec [''git'', ''commit'', ''-m'', ''[IMP] update dotfiles''] 0,
         Exec [''git'', ''push''] 1,
         Cleanup]\<rparr>)
   \<and> main_loop (simulated [([''git'', ''push''], [1])] [] True []) oca [(''web'', ''16.0''), (''web'', ''17.0'')] start =
       (Inl (CalledProcessError [''git'', ''push''] 1), start\<lparr>trace :=
        [Clone ''OCA'' ''web'' ''16.0'' ''git'',
         Print ''========== web 16.0 =========='',
         Exec [''git'', ''config'', ''user.name'', ''oca-git-bot''] 0,
         Exec [''git'', ''config'', ''user.email'', ''oca-git-bot@odoo-community.org''] 0,
         Exec [''copier'', ''update'', ''-f'', ''--trust''] 0,
         Exec [''rm'', ''-f'', ''oca_dependencies.txt.rej''] 0,
         Exec [''git'', ''add'', ''.''] 0,
         Exec [''pre-commit'', ''run'', ''-a''] 0,
         Exec [''git'', ''add'', ''.''] 0,
         Exec [''git'', ''commit'', ''-m'', ''[IMP] update dotfiles''] 0,
         Exec [''git'', ''push''] 1,
         Cleanup]\<rparr>)
   \<and> main_loop (simulated [] [] False [''16.0'']) oca [(''web'', ''16.0''), (''web'', ''17.0'')] start =
       (Inr (), start\<lparr>trace :=
        [Clone ''OCA'' ''web'' ''16.0'' ''git'',
         Clone ''OCA'' ''web'' ''17.0'' ''git'',
         Print ''========== web 17.0 =========='',
         Exec [''git'', ''config'', ''user.name'', ''oca-git-bot''] 0,
         Exec [''git'', ''config'', ''user.email'', ''oca-git-bot@odoo-community.org''] 0,
         Exec [''copier'', ''update'', ''-f'', ''--trust''] 0,
         Exec [''rm'', ''-f'', ''oca_dependencies.txt.rej''] 0,
         Exec [''git'', ''add'', ''.''] 0,
         Exec [''pre-commit'', ''run'', ''-a''] 0,
         Exec [''git'', ''add'', ''.''] 0,
         Cleanup]\<rparr>)
   \<and> clone_attempts
        [Clone ''OCA'' ''web'' ''16.0'' ''git'',
         Clone ''OCA'' ''web'' ''17.0'' ''git'',
         Print ''========== web 17.0 =========='',
         Exec [''git'', ''config'', ''user.name'', ''oca-git-bot''] 0,
         Exec [''git'', ''config'', ''user.email'', ''oca-git-bot@odoo-community.org''] 0,
         Exec [''copier'', ''update'', ''-f'', ''--trust''] 0,
         Exec [''rm'', ''-f'', ''oca_dependencies.txt.rej''] 0,
         Exec [''git'', ''add'', ''.''] 0,
         Exec [''pre-commit'', ''run'', ''-a''] 0,
         Exec [''git'', ''add'', ''.''] 0,
         Cleanup] = [(''web'', ''16.0''), (''web'', ''17.0'')]"
  using only_branch_not_found_is_caught
      [where env = "simulated [] [] False [''16.0'']" and p = oca and repo = "''web''"
         and branch = "''16.0''" and w = start and rest = "[(''web'', ''17.0'')]"
         and pairs = "[(''web'', ''16.0''), (''web'', ''17.0'')]" and res = "Inr ()"
         and w' = "start\<lparr>trace :=
        [Clone ''OCA'' ''web'' ''16.0'' ''git'',
         Clone ''OCA'' ''web'' ''17.0'' ''git'',
         Print ''========== web 17.0 =========='',
         Exec [''git'', ''config'', ''user.name'', ''oca-git-bot''] 0,
         Exec [''git'', ''config'', ''user.email'', ''oca-git-bot@odoo-community.org''] 0,
         Exec [''copier'', ''update'', ''-f'', ''--trust''] 0,
         Exec [''rm'', ''-f'', ''oca_dependencies.txt.rej''] 0,
         Exec [''git'', ''add'', ''.''] 0,
         Exec [''pre-commit'', ''run'', ''-a''] 0,
         Exec [''git'', ''add'', ''.''] 0,
         Cleanup]\<rparr>"
         and es = "[Clone ''OCA'' ''web'' ''16.0'' ''git'',
         Clone ''OCA'' ''web'' ''17.0'' ''git'',
         Print ''========== web 17.0 =========='',
         Exec [''git'', ''config'', ''user.name'', ''oca-git-bot''] 0,
         Exec [''git'', ''config'', ''user.email'', ''oca-git-bot@odoo-community.org''] 0,
         Exec [''copier'', ''update'', ''-f'', ''--trust''] 0,
         Exec [''rm'', ''-f'', ''oca_dependencies.txt.rej''] 0,
         Exec [''git'', ''add'', ''.''] 0,
         Exec [''pre-commit'', ''run'', ''-a''] 0,
         Exec [''git'', ''add'', ''.''] 0,
         Cleanup]"]
    only_branch_not_found_is_caught
      [where env = "simulated [] [] False [''16.0'']" and p = oca and repo = "''web''"
         and branch = "''17.0''" and rest = "[]"
         and w = "start\<lparr>trace :=
        [Clone ''OCA'' ''web'' ''16.0'' ''git'']\<rparr>"
         and ?w1.0 = "start\<lparr>trace :=
        [Clone ''OCA'' ''web'' ''16.0'' ''git'',
         Clone ''OCA'' ''web'' ''17.0'' ''git'',
         Print ''========== web 17.0 =========='',
         Exec [''git'', ''config'', ''user.name'', ''oca-git-bot''] 0,
         Exec [''git'', ''config'', ''user.email'', ''oca-git-bot@odoo-community.org''] 0,
         Exec [''copier'', ''update'', ''-f'', ''--trust''] 0,
         Exec [''rm'', ''-f'', ''oca_dependencies.txt.rej''] 0,
         Exec [''git'', ''add'', ''.''] 0,
         Exec [''pre-commit'', ''run'', ''-a''] 0,
         Exec [''git'', ''add'', ''.''] 0,
         Cleanup]\<rparr>"]
    only_branch_not_found_is_caught
      [where env = "simulated [([''git'', ''push''], [1])] [] True []" and p = oca and repo = "''web''"
         and branch = "''16.0''" and w = start and rest = "[(''web'', ''17.0'')]"
         and e = "CalledProcessError [''git'', ''push''] 1"
         and ?w1.0 = "start\<lparr>trace :=
        [Clone ''OCA'' ''web'' ''16.0'' ''git'',
         Print ''========== web 16.0 =========='',
         Exec [''git'', ''config'', ''user.name'', ''oca-git-bot''] 0,
         Exec [''git'', ''config'', ''user.email'', ''oca-git-bot@odoo-community.org''] 0,
         Exec [''copier'', ''update'', ''-f'', ''--trust''] 0,
         Exec [''rm'', ''-f'', ''oca_dependencies.txt.rej''] 0,
         Exec [''git'', ''add'', ''.''] 0,
         Exec [''pre-commit'', ''run'', ''-a''] 0,
         Exec [''git'', ''add'', ''.''] 0,
         Exec [''git'', ''commit'', ''-m'', ''[IMP] update dotfiles''] 0,
         Exec [''git'', ''push''] 1,
         Cleanup]\<rparr>"]
  by (simp add: iteration_defs prog_defs simulated_defs)

end
